(* ===== verification/Prelude.thy ===== *)
theory Prelude
  imports Complex_Main "HOL-Library.Multiset"
begin

text \<open>
  Shared vocabulary of the development: the Python exceptions the loaders can raise,
  the Python objects that reach them as arguments, the named lemma collections the
  component theories fill, and generic lemmas on lists and sums that several components
  use.
\<close>

section \<open>Lemma collections\<close>

named_theorems frame_wf_intros
  \<open>rules showing that a table operation keeps the table well-formed\<close>
named_theorems loader_simps
  \<open>equations that unfold a loader of reads.py on a concrete world\<close>

section \<open>Python objects and exceptions\<close>

text \<open>
  The exceptions that leave a loader (\<open>Inl\<close> of a result) as opposed to the
  \<open>None\<close> a loader returns on purpose (\<open>Inr None\<close>).
  \<open>ReadFailure\<close> stands for every exception of \<open>pandas.read_csv\<close> other than
  \<open>FileNotFoundError\<close> (a parser error, an empty file, a directory path).
\<close>

datatype py_exc =
    FileNotFoundError | ValueError | TypeError | KeyError | ReadFailure
  | OverflowError | AttributeError | UnboundLocalError

text \<open>
  A value that a caller passes for a file name: a string, the float \<open>nan\<close> that pandas
  puts in an empty cell of a text column, or an integer.
\<close>

datatype pyval = PyStr string | PyNaN | PyInt int

type_synonym path = string

type_synonym 'a result = "py_exc + 'a"

text \<open>Sequencing of statements that may raise: the first exception propagates.\<close>

definition res_bind :: "'a result \<Rightarrow> ('a \<Rightarrow> 'b result) \<Rightarrow> 'b result" where
  "res_bind m f = (case m of Inl e \<Rightarrow> Inl e | Inr x \<Rightarrow> f x)"

section \<open>Generic lemmas\<close>

lemma res_bind_Inl [simp]: "res_bind (Inl e) f = Inl e"
  by (simp add: res_bind_def)

lemma res_bind_Inr [simp]: "res_bind (Inr x) f = f x"
  by (simp add: res_bind_def)

lemma res_bind_eq_Inr:
  "res_bind m f = Inr y \<longleftrightarrow> (\<exists>x. m = Inr x \<and> f x = Inr y)"
  by (cases m) auto

lemma res_bind_eq_Inl:
  "res_bind m f = Inl e \<longleftrightarrow> m = Inl e \<or> (\<exists>x. m = Inr x \<and> f x = Inl e)"
  by (cases m) auto

lemma filter_all_True [simp]: "list_all P xs \<Longrightarrow> filter P xs = xs"
  by (induction xs) auto

lemma list_all_filter [simp]: "list_all P (filter P xs)"
  by (induction xs) auto

text \<open>A loop that stops at the first element failing a test has run over a prefix.\<close>

lemma takeWhile_stop: "\<not> P x \<Longrightarrow> takeWhile P (xs @ x # ys) = takeWhile P xs"
  by (induction xs) auto

lemma takeWhile_take: "\<exists>k \<le> length xs. takeWhile P xs = take k xs"
proof (induction xs)
  case (Cons a xs)
  then obtain k where "k \<le> length xs" "takeWhile P xs = take k xs" by blast
  then show ?case
    by (cases "P a") (auto intro: exI [of _ "Suc k"] exI [of _ 0])
qed simp

text \<open>Grouping a list by the distinct values of a key loses and duplicates nothing.\<close>

lemma mset_filter_disj:
  "(\<And>x. \<not> (P x \<and> Q x)) \<Longrightarrow> mset (filter P xs) + mset (filter Q xs) = mset (filter (\<lambda>x. P x \<or> Q x) xs)"
  by (induction xs) auto

lemma mset_concat_filters:
  "distinct vs \<Longrightarrow>
   mset (concat (map (\<lambda>v. filter (\<lambda>x. key x = v) xs) vs)) = mset (filter (\<lambda>x. key x \<in> set vs) xs)"
proof (induction vs)
  case (Cons v vs)
  then have "mset (concat (map (\<lambda>v. filter (\<lambda>x. key x = v) xs) (v # vs)))
      = mset (filter (\<lambda>x. key x = v) xs) + mset (filter (\<lambda>x. key x \<in> set vs) xs)"
    by simp
  also have "\<dots> = mset (filter (\<lambda>x. key x \<in> set (v # vs)) xs)"
    using Cons.prems by (subst mset_filter_disj) auto
  finally show ?case .
qed simp

lemma mset_concat_partition:
  "distinct vs \<Longrightarrow> \<forall>x \<in> set xs. key x \<in> set vs \<Longrightarrow>
   mset (concat (map (\<lambda>v. filter (\<lambda>x. key x = v) xs) vs)) = mset xs"
  by (simp add: mset_concat_filters list_all_iff [symmetric])

lemma map2_snd: "length xs = length ys \<Longrightarrow> map2 (\<lambda>x y. f y) xs ys = map f ys"
  by (induction xs ys rule: list_induct2) auto

lemma find_Some_mem: "find P xs = Some x \<Longrightarrow> x \<in> set xs \<and> P x"
  by (induction xs) (auto split: if_splits)

lemma sum_list_bounds:
  fixes f :: "'a \<Rightarrow> real"
  assumes "xs \<noteq> []" "\<forall>x \<in> set xs. a < f x \<and> f x < b"
  shows "a * real (length xs) < sum_list (map f xs) \<and> sum_list (map f xs) < b * real (length xs)"
  using assms
proof (induction xs)
  case (Cons x xs)
  then show ?case by (cases "xs = []") (auto simp: algebra_simps)
qed simp

end
