(* ===== verification/PyStr.thy ===== *)
theory PyStr
  imports Prelude
begin

text \<open>
  The Python string builtins that reads.py and the path functions rely on:
  \<open>str.split\<close> with a one-character separator, \<open>sep.join\<close>, the whitespace
  test of \<open>str.strip\<close> and \<open>int()\<close>, \<open>int()\<close> on a string, \<open>str()\<close> of an
  integer and the f-string rendering of the objects that reach the loaders.
  A Python string is a list of code points; the model's \<open>char\<close> is a code point
  below 256 (Latin-1), which covers the file names of the repository.
\<close>

section \<open>Split and join\<close>

text \<open>\<open>s.split(c)\<close>: the pieces between the occurrences of \<open>c\<close>, never empty.\<close>

fun py_split :: "char \<Rightarrow> string \<Rightarrow> string list" where
  "py_split c [] = [[]]"
| "py_split c (x # xs) =
     (let ps = py_split c xs in if x = c then [] # ps else (x # hd ps) # tl ps)"

text \<open>\<open>c.join(ps)\<close>.\<close>

fun py_join :: "char \<Rightarrow> string list \<Rightarrow> string" where
  "py_join c [] = []"
| "py_join c [p] = p"
| "py_join c (p # ps) = p @ c # py_join c ps"

lemma py_split_nonempty [simp]: "py_split c s \<noteq> []"
  by (induction s) (auto simp: Let_def)

lemma py_split_Cons:
  "py_split c (x # xs) =
     (if x = c then [] # py_split c xs
      else (x # hd (py_split c xs)) # tl (py_split c xs))"
  by (simp add: Let_def)

declare py_split.simps(2) [simp del]

lemma py_join_Cons_nonempty: "ps \<noteq> [] \<Longrightarrow> py_join c (p # ps) = p @ c # py_join c ps"
  by (cases ps) auto

lemma py_join_split [simp]: "py_join c (py_split c s) = s"
proof (induction s)
  case Nil
  then show ?case by simp
next
  case (Cons x xs)
  show ?case
  proof (cases "x = c")
    case True
    then show ?thesis using Cons.IH by (simp add: py_split_Cons py_join_Cons_nonempty)
  next
    case False
    obtain p ps where ps: "py_split c xs = p # ps"
      using py_split_nonempty by (metis list.exhaust)
    with Cons.IH have "py_join c (p # ps) = xs" by simp
    with False ps show ?thesis
      by (cases ps) (simp_all add: py_split_Cons)
  qed
qed

lemma py_split_no_sep: "p \<in> set (py_split c s) \<Longrightarrow> c \<notin> set p"
proof (induction s arbitrary: p)
  case Nil
  then show ?case by simp
next
  case (Cons x xs)
  obtain q qs where qs: "py_split c xs = q # qs"
    using py_split_nonempty by (metis list.exhaust)
  from Cons.prems Cons.IH qs show ?case
    by (auto simp: py_split_Cons split: if_splits)
qed

lemma length_py_split: "length (py_split c s) = Suc (count_list s c)"
proof (induction s)
  case Nil
  then show ?case by simp
next
  case (Cons x xs)
  then show ?case
    by (cases "py_split c xs") (auto simp: py_split_Cons)
qed

lemma py_split_append_sep:
  "c \<notin> set p \<Longrightarrow> py_split c (p @ c # s) = p # py_split c s"
proof (induction p)
  case Nil
  then show ?case by (simp add: py_split_Cons)
next
  case (Cons x xs)
  then show ?case by (auto simp: py_split_Cons)
qed

lemma py_split_no_sep_single: "c \<notin> set p \<Longrightarrow> py_split c p = [p]"
proof (induction p)
  case Nil
  then show ?case by simp
next
  case (Cons x xs)
  then show ?case by (auto simp: py_split_Cons)
qed

lemma py_split_join:
  "ps \<noteq> [] \<Longrightarrow> (\<forall>p \<in> set ps. c \<notin> set p) \<Longrightarrow> py_split c (py_join c ps) = ps"
proof (induction ps rule: py_join.induct)
  case (1 c)
  then show ?case by simp
next
  case (2 c p)
  then show ?case by (simp add: py_split_no_sep_single)
next
  case (3 c p q qs)
  then show ?case by (simp add: py_split_append_sep)
qed

section \<open>Whitespace and digits\<close>

text \<open>
  The characters CPython's \<open>int()\<close> and \<open>str.strip()\<close> treat as white space
  (\<open>Py_UNICODE_ISSPACE\<close>), restricted to Latin-1: tab to carriage return, the four
  information separators, space, NEL and no-break space.
\<close>

definition py_is_space :: "char \<Rightarrow> bool" where
  "py_is_space ch \<longleftrightarrow> (of_char ch :: nat) \<in> set [9, 10, 11, 12, 13, 28, 29, 30, 31, 32, 133, 160]"

definition is_digit :: "char \<Rightarrow> bool" where
  "is_digit ch \<longleftrightarrow> 48 \<le> (of_char ch :: nat) \<and> (of_char ch :: nat) \<le> 57"

definition digit_val :: "char \<Rightarrow> nat" where
  "digit_val ch = of_char ch - 48"

definition py_strip_ws :: "string \<Rightarrow> string" where
  "py_strip_ws s = rev (dropWhile py_is_space (rev (dropWhile py_is_space s)))"

section \<open>int() on a string\<close>

text \<open>
  The digits after the first one: a digit, or one underscore followed by a digit
  (\<open>int('1_000') = 1000\<close>; a doubled or trailing underscore is a \<open>ValueError\<close>).
\<close>

fun digits_us :: "nat \<Rightarrow> string \<Rightarrow> nat option" where
  "digits_us acc [] = Some acc"
| "digits_us acc (ch # cs) =
     (if is_digit ch then digits_us (10 * acc + digit_val ch) cs
      else if ch = CHR ''_'' then
        (case cs of
          d # ds \<Rightarrow> if is_digit d then digits_us (10 * acc + digit_val d) ds else None
        | [] \<Rightarrow> None)
      else None)"

definition parse_decimal :: "string \<Rightarrow> nat option" where
  "parse_decimal s =
     (case s of
       ch # cs \<Rightarrow> if is_digit ch then digits_us (digit_val ch) cs else None
     | [] \<Rightarrow> None)"

text \<open>
  \<open>int(s)\<close> for a string \<open>s\<close> in base 10: surrounding white space, one optional
  sign, then the digits. \<open>None\<close> is the \<open>ValueError\<close> the call raises.
\<close>

definition py_int :: "string \<Rightarrow> int option" where
  "py_int s =
     (case py_strip_ws s of
       ch # cs \<Rightarrow>
         if ch = CHR ''-'' then map_option (\<lambda>n. - int n) (parse_decimal cs)
         else if ch = CHR ''+'' then map_option int (parse_decimal cs)
         else map_option int (parse_decimal (ch # cs))
     | [] \<Rightarrow> None)"

section \<open>str() of an integer and f-string rendering\<close>

definition digit_char :: "nat \<Rightarrow> char" where
  "digit_char d = char_of (48 + d)"

fun nat_str :: "nat \<Rightarrow> string" where
  "nat_str n = (if n < 10 then [digit_char n] else nat_str (n div 10) @ [digit_char (n mod 10)])"

declare nat_str.simps [simp del]

definition py_str_int :: "int \<Rightarrow> string" where
  "py_str_int i = (if i < 0 then CHR ''-'' # nat_str (nat (- i)) else nat_str (nat i))"

text \<open>\<open>f"{x}"\<close> for the objects a caller may pass as a file name.\<close>

fun py_format :: "pyval \<Rightarrow> string" where
  "py_format (PyStr s) = s"
| "py_format PyNaN = ''nan''"
| "py_format (PyInt i) = py_str_int i"

subsection \<open>Lemmas on digits\<close>

lemma is_digit_digit_char [simp]: "d < 10 \<Longrightarrow> is_digit (digit_char d)"
  by (simp add: is_digit_def digit_char_def)

lemma digit_val_digit_char [simp]: "d < 10 \<Longrightarrow> digit_val (digit_char d) = d"
  by (simp add: digit_val_def digit_char_def)

lemma digit_not_space: "is_digit ch \<Longrightarrow> \<not> py_is_space ch"
  by (auto simp: is_digit_def py_is_space_def)

lemma digit_char_not_sign [simp]:
  "d < 10 \<Longrightarrow> digit_char d \<noteq> CHR ''-''" "d < 10 \<Longrightarrow> digit_char d \<noteq> CHR ''+''"
  using is_digit_digit_char [of d] by (auto simp: is_digit_def)

lemma nat_str_digits: "list_all is_digit (nat_str n)"
proof (induction n rule: nat_str.induct)
  case (1 n)
  then show ?case by (auto simp: nat_str.simps [of n])
qed

lemma nat_str_nonempty [simp]: "nat_str n \<noteq> []"
  by (simp add: nat_str.simps [of n])

lemma digits_us_all_digits:
  "list_all is_digit ds \<Longrightarrow> digits_us acc ds = Some (foldl (\<lambda>a ch. 10 * a + digit_val ch) acc ds)"
  by (induction ds arbitrary: acc) auto

lemma foldl_nat_str:
  "foldl (\<lambda>a ch. 10 * a + digit_val ch) acc (nat_str n) = acc * 10 ^ length (nat_str n) + n"
proof (induction n arbitrary: acc rule: nat_str.induct)
  case (1 n)
  show ?case
  proof (cases "n < 10")
    case True
    then show ?thesis by (simp add: nat_str.simps [of n])
  next
    case False
    then have "foldl (\<lambda>a ch. 10 * a + digit_val ch) acc (nat_str n)
        = 10 * (acc * 10 ^ length (nat_str (n div 10)) + n div 10) + n mod 10"
      using "1.IH" by (simp add: nat_str.simps [of n])
    also have "\<dots> = acc * 10 ^ length (nat_str n) + n"
      using False by (simp add: nat_str.simps [of n] algebra_simps)
    finally show ?thesis .
  qed
qed

lemma parse_decimal_nat_str [simp]: "parse_decimal (nat_str n) = Some n"
proof -
  obtain ch cs where hs: "nat_str n = ch # cs"
    by (cases "nat_str n") auto
  from nat_str_digits [of n] hs have "is_digit ch" "list_all is_digit cs" by auto
  moreover have "foldl (\<lambda>a ch. 10 * a + digit_val ch) 0 (nat_str n) = n"
    by (simp add: foldl_nat_str)
  ultimately show ?thesis
    using hs by (simp add: parse_decimal_def digits_us_all_digits)
qed

lemma strip_all_digits:
  assumes "list_all is_digit ds"
  shows "py_strip_ws ds = ds" "py_strip_ws (CHR ''-'' # ds) = CHR ''-'' # ds"
proof -
  have nsp: "list_all (\<lambda>ch. \<not> py_is_space ch) ds"
    using assms by (auto simp: list_all_iff digit_not_space)
  have minus: "\<not> py_is_space CHR ''-''" by (simp add: py_is_space_def)
  have dw: "\<And>xs. list_all (\<lambda>ch. \<not> py_is_space ch) xs \<Longrightarrow> dropWhile py_is_space xs = xs"
    by (case_tac xs) auto
  have dwr: "\<And>xs. list_all (\<lambda>ch. \<not> py_is_space ch) xs \<Longrightarrow> dropWhile py_is_space (rev xs) = rev xs"
    by (metis dw list_all_rev)
  show "py_strip_ws ds = ds"
    using nsp by (simp add: py_strip_ws_def dw dwr)
  show "py_strip_ws (CHR ''-'' # ds) = CHR ''-'' # ds"
    using nsp minus by (simp add: py_strip_ws_def dw dwr del: rev.simps)
qed


subsection \<open>Roundtrip of int() and str()\<close>

lemma py_int_py_str_int: "py_int (py_str_int i) = Some i"
proof (cases "i < 0")
  case True
  have s: "py_strip_ws (CHR ''-'' # nat_str (nat (- i))) = CHR ''-'' # nat_str (nat (- i))"
    using nat_str_digits by (rule strip_all_digits(2))
  have "py_int (CHR ''-'' # nat_str (nat (- i))) = Some (- int (nat (- i)))"
    unfolding py_int_def s by simp
  with True show ?thesis by (simp add: py_str_int_def)
next
  case False
  obtain ch cs where hs: "nat_str (nat i) = ch # cs"
    by (cases "nat_str (nat i)") auto
  have "is_digit ch" using nat_str_digits [of "nat i"] hs by simp
  then have nsg: "ch \<noteq> CHR ''-''" "ch \<noteq> CHR ''+''" by (auto simp: is_digit_def)
  have s: "py_strip_ws (nat_str (nat i)) = nat_str (nat i)"
    using nat_str_digits by (rule strip_all_digits(1))
  have "py_int (nat_str (nat i)) = map_option int (parse_decimal (nat_str (nat i)))"
    unfolding py_int_def s unfolding hs using nsg by simp
  with False show ?thesis by (simp add: py_str_int_def)
qed

end
