(* ===== verification/Frame.thy ===== *)
theory Frame
  imports PyStr
begin

text \<open>
  The part of pandas that the loaders of reads.py apply to a table:
  a \<open>DataFrame\<close> as a list of labelled rows under a list of column names, a cell as a
  float, an infinity, a missing value (\<open>NaN\<close>) or a string, \<open>pd.to_numeric\<close> with
  \<open>errors="coerce"\<close> (string cells parsed as pandas' \<open>floatify\<close> does), column
  selection and assignment, and \<open>dropna\<close>. The well-formedness invariant is that
  column names are distinct (as \<open>read_csv\<close> makes them) and every row has one cell
  per column; every operation keeps it.
\<close>

section \<open>Cells and tables\<close>

text \<open>
  A cell: a finite float, \<open>inf\<close>, \<open>-inf\<close>, the missing value, or a string of an
  object column. Floats are modelled by the exact real they denote.
\<close>

datatype cell = Num real | PosInf | NegInf | NaN | Str string

record frame =
  columns :: "string list"
  rows :: "(nat \<times> cell list) list"

definition frame_wf :: "frame \<Rightarrow> bool" where
  "frame_wf df \<longleftrightarrow>
     distinct (columns df) \<and> list_all (\<lambda>r. length (snd r) = length (columns df)) (rows df)"

definition is_na :: "cell \<Rightarrow> bool" where
  "is_na c \<longleftrightarrow> c = NaN"

fun is_number :: "cell \<Rightarrow> bool" where
  "is_number (Num _) = True"
| "is_number PosInf = True"
| "is_number NegInf = True"
| "is_number NaN = False"
| "is_number (Str _) = False"

section \<open>pd.to_numeric(errors="coerce")\<close>

text \<open>
  The white space pandas' C parser skips around a number (\<open>isspace_ascii\<close>).
\<close>

definition c_is_space :: "char \<Rightarrow> bool" where
  "c_is_space ch \<longleftrightarrow> (of_char ch :: nat) \<in> set [9, 10, 11, 12, 13, 32]"

definition dec_value :: "string \<Rightarrow> nat" where
  "dec_value ds = foldl (\<lambda>a ch. 10 * a + digit_val ch) 0 ds"

definition pow10 :: "int \<Rightarrow> real" where
  "pow10 e = (if 0 \<le> e then 10 ^ nat e else 1 / 10 ^ nat (- e))"

text \<open>An exponent: an optional sign and at least one digit, and nothing after.\<close>

definition parse_exponent :: "string \<Rightarrow> int option" where
  "parse_exponent s =
     (let (neg, t) = (case s of
                        ch # r \<Rightarrow> if ch = CHR ''-'' then (True, r)
                                 else if ch = CHR ''+'' then (False, r) else (False, s)
                      | [] \<Rightarrow> (False, s))
      in if t \<noteq> [] \<and> list_all is_digit t
         then Some (if neg then - int (dec_value t) else int (dec_value t))
         else None)"

text \<open>
  A decimal literal without its sign: digits, an optional point with digits, at least
  one digit in all, then an optional exponent, and nothing after.
\<close>

definition parse_unsigned :: "string \<Rightarrow> real option" where
  "parse_unsigned s =
     (let ip = takeWhile is_digit s;
          r1 = dropWhile is_digit s;
          (fp, r2) = (case r1 of
                        ch # t \<Rightarrow> if ch = CHR ''.'' then (takeWhile is_digit t, dropWhile is_digit t)
                                 else ([], r1)
                      | [] \<Rightarrow> ([], r1));
          m = real (dec_value (ip @ fp));
          k = int (length fp)
      in if ip = [] \<and> fp = [] then None
         else case r2 of
           [] \<Rightarrow> Some (m * pow10 (- k))
         | ch # t \<Rightarrow>
             if ch = CHR ''e'' \<or> ch = CHR ''E''
             then map_option (\<lambda>x. m * pow10 (x - k)) (parse_exponent t)
             else None)"

definition strip_c_space :: "string \<Rightarrow> string" where
  "strip_c_space s = rev (dropWhile c_is_space (rev (dropWhile c_is_space s)))"

definition lower_ascii :: "char \<Rightarrow> char" where
  "lower_ascii ch =
     (if 65 \<le> (of_char ch :: nat) \<and> (of_char ch :: nat) \<le> 90 then char_of (of_char ch + (32 :: nat))
      else ch)"

text \<open>
  \<open>floatify\<close>: a signed decimal literal between white space, or one of the spellings
  of infinity (compared without case). \<open>None\<close> is a string pandas cannot parse.
\<close>

definition floatify :: "string \<Rightarrow> cell option" where
  "floatify s =
     (let t = strip_c_space s;
          lit = (case t of
                   ch # r \<Rightarrow>
                     if ch = CHR ''-'' then map_option uminus (parse_unsigned r)
                     else if ch = CHR ''+'' then parse_unsigned r
                     else parse_unsigned t
                 | [] \<Rightarrow> None);
          low = map lower_ascii s
      in case lit of
           Some x \<Rightarrow> Some (Num x)
         | None \<Rightarrow>
             if low \<in> set [''inf'', ''+inf'', ''infinity'', ''+infinity''] then Some PosInf
             else if low \<in> set [''-inf'', ''-infinity''] then Some NegInf
             else None)"

text \<open>\<open>pd.to_numeric(col, errors="coerce")\<close>, cell by cell.\<close>

fun to_numeric_cell :: "cell \<Rightarrow> cell" where
  "to_numeric_cell (Str s) = (case floatify s of Some c \<Rightarrow> c | None \<Rightarrow> NaN)"
| "to_numeric_cell c = c"

section \<open>Column access, apply and dropna\<close>

text \<open>
  \<open>df.apply(f)\<close> with a function applied to every column (reads.py lines 57, 89).
\<close>

definition apply_all :: "(cell \<Rightarrow> cell) \<Rightarrow> frame \<Rightarrow> frame" where
  "apply_all f df = df\<lparr>rows := map (\<lambda>(i, cs). (i, map f cs)) (rows df)\<rparr>"

text \<open>
  \<open>df[cols] = df[cols].apply(f)\<close> (reads.py line 31): selecting a list of columns
  raises \<open>KeyError\<close> when one of them is missing; otherwise \<open>f\<close> is applied to the
  cells of the selected columns and the others are left as they are.
\<close>

definition apply_cols :: "(cell \<Rightarrow> cell) \<Rightarrow> string list \<Rightarrow> frame \<Rightarrow> frame result" where
  "apply_cols f cols df =
     (if set cols \<subseteq> set (columns df)
      then Inr (df\<lparr>rows := map (\<lambda>(i, cs).
                  (i, map (\<lambda>(name, c). if name \<in> set cols then f c else c)
                          (zip (columns df) cs))) (rows df)\<rparr>)
      else Inl KeyError)"

text \<open>\<open>df.dropna()\<close>: drop every row with a missing cell; labels are kept.\<close>

definition dropna :: "frame \<Rightarrow> frame" where
  "dropna df = df\<lparr>rows := filter (\<lambda>(i, cs). \<not> list_ex is_na cs) (rows df)\<rparr>"


section \<open>Lemmas\<close>

subsection \<open>Coercion\<close>

lemma floatify_number: "floatify s = Some c \<Longrightarrow> is_number c"
  by (auto simp: floatify_def Let_def split: option.splits if_splits)

text \<open>After coercion a cell is a number or missing: no string is left.\<close>

lemma to_numeric_cell_number_or_na: "is_number (to_numeric_cell c) \<or> is_na (to_numeric_cell c)"
  by (cases c) (auto simp: is_na_def dest: floatify_number split: option.splits)

lemma to_numeric_cell_idem [simp]: "to_numeric_cell (to_numeric_cell c) = to_numeric_cell c"
proof (cases c)
  case (Str s)
  then show ?thesis
  proof (cases "floatify s")
    case (Some d)
    then have "is_number d" by (rule floatify_number)
    with Str Some show ?thesis by (cases d) auto
  qed simp
qed simp_all

lemma is_number_not_na: "is_number c \<Longrightarrow> \<not> is_na c"
  by (cases c) (auto simp: is_na_def)

subsection \<open>Well-formedness\<close>

lemma apply_all_wf [frame_wf_intros]: "frame_wf df \<Longrightarrow> frame_wf (apply_all f df)"
  by (auto simp: frame_wf_def apply_all_def list_all_iff)

lemma dropna_wf [frame_wf_intros]: "frame_wf df \<Longrightarrow> frame_wf (dropna df)"
  by (auto simp: frame_wf_def dropna_def list_all_iff)

lemma apply_cols_wf [frame_wf_intros]:
  "frame_wf df \<Longrightarrow> apply_cols f cols df = Inr df' \<Longrightarrow> frame_wf df'"
  by (fastforce simp: frame_wf_def apply_cols_def list_all_iff split: if_splits)

subsection \<open>Shape of the results\<close>

lemma columns_apply_all [simp]: "columns (apply_all f df) = columns df"
  by (simp add: apply_all_def)

lemma columns_dropna [simp]: "columns (dropna df) = columns df"
  by (simp add: dropna_def)

lemma rows_dropna:
  "rows (dropna df) = filter (\<lambda>(i, cs). \<not> list_ex is_na cs) (rows df)"
  by (simp add: dropna_def)

lemma rows_apply_all:
  "rows (apply_all f df) = map (\<lambda>(i, cs). (i, map f cs)) (rows df)"
  by (simp add: apply_all_def)

lemma dropna_idem [simp]: "dropna (dropna df) = dropna df"
  by (simp add: dropna_def)

text \<open>\<open>dropna\<close> keeps exactly the rows with no missing cell, in their order.\<close>

lemma dropna_no_na: "r \<in> set (rows (dropna df)) \<Longrightarrow> \<not> list_ex is_na (snd r)"
  by (auto simp: dropna_def)

lemma dropna_keeps: "r \<in> set (rows df) \<Longrightarrow> \<not> list_ex is_na (snd r) \<Longrightarrow> r \<in> set (rows (dropna df))"
  by (auto simp: dropna_def)

text \<open>
  Coercing every column and then dropping the rows with a missing cell leaves only
  numbers, and loses exactly the rows in which some cell did not parse.
\<close>

lemma coerce_dropna_numbers:
  "r \<in> set (rows (dropna (apply_all to_numeric_cell df))) \<Longrightarrow> list_all is_number (snd r)"
proof -
  assume r: "r \<in> set (rows (dropna (apply_all to_numeric_cell df)))"
  then obtain i cs where "(i, cs) \<in> set (rows df)" and r_eq: "r = (i, map to_numeric_cell cs)"
    by (auto simp: dropna_def apply_all_def)
  moreover have "\<not> list_ex is_na (snd r)" using r by (rule dropna_no_na)
  ultimately show ?thesis
    using to_numeric_cell_number_or_na by (fastforce simp: list_all_iff list_ex_iff)
qed

lemma rows_apply_cols:
  "apply_cols f cols df = Inr df' \<Longrightarrow>
     rows df' = map (\<lambda>(i, cs). (i, map (\<lambda>(name, c). if name \<in> set cols then f c else c)
                                      (zip (columns df) cs))) (rows df)
   \<and> columns df' = columns df"
  by (auto simp: apply_cols_def split: if_splits)

lemma apply_cols_KeyError:
  "apply_cols f cols df = Inl e \<longleftrightarrow> e = KeyError \<and> \<not> set cols \<subseteq> set (columns df)"
  by (auto simp: apply_cols_def)

end
