(* ===== verification/PosixPath.thy ===== *)
theory PosixPath
  imports PyStr
begin

text \<open>
  The functions of Python's \<open>posixpath\<close> module (\<open>os.path\<close> on Linux and macOS)
  that the repository calls to locate its files: \<open>isabs\<close>, \<open>join\<close>,
  \<open>dirname\<close>, \<open>normpath\<close> and \<open>abspath\<close>, each translated from the library's
  Python source. The lemmas characterise the normal form that \<open>normpath\<close>
  produces; the File Locator of reads.py (theory Reads) rests on them.
\<close>

section \<open>Definitions\<close>

abbreviation slash :: char where
  "slash \<equiv> CHR ''/''"

definition posix_isabs :: "path \<Rightarrow> bool" where
  "posix_isabs p \<longleftrightarrow> take 1 p = ''/''"

text \<open>\<open>join(a, b)\<close>: an absolute \<open>b\<close> replaces \<open>a\<close>.\<close>

definition posix_join :: "path \<Rightarrow> path \<Rightarrow> path" where
  "posix_join a b =
     (if take 1 b = ''/'' then b
      else if a = [] \<or> last a = slash then a @ b
      else a @ slash # b)"

text \<open>
  \<open>dirname(p)\<close>: the prefix up to the last separator, with trailing separators
  removed unless it consists of separators only.
\<close>

definition posix_dirname :: "path \<Rightarrow> path" where
  "posix_dirname p =
     (let head = rev (dropWhile (\<lambda>ch. ch \<noteq> slash) (rev p))
      in if head \<noteq> [] \<and> \<not> list_all (\<lambda>ch. ch = slash) head
         then rev (dropWhile (\<lambda>ch. ch = slash) (rev head))
         else head)"

text \<open>
  One iteration of the loop of \<open>normpath\<close>. The list \<open>new_comps\<close> of the source is
  kept reversed (its last element first), so that \<open>new_comps[-1]\<close> is \<open>hd\<close>,
  \<open>append\<close> is \<open>#\<close> and \<open>pop()\<close> is \<open>tl\<close>.
\<close>

definition norm_step :: "bool \<Rightarrow> string list \<Rightarrow> string \<Rightarrow> string list" where
  "norm_step initial st part =
     (if part = [] \<or> part = ''.'' then st
      else if part \<noteq> ''..'' \<or> (\<not> initial \<and> st = []) \<or> (st \<noteq> [] \<and> hd st = ''..'')
      then part # st
      else if st \<noteq> [] then tl st
      else st)"

definition norm_comps :: "bool \<Rightarrow> string list \<Rightarrow> string list" where
  "norm_comps initial comps = rev (foldl (norm_step initial) [] comps)"

text \<open>
  The number of leading separators \<open>normpath\<close> keeps: POSIX gives two leading
  slashes an implementation-defined meaning and treats three or more as one.
\<close>

definition initial_slashes :: "path \<Rightarrow> nat" where
  "initial_slashes p =
     (if take 2 p = ''//'' \<and> take 3 p \<noteq> ''///'' then 2
      else if take 1 p = ''/'' then 1 else 0)"

definition posix_normpath :: "path \<Rightarrow> path" where
  "posix_normpath p =
     (if p = [] then ''.''
      else
        let k = initial_slashes p;
            r = replicate k slash @ py_join slash (norm_comps (k \<noteq> 0) (py_split slash p))
        in if r = [] then ''.'' else r)"

text \<open>\<open>abspath(p)\<close>, with \<open>os.getcwd()\<close> passed explicitly.\<close>

definition posix_abspath :: "path \<Rightarrow> path \<Rightarrow> path" where
  "posix_abspath cwd p = posix_normpath (if posix_isabs p then p else posix_join cwd p)"


section \<open>Clean absolute paths\<close>

text \<open>
  A component that \<open>normpath\<close> keeps as it is, and the absolute path made of such
  components: the form of \<open>os.getcwd()\<close> and of a module's \<open>__file__\<close>.
\<close>

definition plain_comp :: "string \<Rightarrow> bool" where
  "plain_comp c \<longleftrightarrow> c \<noteq> [] \<and> c \<noteq> ''.'' \<and> c \<noteq> ''..'' \<and> slash \<notin> set c"

definition clean_abs :: "string list \<Rightarrow> path" where
  "clean_abs cs = slash # py_join slash cs"

lemma py_join_snoc:
  "cs \<noteq> [] \<Longrightarrow> py_join c (cs @ [x]) = py_join c cs @ c # x"
  by (induction c cs rule: py_join.induct) auto

lemma py_join_hd:
  "cs \<noteq> [] \<Longrightarrow> hd cs \<noteq> [] \<Longrightarrow> hd (py_join c cs) = hd (hd cs)"
  by (induction c cs rule: py_join.induct) auto

lemma py_join_Nil_iff: "py_join c cs = [] \<longleftrightarrow> cs = [] \<or> cs = [[]]"
  by (induction c cs rule: py_join.induct) auto

lemma py_join_last:
  "cs \<noteq> [] \<Longrightarrow> last cs \<noteq> [] \<Longrightarrow> last (py_join c cs) = last (last cs)"
  by (induction c cs rule: py_join.induct) (auto simp: py_join_Nil_iff)

lemma py_join_nonempty:
  "cs \<noteq> [] \<Longrightarrow> hd cs \<noteq> [] \<Longrightarrow> py_join c cs \<noteq> []"
  by (induction c cs rule: py_join.induct) auto

lemma foldl_norm_step_plain:
  "list_all plain_comp cs \<Longrightarrow> foldl (norm_step initial) st cs = rev cs @ st"
  by (induction cs arbitrary: st) (auto simp: norm_step_def plain_comp_def)

lemma norm_comps_plain:
  "list_all plain_comp cs \<Longrightarrow> norm_comps initial ([] # cs) = cs"
  by (simp add: norm_comps_def norm_step_def foldl_norm_step_plain)

lemma plain_hd_not_slash:
  "list_all plain_comp cs \<Longrightarrow> cs \<noteq> [] \<Longrightarrow> hd (py_join slash cs) \<noteq> slash"
proof -
  assume a: "list_all plain_comp cs" "cs \<noteq> []"
  then have "hd cs \<noteq> []" "slash \<notin> set (hd cs)"
    by (cases cs; simp add: plain_comp_def)+
  with a(2) show ?thesis
    by (metis py_join_hd list.set_sel(1))
qed

lemma plain_last_not_slash:
  assumes "list_all plain_comp cs" "cs \<noteq> []"
  shows "last (py_join slash cs) \<noteq> slash"
proof -
  have l: "last cs \<noteq> []" "slash \<notin> set (last cs)"
    using assms by (auto simp: list_all_iff plain_comp_def)
  then have "last (last cs) \<noteq> slash" by (metis last_in_set)
  with l assms(2) show ?thesis by (simp add: py_join_last)
qed

lemma initial_slashes_clean_abs:
  assumes "list_all plain_comp cs" "cs \<noteq> []"
  shows "initial_slashes (clean_abs cs) = 1"
proof -
  have "hd cs \<noteq> []" using assms by (cases cs) (auto simp: plain_comp_def)
  then obtain x r where j: "py_join slash cs = x # r"
    using assms(2) py_join_nonempty by (metis list.exhaust)
  moreover have "x \<noteq> slash"
    using plain_hd_not_slash [OF assms] j by simp
  ultimately show ?thesis
    by (simp add: initial_slashes_def clean_abs_def)
qed

lemma py_split_clean_abs:
  "list_all plain_comp cs \<Longrightarrow> cs \<noteq> [] \<Longrightarrow> py_split slash (clean_abs cs) = [] # cs"
  by (simp add: clean_abs_def py_split_Cons py_split_join list_all_iff plain_comp_def)

text \<open>\<open>normpath\<close> leaves a clean absolute path unchanged.\<close>

lemma normpath_clean_abs:
  assumes "list_all plain_comp cs"
  shows "posix_normpath (clean_abs cs) = clean_abs cs"
proof (cases "cs = []")
  case True
  then show ?thesis
    by (simp add: posix_normpath_def clean_abs_def initial_slashes_def norm_comps_def
        norm_step_def py_split_Cons)
next
  case False
  with assms show ?thesis
    by (simp add: posix_normpath_def initial_slashes_clean_abs py_split_clean_abs
        norm_comps_plain) (simp add: clean_abs_def)
qed

text \<open>\<open>join\<close> of a clean path and a plain component appends the component.\<close>

lemma join_clean_abs:
  assumes "list_all plain_comp cs" "plain_comp c"
  shows "posix_join (clean_abs cs) c = clean_abs (cs @ [c])"
proof (cases "cs = []")
  case True
  with assms(2) show ?thesis
    by (cases c) (auto simp: posix_join_def clean_abs_def plain_comp_def)
next
  case False
  have "py_join slash cs \<noteq> []"
    using False assms(1) by (cases cs) (auto simp: py_join_Nil_iff plain_comp_def)
  then have "last (clean_abs cs) \<noteq> slash"
    using plain_last_not_slash [OF assms(1) False] by (simp add: clean_abs_def)
  with assms(2) False show ?thesis
    by (cases c) (auto simp: posix_join_def clean_abs_def plain_comp_def py_join_snoc)
qed

text \<open>\<open>dirname\<close> of a clean path removes its last component.\<close>

lemma dirname_clean_abs:
  assumes "list_all plain_comp cs" "plain_comp c"
  shows "posix_dirname (clean_abs (cs @ [c])) = clean_abs cs"
proof (cases "cs = []")
  case True
  have "dropWhile (\<lambda>ch. ch \<noteq> slash) (rev c @ [slash]) = [slash]"
    using assms(2) by (subst dropWhile_append2) (auto simp: plain_comp_def)
  with True show ?thesis
    by (simp add: posix_dirname_def clean_abs_def)
next
  case False
  let ?j = "py_join slash cs"
  have nc: "slash \<notin> set c" using assms(2) by (simp add: plain_comp_def)
  have head: "rev (dropWhile (\<lambda>ch. ch \<noteq> slash) (rev (clean_abs (cs @ [c]))))
      = slash # ?j @ [slash]"
    using False nc by (simp add: clean_abs_def py_join_snoc) (subst dropWhile_append2, auto)
  have hne: "hd cs \<noteq> []" "slash \<notin> set (hd cs)"
    using assms(1) False by (cases cs; simp add: plain_comp_def)+
  have jne: "?j \<noteq> []" using False hne(1) by (rule py_join_nonempty)
  have "hd ?j \<noteq> slash" using assms(1) False by (rule plain_hd_not_slash)
  then have notall: "\<not> list_all (\<lambda>ch. ch = slash) (slash # ?j @ [slash])"
    using jne by (cases ?j) auto
  have "last ?j \<noteq> slash" using assms(1) False by (rule plain_last_not_slash)
  obtain y ys where rj: "rev ?j = y # ys"
    using jne by (cases "rev ?j") auto
  have "y = last ?j"
    using rj hd_rev [of ?j] by simp
  with \<open>last ?j \<noteq> slash\<close> have ny: "y \<noteq> slash" by simp
  have j: "?j = rev ys @ [y]"
    using rj by (simp add: rev_swap)
  have "dropWhile (\<lambda>ch. ch = slash) (rev (slash # ?j @ [slash])) = y # ys @ [slash]"
    using rj ny by simp
  then have "rev (dropWhile (\<lambda>ch. ch = slash) (rev (slash # ?j @ [slash]))) = slash # ?j"
    using j by simp
  then show ?thesis
    using head notall by (simp add: posix_dirname_def Let_def clean_abs_def)
qed

lemma normpath_isabs:
  "posix_isabs p \<Longrightarrow> posix_isabs (posix_normpath p)"
  by (cases p) (auto simp: posix_isabs_def posix_normpath_def initial_slashes_def Let_def)

lemma py_join_append:
  "cs \<noteq> [] \<Longrightarrow> ds \<noteq> [] \<Longrightarrow> py_join c (cs @ ds) = py_join c cs @ c # py_join c ds"
  by (induction c cs rule: py_join.induct) (auto simp: neq_Nil_conv)

text \<open>\<open>join\<close> of a clean path and a relative path of plain components.\<close>

lemma join_clean_abs_rel:
  assumes "list_all plain_comp cs" "list_all plain_comp ds" "ds \<noteq> []"
  shows "posix_join (clean_abs cs) (py_join slash ds) = clean_abs (cs @ ds)"
proof -
  have hd: "hd ds \<noteq> []" "slash \<notin> set (hd ds)"
    using assms(2,3) by (cases ds; simp add: plain_comp_def)+
  then have nb: "take 1 (py_join slash ds) \<noteq> ''/''"
    using py_join_hd [OF assms(3) hd(1), of slash] py_join_nonempty [OF assms(3) hd(1), of slash]
    by (cases "py_join slash ds") (auto dest: list.set_sel(1))
  show ?thesis
  proof (cases "cs = []")
    case True
    then show ?thesis using nb by (simp add: posix_join_def clean_abs_def)
  next
    case False
    have "py_join slash cs \<noteq> []"
      using False assms(1) by (cases cs) (auto simp: py_join_Nil_iff plain_comp_def)
    then have "last (clean_abs cs) \<noteq> slash"
      using plain_last_not_slash [OF assms(1) False] by (simp add: clean_abs_def)
    then show ?thesis
      using nb False assms(3) by (simp add: posix_join_def clean_abs_def py_join_append)
  qed
qed

lemma normpath_parent:
  assumes "list_all plain_comp cs" "plain_comp a" "plain_comp x"
  shows "posix_normpath (slash # py_join slash (cs @ [a, ''..'', x])) = clean_abs (cs @ [x])"
proof -
  have nos: "\<forall>p \<in> set (cs @ [a, ''..'', x]). slash \<notin> set p"
    using assms by (auto simp: plain_comp_def list_all_iff)
  have sp: "py_split slash (slash # py_join slash (cs @ [a, ''..'', x])) = [] # cs @ [a, ''..'', x]"
    using py_split_join [OF _ nos] by (simp add: py_split_Cons)
  have "foldl (norm_step True) [] ([] # cs @ [a, ''..'', x]) = x # rev cs"
    using assms by (simp add: foldl_norm_step_plain norm_step_def plain_comp_def)
  then have nc: "norm_comps True ([] # cs @ [a, ''..'', x]) = cs @ [x]"
    by (simp add: norm_comps_def)
  let ?L = "cs @ [a, ''..'', x]"
  have h: "hd ?L \<noteq> []" "slash \<notin> set (hd ?L)"
    using assms(1,2) by (cases cs; simp add: plain_comp_def)+
  obtain y r where j: "py_join slash ?L = y # r"
    using py_join_nonempty [of ?L, OF _ h(1)] by (cases "py_join slash ?L") auto
  have "y = hd (hd ?L)"
    using py_join_hd [of ?L slash, OF _ h(1)] j by simp
  then have "y \<noteq> slash" using h by (metis list.set_sel(1))
  then have is1: "initial_slashes (slash # py_join slash ?L) = 1"
    using j by (simp add: initial_slashes_def)
  show ?thesis
    by (simp add: posix_normpath_def is1 sp nc clean_abs_def)
qed

end
