(* ===== verification/Reads.thy ===== *)
theory Reads
  imports Frame PosixPath
begin

text \<open>
  The loader module \<^verbatim>\<open>src/Analysis/reads.py\<close> (imported by the scripts as
  \<open>adds\<close>): the File Locator that computes the repository directory from
  \<open>__file__\<close>, and the six loaders. A loader is a function of the world it runs in:
  the current directory, the \<open>__file__\<close> Python gives the module, and the
  file system as \<open>pandas.read_csv\<close> and \<open>cv2.imread\<close> see it. Exceptions that
  escape a loader are \<open>Inl\<close>; the \<open>None\<close> a loader returns is \<open>Inr None\<close>.
\<close>

section \<open>The world\<close>

text \<open>What \<open>pd.read_csv\<close> makes of the file at an absolute path.\<close>

datatype csv_outcome = NoFile | Unreadable | Csv frame

text \<open>A decoded image, as \<open>cv2.imread\<close> returns it: rows of pixels.\<close>

datatype image = Image "nat list list"

record world =
  cwd :: path
  reads_file :: path
  csv_of :: "path \<Rightarrow> csv_outcome"
  img_of :: "path \<Rightarrow> image option"

text \<open>The operating system resolves a relative path against the current directory.\<close>

definition resolve :: "world \<Rightarrow> path \<Rightarrow> path" where
  "resolve w p = posix_abspath (cwd w) p"

definition read_csv :: "world \<Rightarrow> path \<Rightarrow> frame result" where
  "read_csv w p =
     (case csv_of w (resolve w p) of
        NoFile \<Rightarrow> Inl FileNotFoundError
      | Unreadable \<Rightarrow> Inl ReadFailure
      | Csv df \<Rightarrow> Inr df)"

definition cv2_imread :: "world \<Rightarrow> path \<Rightarrow> image option" where
  "cv2_imread w p = img_of w (resolve w p)"

section \<open>File Locator (reads.py lines 15 and 18)\<close>

definition reads_directory :: "world \<Rightarrow> path" where
  "reads_directory w = posix_dirname (posix_abspath (cwd w) (reads_file w))"

definition IDC_directory :: "world \<Rightarrow> path" where
  "IDC_directory w = posix_dirname (reads_directory w)"

section \<open>Loaders\<close>

text \<open>
  The \<open>try: pd.read_csv(...) except FileNotFoundError: return None\<close> of three
  loaders: a missing file becomes \<open>None\<close>, every other exception escapes.
\<close>

definition read_csv_or_none :: "world \<Rightarrow> path \<Rightarrow> frame option result" where
  "read_csv_or_none w p =
     (case read_csv w p of
        Inl FileNotFoundError \<Rightarrow> Inr None
      | Inl e \<Rightarrow> Inl e
      | Inr df \<Rightarrow> Inr (Some df))"

text \<open>Cast all columns to numbers and drop the rows that did not parse.\<close>

definition coerce_and_dropna :: "frame \<Rightarrow> frame" where
  "coerce_and_dropna df = dropna (apply_all to_numeric_cell df)"

definition master_csv_name :: string where
  "master_csv_name = ''IDCSubmersionMasterlist_20250505.csv''"

definition master_numeric_cols :: "string list" where
  "master_numeric_cols = [''Voltage'', ''Pattern'']"

definition get_master :: "world \<Rightarrow> frame result" where
  "get_master w =
     (case read_csv w (posix_join (IDC_directory w) master_csv_name) of
        Inl e \<Rightarrow> Inl e
      | Inr master \<Rightarrow> apply_cols to_numeric_cell master_numeric_cols master)"

definition get_master_cached :: "world \<Rightarrow> frame option result" where
  "get_master_cached w = read_csv_or_none w (posix_join (IDC_directory w) ''master_cached.csv'')"

definition get_current_time :: "world \<Rightarrow> pyval \<Rightarrow> frame option result" where
  "get_current_time w file_name =
     (case read_csv_or_none w (''CurrentTime/'' @ py_format file_name) of
        Inl e \<Rightarrow> Inl e
      | Inr None \<Rightarrow> Inr None
      | Inr (Some current_time) \<Rightarrow> Inr (Some (coerce_and_dropna current_time)))"

text \<open>The relative path a CF/CV file is read from (reads.py line 83).\<close>

definition sweep_path :: "string \<Rightarrow> string \<Rightarrow> string \<Rightarrow> path" where
  "sweep_path cf_or_cv age file_name = cf_or_cv @ ''/'' @ cf_or_cv @ ''_'' @ age @ ''/'' @ file_name"

definition name_components :: "string \<Rightarrow> string list" where
  "name_components file_name = py_split CHR ''_'' (hd (py_split CHR ''.'' file_name))"

definition get_cf_or_cv :: "world \<Rightarrow> pyval \<Rightarrow> frame option result" where
  "get_cf_or_cv w file_name =
     (case file_name of
        PyStr s \<Rightarrow>
          (let components = name_components s
           in if length components \<noteq> 7 then Inr None
              else
                (case py_int (components ! 6) of
                   None \<Rightarrow> Inl ValueError
                 | Some iteration \<Rightarrow>
                     (let age = (if iteration = 0 then ''PRISTINE'' else ''EXPOSED'');
                          cf_or_cv = components ! 5
                      in case read_csv_or_none w (sweep_path cf_or_cv age s) of
                           Inl e \<Rightarrow> Inl e
                         | Inr None \<Rightarrow> Inr None
                         | Inr (Some df) \<Rightarrow> Inr (Some (coerce_and_dropna df)))))
      | _ \<Rightarrow> Inr None)"

definition get_board_image :: "world \<Rightarrow> pyval \<Rightarrow> string \<Rightarrow> image option result" where
  "get_board_image w file_name age =
     (let directory = (if age = ''PRISTINE''
                       then posix_join (IDC_directory w) ''Imgscans_PRISTINE_templates''
                       else posix_join (IDC_directory w) (''Imgscans_'' @ age))
      in case file_name of
           PyStr s \<Rightarrow> Inr (cv2_imread w (posix_join directory s))
         | _ \<Rightarrow> Inl TypeError)"

definition get_sensor_image :: "world \<Rightarrow> pyval \<Rightarrow> string \<Rightarrow> image option result" where
  "get_sensor_image w file_name age =
     (case file_name of
        PyStr s \<Rightarrow>
          (let sensors_directory = posix_join (IDC_directory w) (''Imgscans_'' @ age @ ''_sensors'')
           in Inr (cv2_imread w (posix_join sensors_directory s)))
      | _ \<Rightarrow> Inr None)"


section \<open>The specification of the sweep loader (spec section 4.5)\<close>

text \<open>
  What the spec promises of \<open>get_cf_or_cv\<close>, with the ages as a closed type: a
  name of seven underscore-separated components locates a family (component 5) and an
  age (component 6, pristine iff it is the integer 0); a malformed name, a missing or
  unreadable file all give "unavailable", and nothing is raised.
\<close>

datatype age = Pristine | Exposed

definition age_of_iteration :: "int \<Rightarrow> age" where
  "age_of_iteration n = (if n = 0 then Pristine else Exposed)"

fun age_dir :: "age \<Rightarrow> string" where
  "age_dir Pristine = ''PRISTINE''"
| "age_dir Exposed = ''EXPOSED''"

definition sweep_locate :: "string \<Rightarrow> (string \<times> age) option" where
  "sweep_locate s =
     (let cs = name_components s
      in if length cs = 7 then map_option (\<lambda>n. (cs ! 5, age_of_iteration n)) (py_int (cs ! 6))
         else None)"

definition sweep_load_spec :: "world \<Rightarrow> string \<Rightarrow> frame option" where
  "sweep_load_spec w s =
     (case sweep_locate s of
        None \<Rightarrow> None
      | Some (family, a) \<Rightarrow>
          (case read_csv w (sweep_path family (age_dir a) s) of
             Inl _ \<Rightarrow> None
           | Inr df \<Rightarrow> Some (coerce_and_dropna df)))"


section \<open>A concrete repository\<close>

text \<open>
  Fixtures for the witnesses: the repository checked out at
  \<^verbatim>\<open>/home/lab/IDC_EM_analysis\<close>, run from its root, with a master list whose
  \<open>Voltage\<close> column holds the strings \<open>"12"\<close>, \<open>"n/a"\<close>, \<open>"15"\<close> (spec
  section 8), one CF sweep file with a repeated header row, and one template image.
\<close>

definition ex_root :: "string list" where
  "ex_root = [''home'', ''lab'', ''IDC_EM_analysis'']"

definition ex_master :: frame where
  "ex_master =
     \<lparr>columns = [''Board ID'', ''Voltage'', ''Pattern''],
      rows = [(0, [Str ''B1'', Str ''12'', Num 1]), (1, [Str ''B2'', Str ''n/a'', Num 4]),
              (2, [Str ''B3'', Str ''15'', NaN])]\<rparr>"

definition ex_sweep :: frame where
  "ex_sweep =
     \<lparr>columns = [''Frequency (Hz)'', ''Capacitance (F)''],
      rows = [(0, [Str ''100'', Str ''2.5'']), (1, [Str ''Frequency (Hz)'', Str ''Capacitance (F)'']),
              (2, [Num 200, Num 3])]\<rparr>"

definition ex_current :: frame where
  "ex_current =
     \<lparr>columns = [''Time (ms)'', ''Current (mA)''],
      rows = [(0, [Num 0, Num 0]), (1, [Str ''---'', Str ''---'']), (2, [Num 10, Str ''0.25''])]\<rparr>"

definition ex_world :: world where
  "ex_world =
     \<lparr>cwd = clean_abs ex_root,
      reads_file = clean_abs (ex_root @ [''Analysis'', ''reads.py'']),
      csv_of = (\<lambda>p. if p = clean_abs (ex_root @ [''IDCSubmersionMasterlist_20250505.csv''])
                    then Csv ex_master
                    else if p = clean_abs (ex_root @ [''CF'', ''CF_PRISTINE'', ''A_B_C_D_E_CF_0.csv''])
                    then Csv ex_sweep
                    else if p = clean_abs (ex_root @ [''CurrentTime'', ''B1_U1.csv''])
                    then Csv ex_current
                    else NoFile),
      img_of = (\<lambda>p. if p = clean_abs (ex_root @ [''Imgscans_PRISTINE_templates'', ''b1.png''])
                    then Some (Image [[0, 255]]) else None)\<rparr>"

section \<open>Lemmas\<close>

subsection \<open>Reading files\<close>

lemma read_csv_or_none_eq:
  "read_csv_or_none w p =
     (case csv_of w (resolve w p) of
        NoFile \<Rightarrow> Inr None
      | Unreadable \<Rightarrow> Inl ReadFailure
      | Csv df \<Rightarrow> Inr (Some df))"
  by (simp add: read_csv_or_none_def read_csv_def split: csv_outcome.split)

lemma read_csv_or_none_Inr_None:
  "read_csv_or_none w p = Inr None \<longleftrightarrow> read_csv w p = Inl FileNotFoundError"
  by (simp add: read_csv_or_none_eq read_csv_def split: csv_outcome.split)

lemma read_csv_or_none_Inr_Some:
  "read_csv_or_none w p = Inr (Some df) \<longleftrightarrow> read_csv w p = Inr df"
  by (simp add: read_csv_or_none_eq read_csv_def split: csv_outcome.split)

lemma read_csv_or_none_Inl:
  "read_csv_or_none w p = Inl e \<longleftrightarrow> e = ReadFailure \<and> read_csv w p = Inl ReadFailure"
  by (auto simp: read_csv_or_none_eq read_csv_def split: csv_outcome.split)

lemmas read_csv_or_none_results =
  read_csv_or_none_Inr_None read_csv_or_none_Inr_Some read_csv_or_none_Inl

subsection \<open>Cleaning a numeric table\<close>

text \<open>
  \<open>coerce_and_dropna\<close> keeps exactly the rows all of whose cells parse as numbers,
  in their order and with their labels, and replaces each cell by its number.
\<close>

lemma rows_coerce_and_dropna:
  "rows (coerce_and_dropna df) =
     map (\<lambda>(i, cs). (i, map to_numeric_cell cs))
       (filter (\<lambda>(i, cs). list_all (\<lambda>c. is_number (to_numeric_cell c)) cs) (rows df))"
proof -
  have "\<And>cs. (\<not> list_ex is_na (map to_numeric_cell cs)) = list_all (\<lambda>c. is_number (to_numeric_cell c)) cs"
    using to_numeric_cell_number_or_na is_number_not_na
    by (fastforce simp: list_ex_iff list_all_iff)
  then show ?thesis
    by (simp add: coerce_and_dropna_def dropna_def apply_all_def filter_map comp_def split_def)
qed

lemma columns_coerce_and_dropna [simp]: "columns (coerce_and_dropna df) = columns df"
  by (simp add: coerce_and_dropna_def)

lemma coerce_and_dropna_numbers:
  "r \<in> set (rows (coerce_and_dropna df)) \<Longrightarrow> list_all is_number (snd r)"
  unfolding coerce_and_dropna_def by (rule coerce_dropna_numbers)

lemma coerce_and_dropna_wf [frame_wf_intros]: "frame_wf df \<Longrightarrow> frame_wf (coerce_and_dropna df)"
  by (simp add: coerce_and_dropna_def apply_all_wf dropna_wf)

subsection \<open>The CF/CV loader on a string\<close>

lemma get_master_columns:
  "read_csv w (posix_join (IDC_directory w) master_csv_name) = Inr raw \<Longrightarrow> get_master w = Inr m
   \<Longrightarrow> columns m = columns raw"
proof -
  assume "read_csv w (posix_join (IDC_directory w) master_csv_name) = Inr raw" "get_master w = Inr m"
  then have "apply_cols to_numeric_cell master_numeric_cols raw = Inr m"
    by (simp add: get_master_def)
  then show ?thesis by (simp add: rows_apply_cols)
qed

lemma get_cf_or_cv_PyStr:
  "get_cf_or_cv w (PyStr s) =
     (if length (name_components s) \<noteq> 7 then Inr None
      else case sweep_locate s of
             None \<Rightarrow> Inl ValueError
           | Some (family, a) \<Rightarrow>
               (case read_csv_or_none w (sweep_path family (age_dir a) s) of
                  Inl e \<Rightarrow> Inl e
                | Inr opt \<Rightarrow> Inr (map_option coerce_and_dropna opt)))"
  by (auto simp: get_cf_or_cv_def sweep_locate_def age_of_iteration_def Let_def
      split: option.splits sum.splits)

subsection \<open>The repository directory and image paths\<close>

lemma IDC_directory_clean_root:
  assumes "list_all plain_comp cs"
    and "reads_file w = clean_abs (cs @ [''Analysis'', ''reads.py''])"
  shows "IDC_directory w = clean_abs cs"
proof -
  have pa: "plain_comp ''Analysis''" "plain_comp ''reads.py''"
    by (simp_all add: plain_comp_def)
  have all: "list_all plain_comp (cs @ [''Analysis'', ''reads.py''])"
    using assms(1) pa by simp
  have "posix_abspath (cwd w) (reads_file w) = clean_abs ((cs @ [''Analysis'']) @ [''reads.py''])"
    using assms(2) normpath_clean_abs [OF all]
    by (simp add: posix_abspath_def posix_isabs_def clean_abs_def)
  moreover have "posix_dirname (clean_abs ((cs @ [''Analysis'']) @ [''reads.py'']))
      = clean_abs (cs @ [''Analysis''])"
    using assms(1) pa by (intro dirname_clean_abs) simp_all
  ultimately have "reads_directory w = clean_abs (cs @ [''Analysis''])"
    unfolding reads_directory_def by simp
  then show ?thesis
    using assms(1) pa by (simp add: IDC_directory_def dirname_clean_abs)
qed

lemma py_str_int_chars: "ch \<in> set (py_str_int n) \<Longrightarrow> is_digit ch \<or> ch = CHR ''-''"
  using nat_str_digits by (auto simp: py_str_int_def list_all_iff split: if_splits)

lemma set_py_join: "set (py_join c ps) \<subseteq> insert c (\<Union>p \<in> set ps. set p)"
  by (induction c ps rule: py_join.induct) auto

lemma imread_clean:
  assumes "list_all plain_comp cs" "plain_comp d" "plain_comp c"
  shows "cv2_imread w (posix_join (posix_join (clean_abs cs) d) c) = img_of w (clean_abs (cs @ [d, c]))"
proof -
  have "posix_join (posix_join (clean_abs cs) d) c = clean_abs ((cs @ [d]) @ [c])"
    using assms by (simp add: join_clean_abs)
  moreover have "list_all plain_comp ((cs @ [d]) @ [c])" using assms by simp
  ultimately show ?thesis
    by (simp add: cv2_imread_def resolve_def posix_abspath_def posix_isabs_def clean_abs_def
        normpath_clean_abs [unfolded clean_abs_def])
qed

lemma sweep_locate_built_name:
  assumes "length ps = 5" and "\<forall>p \<in> set (f # ps). CHR ''_'' \<notin> set p \<and> CHR ''.'' \<notin> set p"
  shows "sweep_locate (py_join CHR ''_'' (ps @ [f, py_str_int n]) @ ''.csv'') = Some (f, age_of_iteration n)"
proof -
  let ?parts = "ps @ [f, py_str_int n]"
  have digits: "CHR ''_'' \<notin> set (py_str_int n)" "CHR ''.'' \<notin> set (py_str_int n)"
    using py_str_int_chars [of "CHR ''_''" n] py_str_int_chars [of "CHR ''.''" n]
    by (auto simp: is_digit_def)
  have no_us: "\<forall>p \<in> set ?parts. CHR ''_'' \<notin> set p" using assms(2) digits by auto
  have "CHR ''.'' \<notin> set (py_join CHR ''_'' ?parts)"
    using set_py_join [of "CHR ''_''" ?parts] assms(2) digits by auto
  then have "hd (py_split CHR ''.'' (py_join CHR ''_'' ?parts @ ''.csv'')) = py_join CHR ''_'' ?parts"
    by (simp add: py_split_append_sep)
  then have "name_components (py_join CHR ''_'' ?parts @ ''.csv'') = ?parts"
    using no_us by (simp add: name_components_def py_split_join)
  with assms(1) show ?thesis
    by (simp add: sweep_locate_def nth_append py_int_py_str_int)
qed

text \<open>
  Claim C1. Whenever \<open>get_cf_or_cv\<close> returns instead of raising, what it returns is
  what the specification of the sweep loader prescribes: the cleaned table of the file
  the name locates, or "unavailable".
\<close>

theorem get_cf_or_cv_refines_spec:
  assumes "get_cf_or_cv w (PyStr s) = Inr r"
  shows "r = sweep_load_spec w s"
proof (cases "length (name_components s) = 7")
  case False
  with assms show ?thesis
    by (simp add: get_cf_or_cv_PyStr sweep_load_spec_def sweep_locate_def)
next
  case True
  with assms obtain family a where loc: "sweep_locate s = Some (family, a)"
    by (auto simp: get_cf_or_cv_PyStr split: option.splits)
  with True assms show ?thesis
    by (auto simp: get_cf_or_cv_PyStr sweep_load_spec_def read_csv_or_none_eq read_csv_def
        split: sum.splits csv_outcome.splits)
qed

theorem get_cf_or_cv_refines_spec_witness:
  "get_cf_or_cv ex_world (PyStr ''A_B_C_D_E_CF_0.csv'') = Inr (Some (coerce_and_dropna ex_sweep))
   \<and> Some (coerce_and_dropna ex_sweep) = sweep_load_spec ex_world ''A_B_C_D_E_CF_0.csv''"
proof -
  have h: "get_cf_or_cv ex_world (PyStr ''A_B_C_D_E_CF_0.csv'') = Inr (Some (coerce_and_dropna ex_sweep))"
    by code_simp
  show ?thesis using h get_cf_or_cv_refines_spec [OF h] by simp
qed


text \<open>
  Claim C2. For a name whose seven components locate a family and an age, the
  loader reads the file \<open><family>/<family>_<AGE>/<name>\<close>, relative to the current
  directory, with \<open>PRISTINE\<close> exactly when the iteration is 0, and returns it cleaned,
  or \<open>None\<close> when the file is missing.
\<close>

theorem get_cf_or_cv_located:
  assumes "sweep_locate s = Some (family, a)"
  shows "get_cf_or_cv w (PyStr s) =
           (case read_csv_or_none w (sweep_path family (age_dir a) s) of
              Inl e \<Rightarrow> Inl e
            | Inr opt \<Rightarrow> Inr (map_option coerce_and_dropna opt))"
proof -
  have "length (name_components s) = 7"
    using assms by (simp add: sweep_locate_def Let_def split: if_splits)
  with assms show ?thesis by (simp add: get_cf_or_cv_PyStr)
qed

theorem get_cf_or_cv_located_witness:
  "sweep_locate ''A_B_C_D_E_CV_3.csv'' = Some (''CV'', Exposed)
   \<and> get_cf_or_cv ex_world (PyStr ''A_B_C_D_E_CV_3.csv'') =
       (case read_csv_or_none ex_world (sweep_path ''CV'' ''EXPOSED'' ''A_B_C_D_E_CV_3.csv'') of
          Inl e \<Rightarrow> Inl e
        | Inr opt \<Rightarrow> Inr (map_option coerce_and_dropna opt))"
proof -
  have h: "sweep_locate ''A_B_C_D_E_CV_3.csv'' = Some (''CV'', Exposed)" by code_simp
  show ?thesis using h get_cf_or_cv_located [OF h, of ex_world] by simp
qed

text \<open>
  Claim C3. A file name that does not split into exactly seven underscore-separated
  components (before its first dot) gives \<open>None\<close>, whatever the file system holds.
\<close>

theorem get_cf_or_cv_wrong_arity:
  assumes "length (name_components s) \<noteq> 7"
  shows "get_cf_or_cv w (PyStr s) = Inr None"
  using assms by (simp add: get_cf_or_cv_PyStr)

theorem get_cf_or_cv_wrong_arity_witness:
  "length (name_components ''bad_name.csv'') \<noteq> 7
   \<and> get_cf_or_cv ex_world (PyStr ''bad_name.csv'') = Inr None"
proof -
  have h: "length (name_components ''bad_name.csv'') \<noteq> 7" by code_simp
  show ?thesis using h get_cf_or_cv_wrong_arity [OF h] by simp
qed

text \<open>
  Claim C4. A seven-component name whose last component is not an integer makes
  \<open>get_cf_or_cv\<close> raise \<open>ValueError\<close> (from \<open>int()\<close> at line 77), where the
  specification asks for "unavailable".
\<close>

theorem get_cf_or_cv_non_integer_raises:
  assumes "length (name_components s) = 7" and "py_int (name_components s ! 6) = None"
  shows "get_cf_or_cv w (PyStr s) = Inl ValueError \<and> sweep_load_spec w s = None"
  using assms by (simp add: get_cf_or_cv_PyStr sweep_load_spec_def sweep_locate_def)

theorem get_cf_or_cv_non_integer_raises_witness:
  "get_cf_or_cv ex_world (PyStr ''A_B_C_D_E_CF_x.csv'') = Inl ValueError
   \<and> sweep_load_spec ex_world ''A_B_C_D_E_CF_x.csv'' = None"
proof -
  have h1: "length (name_components ''A_B_C_D_E_CF_x.csv'') = 7" by code_simp
  have h2: "py_int (name_components ''A_B_C_D_E_CF_x.csv'' ! 6) = None" by code_simp
  show ?thesis using get_cf_or_cv_non_integer_raises [OF h1 h2] .
qed

text \<open>
  Claim C5. Every cell of a table \<open>get_cf_or_cv\<close> returns is a number: no string
  and no missing value survives the coercion and \<open>dropna\<close>.
\<close>

theorem get_cf_or_cv_numeric:
  assumes "get_cf_or_cv w f = Inr (Some df)" and "r \<in> set (rows df)"
  shows "list_all is_number (snd r)"
proof -
  obtain s where f: "f = PyStr s"
    using assms(1) by (cases f) (auto simp: get_cf_or_cv_def)
  then obtain raw where "df = coerce_and_dropna raw"
    using assms(1)
    by (auto simp: get_cf_or_cv_PyStr split: if_splits option.splits sum.splits)
  with assms(2) show ?thesis by (simp add: coerce_and_dropna_numbers)
qed

theorem get_cf_or_cv_numeric_witness:
  "get_cf_or_cv ex_world (PyStr ''A_B_C_D_E_CF_0.csv'') =
     Inr (Some \<lparr>columns = [''Frequency (Hz)'', ''Capacitance (F)''],
                rows = [(0, [Num 100, Num (5 / 2)]), (2, [Num 200, Num 3])]\<rparr>)
   \<and> list_all is_number [Num 100, Num (5 / 2)]"
proof -
  have h: "get_cf_or_cv ex_world (PyStr ''A_B_C_D_E_CF_0.csv'') =
     Inr (Some \<lparr>columns = [''Frequency (Hz)'', ''Capacitance (F)''],
                rows = [(0, [Num 100, Num (5 / 2)]), (2, [Num 200, Num 3])]\<rparr>)"
    by code_simp
  have "list_all is_number (snd (0::nat, [Num 100, Num (5 / 2)]))"
    by (rule get_cf_or_cv_numeric [OF h]) simp
  with h show ?thesis by simp
qed

text \<open>
  Claim C6. \<open>get_current_time\<close> returns the file \<open>CurrentTime/<name>\<close> (relative
  to the current directory) with every cell coerced to a number and exactly the rows
  in which some cell did not parse removed, labels and order kept.
\<close>

theorem get_current_time_clean:
  assumes "get_current_time w f = Inr (Some df)"
  shows "\<exists>raw. read_csv w (''CurrentTime/'' @ py_format f) = Inr raw
           \<and> columns df = columns raw
           \<and> rows df = map (\<lambda>(i, cs). (i, map to_numeric_cell cs))
                 (filter (\<lambda>(i, cs). list_all (\<lambda>c. is_number (to_numeric_cell c)) cs) (rows raw))"
proof -
  obtain raw where "read_csv_or_none w (''CurrentTime/'' @ py_format f) = Inr (Some raw)"
      and "df = coerce_and_dropna raw"
    using assms by (auto simp: get_current_time_def split: sum.splits option.splits)
  then show ?thesis
    by (auto simp: read_csv_or_none_results rows_coerce_and_dropna)
qed

theorem get_current_time_clean_witness:
  "get_current_time ex_world (PyStr ''B1_U1.csv'') =
     Inr (Some \<lparr>columns = [''Time (ms)'', ''Current (mA)''],
                rows = [(0, [Num 0, Num 0]), (2, [Num 10, Num (1 / 4)])]\<rparr>)
   \<and> read_csv ex_world ''CurrentTime/B1_U1.csv'' = Inr ex_current"
proof -
  have h: "get_current_time ex_world (PyStr ''B1_U1.csv'') =
     Inr (Some \<lparr>columns = [''Time (ms)'', ''Current (mA)''],
                rows = [(0, [Num 0, Num 0]), (2, [Num 10, Num (1 / 4)])]\<rparr>)"
    by code_simp
  obtain raw where "read_csv ex_world (''CurrentTime/'' @ py_format (PyStr ''B1_U1.csv'')) = Inr raw"
    using get_current_time_clean [OF h] by blast
  moreover have "read_csv ex_world ''CurrentTime/B1_U1.csv'' = Inr ex_current" by code_simp
  ultimately show ?thesis using h by simp
qed


text \<open>
  Claim C7. With no CSV file present, the master loader raises
  \<open>FileNotFoundError\<close> while the cached, time-series and sweep loaders return
  \<open>None\<close> (the sweep loader may still raise \<open>ValueError\<close> on a malformed name
  before it looks at the disk).
\<close>

theorem loaders_missing_files:
  assumes "\<forall>p. csv_of w p = NoFile"
  shows "get_master w = Inl FileNotFoundError \<and> get_master_cached w = Inr None
       \<and> get_current_time w f = Inr None
       \<and> (get_cf_or_cv w g = Inr None \<or> get_cf_or_cv w g = Inl ValueError)"
proof -
  have none: "read_csv_or_none w p = Inr None" for p
    using assms by (simp add: read_csv_or_none_eq)
  have "get_master w = Inl FileNotFoundError"
    using assms by (simp add: get_master_def read_csv_def)
  moreover have "get_cf_or_cv w g = Inr None \<or> get_cf_or_cv w g = Inl ValueError"
  proof (cases g)
    case (PyStr s)
    then show ?thesis
      by (auto simp: get_cf_or_cv_PyStr none split: option.splits)
  qed (simp_all add: get_cf_or_cv_def)
  ultimately show ?thesis
    by (simp add: get_master_cached_def get_current_time_def none)
qed

theorem loaders_missing_files_witness:
  "get_master (ex_world\<lparr>csv_of := (\<lambda>_. NoFile)\<rparr>) = Inl FileNotFoundError
   \<and> get_master_cached (ex_world\<lparr>csv_of := (\<lambda>_. NoFile)\<rparr>) = Inr None
   \<and> get_current_time (ex_world\<lparr>csv_of := (\<lambda>_. NoFile)\<rparr>) (PyStr ''B1_U1.csv'') = Inr None
   \<and> (get_cf_or_cv (ex_world\<lparr>csv_of := (\<lambda>_. NoFile)\<rparr>) (PyStr ''A_B_C_D_E_CF_0.csv'') = Inr None
      \<or> get_cf_or_cv (ex_world\<lparr>csv_of := (\<lambda>_. NoFile)\<rparr>) (PyStr ''A_B_C_D_E_CF_0.csv'') = Inl ValueError)"
  by (rule loaders_missing_files) simp

text \<open>
  Claim C8. \<open>get_master\<close> keeps every row of the master list, with its label, and
  every column; a cell of \<open>Voltage\<close> or \<open>Pattern\<close> is replaced by its coercion
  to a number (missing when it does not parse), every other cell is unchanged.
\<close>

theorem get_master_coerces:
  assumes "read_csv w (posix_join (IDC_directory w) master_csv_name) = Inr raw"
    and "frame_wf raw" and "get_master w = Inr m"
  shows "columns m = columns raw \<and> length (rows m) = length (rows raw)
    \<and> (\<forall>k < length (rows raw). fst (rows m ! k) = fst (rows raw ! k)
         \<and> (\<forall>j < length (columns raw). snd (rows m ! k) ! j =
              (if columns raw ! j \<in> set master_numeric_cols
               then to_numeric_cell (snd (rows raw ! k) ! j) else snd (rows raw ! k) ! j)))"
proof -
  have ac: "apply_cols to_numeric_cell master_numeric_cols raw = Inr m"
    using assms(1,3) by (simp add: get_master_def)
  note shape = rows_apply_cols [OF ac]
  have len: "length (snd (rows raw ! k)) = length (columns raw)" if "k < length (rows raw)" for k
    using assms(2) that by (auto simp: frame_wf_def list_all_iff)
  show ?thesis
    using shape len by (auto simp: case_prod_beta)
qed

theorem get_master_coerces_witness:
  "read_csv ex_world (posix_join (IDC_directory ex_world) master_csv_name) = Inr ex_master
   \<and> frame_wf ex_master
   \<and> get_master ex_world = Inr \<lparr>columns = [''Board ID'', ''Voltage'', ''Pattern''],
        rows = [(0, [Str ''B1'', Num 12, Num 1]), (1, [Str ''B2'', NaN, Num 4]),
                (2, [Str ''B3'', Num 15, NaN])]\<rparr>
   \<and> length (rows ex_master) = 3"
proof -
  have h1: "read_csv ex_world (posix_join (IDC_directory ex_world) master_csv_name) = Inr ex_master"
    by code_simp
  have h2: "frame_wf ex_master" by code_simp
  have h3: "get_master ex_world = Inr \<lparr>columns = [''Board ID'', ''Voltage'', ''Pattern''],
        rows = [(0, [Str ''B1'', Num 12, Num 1]), (1, [Str ''B2'', NaN, Num 4]),
                (2, [Str ''B3'', Num 15, NaN])]\<rparr>"
    by code_simp
  have "length (rows \<lparr>columns = [''Board ID'', ''Voltage'', ''Pattern''],
        rows = [(0, [Str ''B1'', Num 12, Num 1]), (1, [Str ''B2'', NaN, Num 4]),
                (2, [Str ''B3'', Num 15, NaN])]\<rparr>) = length (rows ex_master)"
    using get_master_coerces [OF h1 h2 h3] by blast
  with h1 h2 h3 show ?thesis by simp
qed

text \<open>
  A master list without a \<open>Voltage\<close> or a \<open>Pattern\<close> column makes
  \<open>get_master\<close> raise \<open>KeyError\<close>.
\<close>

theorem get_master_missing_column:
  assumes "read_csv w (posix_join (IDC_directory w) master_csv_name) = Inr raw"
    and "\<not> set master_numeric_cols \<subseteq> set (columns raw)"
  shows "get_master w = Inl KeyError"
  using assms by (simp add: get_master_def apply_cols_def)

theorem get_master_missing_column_witness:
  "get_master (ex_world\<lparr>csv_of := (\<lambda>_. Csv \<lparr>columns = [''Board ID'', ''Voltage''], rows = []\<rparr>)\<rparr>)
     = Inl KeyError"
proof -
  let ?w = "ex_world\<lparr>csv_of := (\<lambda>_. Csv \<lparr>columns = [''Board ID'', ''Voltage''], rows = []\<rparr>)\<rparr>"
  have h1: "read_csv ?w (posix_join (IDC_directory ?w) master_csv_name)
      = Inr \<lparr>columns = [''Board ID'', ''Voltage''], rows = []\<rparr>"
    by (simp add: read_csv_def)
  have h2: "\<not> set master_numeric_cols \<subseteq> set (columns \<lparr>columns = [''Board ID'', ''Voltage''], rows = []\<rparr>)"
    by code_simp
  show ?thesis by (rule get_master_missing_column [OF h1 h2])
qed

text \<open>
  Claim C10. The File Locator: when \<open>__file__\<close> of reads.py is
  \<open><root>/Analysis/reads.py\<close> for a clean absolute \<open><root>\<close>, \<open>IDC_directory\<close>
  is \<open><root>\<close>, whatever the current directory.
\<close>

theorem IDC_directory_root:
  assumes "list_all plain_comp cs"
    and "reads_file w = clean_abs (cs @ [''Analysis'', ''reads.py''])"
  shows "IDC_directory w = clean_abs cs"
  using assms by (rule IDC_directory_clean_root)

theorem IDC_directory_root_witness:
  "IDC_directory ex_world = clean_abs ex_root \<and> clean_abs ex_root = ''/home/lab/IDC_EM_analysis''"
proof -
  have h1: "list_all plain_comp ex_root" by code_simp
  have h2: "reads_file ex_world = clean_abs (ex_root @ [''Analysis'', ''reads.py''])"
    by (simp add: ex_world_def)
  have "clean_abs ex_root = ''/home/lab/IDC_EM_analysis''" by code_simp
  with IDC_directory_root [OF h1 h2] show ?thesis by simp
qed

text \<open>
  Claim C11. With an absolute \<open>__file__\<close>, the repository directory does not
  depend on the current directory.
\<close>

theorem IDC_directory_cwd_independent:
  assumes "posix_isabs (reads_file w)"
  shows "IDC_directory (w\<lparr>cwd := c\<rparr>) = IDC_directory w"
  using assms by (simp add: IDC_directory_def reads_directory_def posix_abspath_def)

theorem IDC_directory_cwd_independent_witness:
  "IDC_directory (ex_world\<lparr>cwd := ''/tmp''\<rparr>) = IDC_directory ex_world"
proof -
  have h: "posix_isabs (reads_file ex_world)" by code_simp
  show ?thesis by (rule IDC_directory_cwd_independent [OF h])
qed



text \<open>
  \<open>get_board_image\<close> does not check its file name: a missing cell
  (\<open>nan\<close>) or a number reaches \<open>os.path.join\<close>, which raises \<open>TypeError\<close>.
\<close>

theorem get_board_image_non_str_raises:
  "get_board_image w PyNaN age = Inl TypeError \<and> get_board_image w (PyInt i) age = Inl TypeError"
  by (simp add: get_board_image_def Let_def)

text \<open>
  \<open>get_sensor_image\<close> returns \<open>None\<close> for a file name that is not a
  string, before it touches the file system.
\<close>

theorem get_sensor_image_non_str:
  "get_sensor_image w PyNaN age = Inr None \<and> get_sensor_image w (PyInt i) age = Inr None"
  by (simp add: get_sensor_image_def)

text \<open>
  Claim C15. For a plain file name, a pristine board image is read from
  \<open>Imgscans_PRISTINE_templates\<close>, an exposed one from \<open>Imgscans_EXPOSED\<close>, and a
  sensor image from \<open>Imgscans_<AGE>_sensors\<close>, all under the repository directory.
\<close>

theorem image_loader_paths:
  assumes "list_all plain_comp cs"
    and "reads_file w = clean_abs (cs @ [''Analysis'', ''reads.py''])"
    and "plain_comp c"
  shows "get_board_image w (PyStr c) ''PRISTINE''
           = Inr (img_of w (clean_abs (cs @ [''Imgscans_PRISTINE_templates'', c])))
       \<and> get_board_image w (PyStr c) ''EXPOSED''
           = Inr (img_of w (clean_abs (cs @ [''Imgscans_EXPOSED'', c])))
       \<and> get_sensor_image w (PyStr c) (age_dir a)
           = Inr (img_of w (clean_abs (cs @ [''Imgscans_'' @ age_dir a @ ''_sensors'', c])))"
proof -
  have idc: "IDC_directory w = clean_abs cs"
    using assms(1,2) by (rule IDC_directory_clean_root)
  have dirs: "plain_comp ''Imgscans_PRISTINE_templates''" "plain_comp ''Imgscans_EXPOSED''"
    "plain_comp (''Imgscans_'' @ age_dir a @ ''_sensors'')"
    by (cases a; simp add: plain_comp_def)+
  show ?thesis
    using imread_clean [OF assms(1) _ assms(3)] dirs idc
    by (simp add: get_board_image_def get_sensor_image_def Let_def)
qed

theorem image_loader_paths_witness:
  "get_board_image ex_world (PyStr ''b1.png'') ''PRISTINE'' = Inr (Some (Image [[0, 255]]))
   \<and> get_board_image ex_world (PyStr ''b1.png'') ''EXPOSED'' = Inr None
   \<and> get_sensor_image ex_world (PyStr ''b1.png'') (age_dir Pristine) = Inr None"
proof -
  have h1: "list_all plain_comp ex_root" by code_simp
  have h2: "reads_file ex_world = clean_abs (ex_root @ [''Analysis'', ''reads.py''])"
    by (simp add: ex_world_def)
  have h3: "plain_comp ''b1.png''" by code_simp
  have "img_of ex_world (clean_abs (ex_root @ [''Imgscans_PRISTINE_templates'', ''b1.png'']))
      = Some (Image [[0, 255]])"
    "img_of ex_world (clean_abs (ex_root @ [''Imgscans_EXPOSED'', ''b1.png''])) = None"
    "img_of ex_world (clean_abs (ex_root @ [''Imgscans_'' @ age_dir Pristine @ ''_sensors'', ''b1.png'']))
      = None"
    by code_simp+
  with image_loader_paths [OF h1 h2 h3, of Pristine] show ?thesis by simp
qed

text \<open>
  Claim C16. Building a sweep file name from five plain parts, a family and an
  iteration number, as \<open>"_".join(parts + [family, str(n)]) + ".csv"\<close>, and loading
  it reads the file of that family and of the age the number gives.
\<close>

theorem get_cf_or_cv_name_roundtrip:
  assumes "length ps = 5"
    and "\<forall>p \<in> set (family # ps). CHR ''_'' \<notin> set p \<and> CHR ''.'' \<notin> set p"
    and "s = py_join CHR ''_'' (ps @ [family, py_str_int n]) @ ''.csv''"
  shows "get_cf_or_cv w (PyStr s) =
           (case read_csv_or_none w (sweep_path family (age_dir (age_of_iteration n)) s) of
              Inl e \<Rightarrow> Inl e
            | Inr opt \<Rightarrow> Inr (map_option coerce_and_dropna opt))"
proof -
  have loc: "sweep_locate s = Some (family, age_of_iteration n)"
    using sweep_locate_built_name [OF assms(1,2)] assms(3) by simp
  then have "length (name_components s) = 7"
    by (simp add: sweep_locate_def Let_def split: if_splits)
  with loc show ?thesis by (simp add: get_cf_or_cv_PyStr)
qed

theorem get_cf_or_cv_name_roundtrip_witness:
  "get_cf_or_cv ex_world (PyStr ''A_B_C_D_E_CF_0.csv'') =
     (case read_csv_or_none ex_world (sweep_path ''CF'' ''PRISTINE'' ''A_B_C_D_E_CF_0.csv'') of
        Inl e \<Rightarrow> Inl e
      | Inr opt \<Rightarrow> Inr (map_option coerce_and_dropna opt))"
proof -
  have h1: "length [''A'', ''B'', ''C'', ''D'', ''E''] = 5" by simp
  have h2: "\<forall>p \<in> set (''CF'' # [''A'', ''B'', ''C'', ''D'', ''E'']). CHR ''_'' \<notin> set p \<and> CHR ''.'' \<notin> set p"
    by simp
  have h3: "''A_B_C_D_E_CF_0.csv'' = py_join CHR ''_'' ([''A'', ''B'', ''C'', ''D'', ''E''] @ [''CF'', py_str_int 0]) @ ''.csv''"
    by code_simp
  show ?thesis
    using get_cf_or_cv_name_roundtrip [OF h1 h2 h3, of ex_world] by (simp add: age_of_iteration_def)
qed

text \<open>
  Claim C17. The only exceptions \<open>get_cf_or_cv\<close> lets escape are \<open>ValueError\<close>
  from a non-integer iteration component and the read failures of \<open>read_csv\<close> other
  than a missing file; in both cases the specification says "unavailable".
\<close>

theorem get_cf_or_cv_exceptions:
  assumes "get_cf_or_cv w (PyStr s) = Inl e"
  shows "(e = ValueError \<or> e = ReadFailure) \<and> sweep_load_spec w s = None"
  using assms
  by (auto simp: get_cf_or_cv_PyStr sweep_load_spec_def read_csv_or_none_results
      split: if_splits option.splits sum.splits)

theorem get_cf_or_cv_exceptions_witness:
  "get_cf_or_cv (ex_world\<lparr>csv_of := (\<lambda>_. Unreadable)\<rparr>) (PyStr ''A_B_C_D_E_CF_0.csv'') = Inl ReadFailure
   \<and> sweep_load_spec (ex_world\<lparr>csv_of := (\<lambda>_. Unreadable)\<rparr>) ''A_B_C_D_E_CF_0.csv'' = None"
proof -
  have h: "get_cf_or_cv (ex_world\<lparr>csv_of := (\<lambda>_. Unreadable)\<rparr>) (PyStr ''A_B_C_D_E_CF_0.csv'')
      = Inl ReadFailure" by code_simp
  show ?thesis using h get_cf_or_cv_exceptions [OF h] by simp
qed

end
