(* ===== verification/Pandas.thy ===== *)
theory Pandas
  imports Frame
begin

text \<open>
  The pandas operations the analysis panels of streamlit_app.py and the plot scripts
  apply to the master table: reading a column (\<open>df[c]\<close>), filtering rows on a
  column's equality with a value, assigning a column, element-wise subtraction and
  division of columns, selecting a list of columns (\<open>df[[...]]\<close>), the \<open>dropna\<close>
  variants, \<open>select_dtypes(include=["number"])\<close>, \<open>pd.melt\<close>, \<open>Series.unique\<close>,
  \<open>pd.Categorical\<close> and \<open>int()\<close> of a float. A column's dtype is derived from its
  cells: numeric when it holds no string, which is the dtype \<open>read_csv\<close> and
  \<open>to_numeric\<close> give the columns of the master table.
\<close>

section \<open>Columns\<close>

fun find_pos :: "'a \<Rightarrow> 'a list \<Rightarrow> nat" where
  "find_pos x [] = 0"
| "find_pos x (y # ys) = (if x = y then 0 else Suc (find_pos x ys))"

text \<open>\<open>df[c]\<close>: the column's cells in row order, \<open>KeyError\<close> for a missing column.\<close>

definition get_col :: "frame \<Rightarrow> string \<Rightarrow> cell list result" where
  "get_col df c =
     (if c \<in> set (columns df)
      then Inr (map (\<lambda>(i, cs). cs ! find_pos c (columns df)) (rows df))
      else Inl KeyError)"

text \<open>
  \<open>df[c] = values\<close> for values computed from \<open>df\<close> itself (aligned on its index):
  an existing column is replaced in place, a new one is appended.
\<close>

definition set_col :: "string \<Rightarrow> cell list \<Rightarrow> frame \<Rightarrow> frame" where
  "set_col c vs df =
     (if c \<in> set (columns df)
      then df\<lparr>rows := map2 (\<lambda>(i, cs) v. (i, cs[find_pos c (columns df) := v])) (rows df) vs\<rparr>
      else \<lparr>columns = columns df @ [c], rows = map2 (\<lambda>(i, cs) v. (i, cs @ [v])) (rows df) vs\<rparr>)"

text \<open>\<open>df[[c1, ..., cn]]\<close>: the listed columns in the listed order.\<close>

definition select_cols :: "string list \<Rightarrow> frame \<Rightarrow> frame result" where
  "select_cols cols df =
     (if set cols \<subseteq> set (columns df)
      then Inr \<lparr>columns = cols,
                rows = map (\<lambda>(i, cs). (i, map (\<lambda>c. cs ! find_pos c (columns df)) cols)) (rows df)\<rparr>
      else Inl KeyError)"

text \<open>\<open>df.rename(columns={old: new})\<close>; a missing \<open>old\<close> is ignored.\<close>

definition rename_col :: "string \<Rightarrow> string \<Rightarrow> frame \<Rightarrow> frame" where
  "rename_col old new df = df\<lparr>columns := map (\<lambda>c. if c = old then new else c) (columns df)\<rparr>"

section \<open>Comparison and arithmetic on cells\<close>

text \<open>
  Python's \<open>==\<close> between a cell and a value: numbers compare numerically, strings
  by content, a missing value equals nothing.
\<close>

fun cell_eq :: "cell \<Rightarrow> cell \<Rightarrow> bool" where
  "cell_eq (Num a) (Num b) = (a = b)"
| "cell_eq PosInf PosInf = True"
| "cell_eq NegInf NegInf = True"
| "cell_eq (Str a) (Str b) = (a = b)"
| "cell_eq _ _ = False"

text \<open>
  \<open>a - b\<close> on two cells: IEEE subtraction on numbers, a missing operand gives a missing
  result, a string operand raises \<open>TypeError\<close> (\<open>None\<close>).
\<close>

fun cell_sub :: "cell \<Rightarrow> cell \<Rightarrow> cell option" where
  "cell_sub (Str _) _ = None"
| "cell_sub _ (Str _) = None"
| "cell_sub NaN _ = Some NaN"
| "cell_sub _ NaN = Some NaN"
| "cell_sub (Num a) (Num b) = Some (Num (a - b))"
| "cell_sub (Num _) PosInf = Some NegInf"
| "cell_sub (Num _) NegInf = Some PosInf"
| "cell_sub PosInf (Num _) = Some PosInf"
| "cell_sub NegInf (Num _) = Some NegInf"
| "cell_sub PosInf PosInf = Some NaN"
| "cell_sub NegInf NegInf = Some NaN"
| "cell_sub PosInf NegInf = Some PosInf"
| "cell_sub NegInf PosInf = Some NegInf"

text \<open>\<open>x / d\<close> for a positive constant \<open>d\<close>.\<close>

fun cell_div_pos :: "real \<Rightarrow> cell \<Rightarrow> cell option" where
  "cell_div_pos d (Num a) = Some (Num (a / d))"
| "cell_div_pos d (Str _) = None"
| "cell_div_pos d c = Some c"

definition all_some :: "'a option list \<Rightarrow> 'a list option" where
  "all_some xs = (if list_all (\<lambda>x. x \<noteq> None) xs then Some (map the xs) else None)"

text \<open>\<open>df[a] - df[b]\<close>: \<open>KeyError\<close> for a missing column, \<open>TypeError\<close> for a string cell.\<close>

definition sub_cols :: "frame \<Rightarrow> string \<Rightarrow> string \<Rightarrow> cell list result" where
  "sub_cols df a b =
     (case get_col df a of
        Inl e \<Rightarrow> Inl e
      | Inr xs \<Rightarrow>
          (case get_col df b of
             Inl e \<Rightarrow> Inl e
           | Inr ys \<Rightarrow>
               (case all_some (map2 cell_sub xs ys) of
                  None \<Rightarrow> Inl TypeError
                | Some zs \<Rightarrow> Inr zs)))"

definition div_col :: "frame \<Rightarrow> string \<Rightarrow> real \<Rightarrow> cell list result" where
  "div_col df a d =
     (case get_col df a of
        Inl e \<Rightarrow> Inl e
      | Inr xs \<Rightarrow> (case all_some (map (cell_div_pos d) xs) of None \<Rightarrow> Inl TypeError | Some zs \<Rightarrow> Inr zs))"

section \<open>Row filters and dropna variants\<close>

text \<open>\<open>df[df[c] == v]\<close>; labels are kept.\<close>

definition filter_eq :: "string \<Rightarrow> cell \<Rightarrow> frame \<Rightarrow> frame result" where
  "filter_eq c v df =
     (if c \<in> set (columns df)
      then Inr (df\<lparr>rows := filter (\<lambda>(i, cs). cell_eq (cs ! find_pos c (columns df)) v) (rows df)\<rparr>)
      else Inl KeyError)"

text \<open>\<open>df[(df[c] == v1) | ... | (df[c] == vn)]\<close>.\<close>

definition filter_in :: "string \<Rightarrow> cell list \<Rightarrow> frame \<Rightarrow> frame result" where
  "filter_in c vs df =
     (if c \<in> set (columns df)
      then Inr (df\<lparr>rows := filter (\<lambda>(i, cs). list_ex (cell_eq (cs ! find_pos c (columns df))) vs)
                                  (rows df)\<rparr>)
      else Inl KeyError)"

text \<open>\<open>df.dropna(subset=c)\<close>.\<close>

definition dropna_subset :: "string \<Rightarrow> frame \<Rightarrow> frame result" where
  "dropna_subset c df =
     (if c \<in> set (columns df)
      then Inr (df\<lparr>rows := filter (\<lambda>(i, cs). \<not> is_na (cs ! find_pos c (columns df))) (rows df)\<rparr>)
      else Inl KeyError)"

text \<open>\<open>df.dropna(axis=1, how="all")\<close>: drop the columns whose cells are all missing.\<close>

definition keep_cols :: "(nat \<Rightarrow> bool) \<Rightarrow> frame \<Rightarrow> frame" where
  "keep_cols keep df =
     (let js = filter keep [0..<length (columns df)]
      in \<lparr>columns = map (\<lambda>j. columns df ! j) js,
          rows = map (\<lambda>(i, cs). (i, map (\<lambda>j. cs ! j) js)) (rows df)\<rparr>)"

definition column_cells :: "frame \<Rightarrow> nat \<Rightarrow> cell list" where
  "column_cells df j = map (\<lambda>(i, cs). cs ! j) (rows df)"

definition dropna_all_cols :: "frame \<Rightarrow> frame" where
  "dropna_all_cols df = keep_cols (\<lambda>j. \<not> list_all is_na (column_cells df j)) df"

text \<open>\<open>df.select_dtypes(include=["number"])\<close>: the columns of numeric dtype.\<close>

fun is_str :: "cell \<Rightarrow> bool" where
  "is_str (Str _) = True"
| "is_str _ = False"

definition select_numeric :: "frame \<Rightarrow> frame" where
  "select_numeric df = keep_cols (\<lambda>j. \<not> list_ex is_str (column_cells df j)) df"

section \<open>Reshaping\<close>

text \<open>
  \<open>pd.melt(df, id_vars, value_vars, var_name, value_name)\<close>: one row per value column
  and row of \<open>df\<close>, value columns outermost, under a fresh index \<open>0, 1, ...\<close>.
\<close>

definition melt :: "string list \<Rightarrow> string list \<Rightarrow> string \<Rightarrow> string \<Rightarrow> frame \<Rightarrow> frame result" where
  "melt id_vars value_vars var_name value_name df =
     (if set id_vars \<union> set value_vars \<subseteq> set (columns df)
      then
        (let cells = concat (map (\<lambda>v. map (\<lambda>(i, cs).
                         map (\<lambda>c. cs ! find_pos c (columns df)) id_vars
                         @ [Str v, cs ! find_pos v (columns df)]) (rows df)) value_vars)
         in Inr \<lparr>columns = id_vars @ [var_name, value_name], rows = zip [0..<length cells] cells\<rparr>)
      else Inl KeyError)"

text \<open>The cells of a row in the columns \<open>cs\<close>, for a table with header \<open>cols\<close>.\<close>

definition row_view :: "string list \<Rightarrow> string list \<Rightarrow> nat \<times> cell list \<Rightarrow> cell list" where
  "row_view cols cs r = map (\<lambda>d. snd r ! find_pos d cols) cs"

text \<open>\<open>Series.unique()\<close>: the distinct values in the order of their first occurrence.\<close>

definition unique_vals :: "cell list \<Rightarrow> cell list" where
  "unique_vals xs = rev (remdups (rev xs))"

text \<open>
  \<open>pd.Categorical(values, categories=cats)\<close>: a value that is no category becomes
  missing.
\<close>

definition categorical :: "cell list \<Rightarrow> cell list \<Rightarrow> cell list" where
  "categorical cats vs = map (\<lambda>v. if list_ex (cell_eq v) cats then v else NaN) vs"

text \<open>
  \<open>int(x)\<close> of a cell: truncation toward zero for a float, \<open>OverflowError\<close> for an
  infinity, \<open>ValueError\<close> for \<open>nan\<close>, and \<open>int()\<close> of a string.
\<close>

fun py_int_cell :: "cell \<Rightarrow> int result" where
  "py_int_cell (Num x) = Inr (if 0 \<le> x then \<lfloor>x\<rfloor> else - \<lfloor>- x\<rfloor>)"
| "py_int_cell PosInf = Inl OverflowError"
| "py_int_cell NegInf = Inl OverflowError"
| "py_int_cell NaN = Inl ValueError"
| "py_int_cell (Str s) = (case py_int s of Some n \<Rightarrow> Inr n | None \<Rightarrow> Inl ValueError)"

text \<open>\<open>Series.apply(f)\<close> with an \<open>f\<close> that may raise: the first exception escapes.\<close>

fun map_res :: "('a \<Rightarrow> 'b result) \<Rightarrow> 'a list \<Rightarrow> 'b list result" where
  "map_res f [] = Inr []"
| "map_res f (x # xs) = res_bind (f x) (\<lambda>y. res_bind (map_res f xs) (\<lambda>ys. Inr (y # ys)))"


section \<open>Lemmas\<close>

subsection \<open>Positions of columns\<close>

lemma find_pos_less: "c \<in> set xs \<Longrightarrow> find_pos c xs < length xs"
  by (induction xs) auto

lemma nth_find_pos: "c \<in> set xs \<Longrightarrow> xs ! find_pos c xs = c"
  by (induction xs) auto

lemma find_pos_append: "c \<in> set xs \<Longrightarrow> find_pos c (xs @ ys) = find_pos c xs"
  by (induction xs) auto

lemma find_pos_snoc_new: "c \<notin> set xs \<Longrightarrow> find_pos c (xs @ [c]) = length xs"
  by (induction xs) auto

lemmas find_pos_simps = find_pos_less nth_find_pos find_pos_append find_pos_snoc_new

subsection \<open>Reading and assigning columns\<close>

lemma get_col_Inr:
  "c \<in> set (columns df) \<Longrightarrow> get_col df c = Inr (map (\<lambda>(i, cs). cs ! find_pos c (columns df)) (rows df))"
  by (simp add: get_col_def)

lemma get_col_Inr_iff:
  "get_col df c = Inr xs \<longleftrightarrow> c \<in> set (columns df) \<and> xs = map (\<lambda>(i, cs). cs ! find_pos c (columns df)) (rows df)"
  by (auto simp: get_col_def)

lemma length_get_col: "get_col df c = Inr xs \<Longrightarrow> length xs = length (rows df)"
  by (auto simp: get_col_Inr_iff)

lemma columns_set_col:
  "columns (set_col c vs df) = (if c \<in> set (columns df) then columns df else columns df @ [c])"
  by (simp add: set_col_def)

text \<open>The two ways \<open>set_col\<close> changes the rows, one row at a time.\<close>

lemma map_fst_map2:
  "length xs = length vs \<Longrightarrow> map fst (map2 (\<lambda>(i, cs) v. (i, g cs v)) xs vs) = map fst xs"
  by (induction xs vs rule: list_induct2) auto

lemma lengths_map2:
  "length xs = length vs \<Longrightarrow> list_all (\<lambda>r. length (snd r) = n) xs \<Longrightarrow> (\<forall>cs v. length (g cs v) = length cs + k)
   \<Longrightarrow> list_all (\<lambda>r. length (snd r) = n + k) (map2 (\<lambda>(i, cs) v. (i, g cs v)) xs vs)"
  by (induction xs vs rule: list_induct2) auto

lemma proj_map2_update:
  "length xs = length vs \<Longrightarrow> list_all (\<lambda>r. p < length (snd r)) xs \<Longrightarrow>
   map (\<lambda>(i, cs). cs ! j) (map2 (\<lambda>(i, cs) v. (i, cs[p := v])) xs vs)
     = (if j = p then vs else map (\<lambda>(i, cs). cs ! j) xs)"
  by (induction xs vs rule: list_induct2) auto

lemma proj_map2_snoc_new:
  "length xs = length vs \<Longrightarrow> list_all (\<lambda>r. length (snd r) = n) xs \<Longrightarrow>
   map (\<lambda>(i, cs). cs ! n) (map2 (\<lambda>(i, cs) v. (i, cs @ [v])) xs vs) = vs"
  by (induction xs vs rule: list_induct2) auto

lemma proj_map2_snoc_old:
  "length xs = length vs \<Longrightarrow> list_all (\<lambda>r. length (snd r) = n) xs \<Longrightarrow> j < n \<Longrightarrow>
   map (\<lambda>(i, cs). cs ! j) (map2 (\<lambda>(i, cs) v. (i, cs @ [v])) xs vs) = map (\<lambda>(i, cs). cs ! j) xs"
  by (induction xs vs rule: list_induct2) (auto simp: nth_append)

lemma rows_labels_set_col:
  "length vs = length (rows df) \<Longrightarrow> map fst (rows (set_col c vs df)) = map fst (rows df)"
  by (simp add: set_col_def map_fst_map2 del: map_map)

lemma length_rows_set_col:
  "length vs = length (rows df) \<Longrightarrow> length (rows (set_col c vs df)) = length (rows df)"
  by (simp add: set_col_def)

lemma set_col_wf [frame_wf_intros]:
  assumes "frame_wf df" "length vs = length (rows df)"
  shows "frame_wf (set_col c vs df)"
proof -
  have d: "distinct (columns df)" and l: "list_all (\<lambda>r. length (snd r) = length (columns df)) (rows df)"
    using assms(1) by (simp_all add: frame_wf_def)
  have upd: "list_all (\<lambda>r. length (snd r) = length (columns df) + 0)
      (map2 (\<lambda>(i, cs) v. (i, cs[find_pos c (columns df) := v])) (rows df) vs)"
    using assms(2) l by (intro lengths_map2) auto
  have app: "list_all (\<lambda>r. length (snd r) = length (columns df) + 1)
      (map2 (\<lambda>(i, cs) v. (i, cs @ [v])) (rows df) vs)"
    using assms(2) l by (intro lengths_map2) auto
  show ?thesis
    using d upd app by (auto simp: frame_wf_def set_col_def)
qed

lemma wf_pos_less:
  "frame_wf df \<Longrightarrow> c \<in> set (columns df) \<Longrightarrow> list_all (\<lambda>r. find_pos c (columns df) < length (snd r)) (rows df)"
  by (auto simp: frame_wf_def list_all_iff find_pos_less)

lemma wf_lengths: "frame_wf df \<Longrightarrow> list_all (\<lambda>r. length (snd r) = length (columns df)) (rows df)"
  by (simp add: frame_wf_def)

lemma get_col_set_col_same:
  assumes "frame_wf df" "length vs = length (rows df)"
  shows "get_col (set_col c vs df) c = Inr vs"
proof (cases "c \<in> set (columns df)")
  case True
  then show ?thesis
    using assms proj_map2_update [OF assms(2)[symmetric] wf_pos_less [OF assms(1) True]]
    by (simp add: get_col_def set_col_def)
next
  case False
  then show ?thesis
    using assms proj_map2_snoc_new [OF assms(2)[symmetric] wf_lengths [OF assms(1)]]
    by (simp add: get_col_def set_col_def find_pos_snoc_new)
qed

lemma get_col_set_col_other:
  assumes "frame_wf df" "length vs = length (rows df)" "d \<noteq> c"
  shows "get_col (set_col c vs df) d = get_col df d"
proof (cases "d \<in> set (columns df)")
  case dT: True
  show ?thesis
  proof (cases "c \<in> set (columns df)")
    case True
    have "find_pos d (columns df) \<noteq> find_pos c (columns df)"
      using dT True assms(3) nth_find_pos by metis
    then show ?thesis
      using dT True proj_map2_update [OF assms(2)[symmetric] wf_pos_less [OF assms(1) True]]
      by (simp add: get_col_def set_col_def)
  next
    case False
    then show ?thesis
      using dT proj_map2_snoc_old [OF assms(2)[symmetric] wf_lengths [OF assms(1)] find_pos_less [OF dT]]
      by (simp add: get_col_def set_col_def find_pos_append)
  qed
next
  case False
  then show ?thesis using assms(3) by (simp add: get_col_def set_col_def)
qed

subsection \<open>Row filters\<close>

lemma filter_eq_Inr:
  "filter_eq c v df = Inr df' \<longleftrightarrow> c \<in> set (columns df) \<and>
     df' = df\<lparr>rows := filter (\<lambda>(i, cs). cell_eq (cs ! find_pos c (columns df)) v) (rows df)\<rparr>"
  by (auto simp: filter_eq_def)

lemma filter_rows_wf: "frame_wf df \<Longrightarrow> frame_wf (df\<lparr>rows := filter P (rows df)\<rparr>)"
  by (simp add: frame_wf_def list_all_iff)

lemma filter_eq_wf [frame_wf_intros]: "frame_wf df \<Longrightarrow> filter_eq c v df = Inr df' \<Longrightarrow> frame_wf df'"
  by (auto simp: filter_eq_def filter_rows_wf split: if_splits)

lemma filter_in_wf [frame_wf_intros]: "frame_wf df \<Longrightarrow> filter_in c vs df = Inr df' \<Longrightarrow> frame_wf df'"
  by (auto simp: filter_in_def filter_rows_wf split: if_splits)

lemma dropna_subset_wf [frame_wf_intros]:
  "frame_wf df \<Longrightarrow> dropna_subset c df = Inr df' \<Longrightarrow> frame_wf df'"
  by (auto simp: dropna_subset_def filter_rows_wf split: if_splits)

lemma get_col_filtered:
  "c \<in> set (columns df) \<Longrightarrow>
   get_col (df\<lparr>rows := filter P (rows df)\<rparr>) c = Inr (map (\<lambda>(i, cs). cs ! find_pos c (columns df)) (filter P (rows df)))"
  by (simp add: get_col_def)

subsection \<open>Arithmetic\<close>

lemma all_some_map_Some [simp]: "all_some (map Some zs) = Some zs"
  by (simp add: all_some_def list_all_iff comp_def)

lemma all_some_Some: "all_some xs = Some ys \<longleftrightarrow> xs = map Some ys"
proof
  assume "all_some xs = Some ys"
  then show "xs = map Some ys"
    by (auto simp: all_some_def list_all_iff split: if_splits intro!: nth_equalityI)
next
  assume "xs = map Some ys"
  then show "all_some xs = Some ys"
    by (simp add: all_some_def list_all_iff comp_def)
qed

lemma sub_cols_Inr:
  "sub_cols df a b = Inr zs \<longleftrightarrow>
     (\<exists>xs ys. get_col df a = Inr xs \<and> get_col df b = Inr ys \<and> map2 cell_sub xs ys = map Some zs)"
  by (auto simp: sub_cols_def all_some_Some split: sum.splits option.splits)

lemma length_sub_cols: "sub_cols df a b = Inr zs \<Longrightarrow> length zs = length (rows df)"
  by (auto simp: sub_cols_Inr dest!: length_get_col arg_cong [where f = length])

lemma length_div_col: "div_col df a d = Inr zs \<Longrightarrow> length zs = length (rows df)"
  by (auto simp: div_col_def all_some_Some split: sum.splits option.splits
      dest!: length_get_col arg_cong [where f = length])

subsection \<open>Column selection\<close>

lemma keep_cols_wf [frame_wf_intros]: "frame_wf df \<Longrightarrow> frame_wf (keep_cols keep df)"
  by (auto simp: keep_cols_def Let_def frame_wf_def list_all_iff distinct_map inj_on_nth)

lemma keep_cols_labels [simp]: "map fst (rows (keep_cols keep df)) = map fst (rows df)"
  by (simp add: keep_cols_def Let_def comp_def split_def)

lemma keep_cols_columns: "set (columns (keep_cols keep df)) \<subseteq> set (columns df)"
  by (auto simp: keep_cols_def Let_def)

text \<open>\<open>select_dtypes(include=["number"])\<close> leaves no string cell.\<close>

lemma select_numeric_no_str:
  "r \<in> set (rows (select_numeric df)) \<Longrightarrow> list_all (\<lambda>c. \<not> is_str c) (snd r)"
  by (fastforce simp: select_numeric_def keep_cols_def Let_def column_cells_def list_all_iff list_ex_iff)

lemma select_cols_Inr:
  "select_cols cols df = Inr df' \<Longrightarrow> columns df' = cols \<and> map fst (rows df') = map fst (rows df)
     \<and> list_all (\<lambda>r. length (snd r) = length cols) (rows df')"
  by (auto simp: select_cols_def comp_def split_def list_all_iff split: if_splits)

subsection \<open>Values\<close>

lemma unique_vals_set [simp]: "set (unique_vals xs) = set xs"
  by (simp add: unique_vals_def)

lemma length_unique_vals: "length (unique_vals xs) \<le> length xs"
  using length_remdups_leq [of "rev xs"] by (simp add: unique_vals_def)

lemma unique_vals_distinct: "distinct (unique_vals xs)"
  by (simp add: unique_vals_def)

lemma cell_eq_eq: "cell_eq a b \<Longrightarrow> a = b"
  by (cases a; cases b) simp_all

lemma cell_eq_iff: "\<not> is_na c \<Longrightarrow> cell_eq c v \<longleftrightarrow> c = v"
  by (cases c; cases v) (simp_all add: is_na_def)

lemma categorical_values: "v \<in> set (categorical cats vs) \<Longrightarrow> v \<in> set cats \<or> v = NaN"
  by (auto simp: categorical_def list_ex_iff dest: cell_eq_eq)

lemma length_categorical [simp]: "length (categorical cats vs) = length vs"
  by (simp add: categorical_def)

subsection \<open>Renaming and reshaping\<close>

lemma filter_eq_all:
  "c \<in> set (columns df) \<Longrightarrow> \<forall>r \<in> set (rows df). cell_eq (snd r ! find_pos c (columns df)) v
   \<Longrightarrow> filter_eq c v df = Inr df"
  by (simp add: filter_eq_def split_def list_all_iff [symmetric])

lemma dropna_subset_Inr:
  "dropna_subset c df = Inr df' \<Longrightarrow> columns df' = columns df \<and> set (rows df') \<subseteq> set (rows df)"
  by (auto simp: dropna_subset_def split: if_splits)

lemma columns_filter_in: "filter_in c vs df = Inr df' \<Longrightarrow> columns df' = columns df"
  by (auto simp: filter_in_def split: if_splits)

lemma rename_col_absent:
  assumes "old \<notin> set (columns df)"
  shows "rename_col old new df = df"
proof -
  have "map (\<lambda>c. if c = old then new else c) (columns df) = columns df"
    using assms by (intro map_idI) auto
  then show ?thesis by (simp add: rename_col_def)
qed

lemma keep_cols_rename:
  "keep_cols keep (rename_col old new df) = rename_col old new (keep_cols keep df)"
  by (simp add: keep_cols_def rename_col_def Let_def)

lemma column_cells_rename [simp]: "column_cells (rename_col old new df) = column_cells df"
  by (simp add: column_cells_def rename_col_def fun_eq_iff)

lemma dropna_all_cols_rename:
  "dropna_all_cols (rename_col old new df) = rename_col old new (dropna_all_cols df)"
  by (simp add: dropna_all_cols_def keep_cols_rename)

lemma select_numeric_rename:
  "select_numeric (rename_col old new df) = rename_col old new (select_numeric df)"
  by (simp add: select_numeric_def keep_cols_rename)

lemma find_pos_append_notin: "c \<notin> set xs \<Longrightarrow> find_pos c (xs @ ys) = length xs + find_pos c ys"
  by (induction xs) auto

text \<open>\<open>melt\<close> fills its variable column with one block per value column, in order.\<close>

lemma melt_var_column:
  assumes "melt ids vs var val df = Inr df'" "var \<notin> set ids"
  shows "get_col df' var = Inr (concat (map (\<lambda>v. replicate (length (rows df)) (Str v)) vs))
    \<and> map fst (rows df') = [0..<length vs * length (rows df)]"
proof -
  define cells where "cells = concat (map (\<lambda>v. map (\<lambda>(i, cs).
      map (\<lambda>c. cs ! find_pos c (columns df)) ids @ [Str v, cs ! find_pos v (columns df)]) (rows df)) vs)"
  have df': "df' = \<lparr>columns = ids @ [var, val], rows = zip [0..<length cells] cells\<rparr>"
    using assms(1) by (simp add: melt_def cells_def Let_def split: if_splits)
  have fp: "find_pos var (ids @ [var, val]) = length ids"
    using assms(2) by (simp add: find_pos_append_notin)
  have lc: "length cells = length vs * length (rows df)"
    by (simp add: cells_def length_concat comp_def sum_list_triv)
  have "map (\<lambda>cs. cs ! length ids) cells = concat (map (\<lambda>v. replicate (length (rows df)) (Str v)) vs)"
    by (simp add: cells_def map_concat comp_def split_def nth_append map_replicate_const)
  moreover have "map2 (\<lambda>i cs. cs ! length ids) [0..<length cells] cells = map (\<lambda>cs. cs ! length ids) cells"
    by (rule map2_snd) simp
  ultimately show ?thesis
    using fp lc by (simp add: df' get_col_def)
qed

text \<open>\<open>melt\<close> repeats each identifier column once per value column.\<close>

lemma melt_id_column:
  assumes "melt ids vs var val df = Inr df'" "c \<in> set ids"
  shows "get_col df' c = Inr (concat (map (\<lambda>v. map (\<lambda>(i, cs). cs ! find_pos c (columns df)) (rows df)) vs))"
proof -
  define cells where "cells = concat (map (\<lambda>v. map (\<lambda>(i, cs).
      map (\<lambda>c. cs ! find_pos c (columns df)) ids @ [Str v, cs ! find_pos v (columns df)]) (rows df)) vs)"
  have df': "df' = \<lparr>columns = ids @ [var, val], rows = zip [0..<length cells] cells\<rparr>"
    using assms(1) by (simp add: melt_def cells_def Let_def split: if_splits)
  have fp: "find_pos c (ids @ [var, val]) = find_pos c ids" and lt: "find_pos c ids < length ids"
    using assms(2) by (simp_all add: find_pos_append find_pos_less)
  have "map (\<lambda>cs. cs ! find_pos c ids) cells
      = concat (map (\<lambda>v. map (\<lambda>(i, cs). cs ! find_pos c (columns df)) (rows df)) vs)"
    using lt assms(2) by (simp add: cells_def map_concat comp_def split_def nth_append nth_find_pos)
  moreover have "map2 (\<lambda>i cs. cs ! find_pos c ids) [0..<length cells] cells = map (\<lambda>cs. cs ! find_pos c ids) cells"
    by (rule map2_snd) simp
  ultimately show ?thesis
    using fp assms(2) by (simp add: df' get_col_def)
qed


text \<open>Writing one column leaves every other column of each row as it was.\<close>

lemma map_fst_filter_view:
  "map (\<lambda>r. (fst r, f r)) xs = map (\<lambda>r. (fst r, g r)) ys \<Longrightarrow>
   map fst (filter (\<lambda>r. P (f r)) xs) = map fst (filter (\<lambda>r. P (g r)) ys)"
proof (induction xs arbitrary: ys)
  case (Cons x xs)
  then show ?case by (cases ys) auto
qed simp

lemma row_view_map2:
  "length xs = length vs \<Longrightarrow> (\<forall>r \<in> set xs. \<forall>v. row_view cols' ds (fst r, g (snd r) v) = row_view cols ds r) \<Longrightarrow>
   map (\<lambda>r. (fst r, row_view cols' ds r)) (map2 (\<lambda>(i, cs) v. (i, g cs v)) xs vs)
     = map (\<lambda>r. (fst r, row_view cols ds r)) xs"
  by (induction xs vs rule: list_induct2) auto

lemma row_view_set_col:
  assumes "frame_wf df" "length vs = length (rows df)" "c \<notin> set ds" "set ds \<subseteq> set (columns df)"
  shows "map (\<lambda>r. (fst r, row_view (columns (set_col c vs df)) ds r)) (rows (set_col c vs df))
       = map (\<lambda>r. (fst r, row_view (columns df) ds r)) (rows df)"
proof (cases "c \<in> set (columns df)")
  case True
  have "find_pos c (columns df) \<noteq> find_pos d (columns df)" if "d \<in> set ds" for d
    using that assms(3,4) True nth_find_pos by (metis subsetD)
  then have "\<forall>r \<in> set (rows df). \<forall>v. row_view (columns df) ds (fst r, (snd r)[find_pos c (columns df) := v])
      = row_view (columns df) ds r"
    by (auto simp: row_view_def)
  then show ?thesis
    using True assms(2) row_view_map2 [of "rows df" vs "columns df" ds "\<lambda>cs v. cs[find_pos c (columns df) := v]"]
    by (simp add: set_col_def split_def)
next
  case False
  have "\<forall>r \<in> set (rows df). \<forall>v. row_view (columns df @ [c]) ds (fst r, snd r @ [v]) = row_view (columns df) ds r"
    using assms(1,4) by (auto simp: row_view_def frame_wf_def list_all_iff find_pos_append nth_append find_pos_less)
  then show ?thesis
    using False assms(2) row_view_map2 [of "rows df" vs "columns df @ [c]" ds "\<lambda>cs v. cs @ [v]"]
    by (simp add: set_col_def split_def)
qed

end
