(* ===== verification/GroupBy.thy ===== *)
theory GroupBy
  imports Pandas "HOL-Library.Char_ord" "HOL-Library.List_Lexorder" "HOL-Library.Product_Lexorder"
begin

text \<open>
  Grouping in pandas: \<open>df.groupby(keys).agg("mean")\<close> and
  \<open>df.pivot_table(index, columns, values)\<close>, as the 3D panel of streamlit_app.py, rgb_3d.py
  and the CF/CV panel use them. pandas sorts the groups: it factorizes each key column
  with \<open>safe_sort\<close>, which puts numbers before strings and compares strings by code
  point. That order is the \<open>linorder\<close> instance of \<open>cell\<close> below (missing values,
  which grouping drops, come last), extended to key tuples lexicographically.
\<close>

section \<open>The order of cells\<close>

fun cell_rank :: "cell \<Rightarrow> nat \<times> real \<times> string" where
  "cell_rank NegInf = (0, 0, [])"
| "cell_rank (Num x) = (1, x, [])"
| "cell_rank PosInf = (2, 0, [])"
| "cell_rank (Str s) = (3, 0, s)"
| "cell_rank NaN = (4, 0, [])"

instantiation cell :: linorder
begin

definition less_eq_cell :: "cell \<Rightarrow> cell \<Rightarrow> bool" where
  "less_eq_cell a b \<longleftrightarrow> cell_rank a \<le> cell_rank b"

definition less_cell :: "cell \<Rightarrow> cell \<Rightarrow> bool" where
  "less_cell a b \<longleftrightarrow> cell_rank a < cell_rank b"

instance
proof
  fix a b c :: cell
  show "a < b \<longleftrightarrow> a \<le> b \<and> \<not> b \<le> a"
    by (auto simp: less_eq_cell_def less_cell_def)
  show "a \<le> a" by (simp add: less_eq_cell_def)
  show "a \<le> b \<Longrightarrow> b \<le> c \<Longrightarrow> a \<le> c"
    by (auto simp: less_eq_cell_def)
  show "a \<le> b \<Longrightarrow> b \<le> a \<Longrightarrow> a = b"
    by (cases a; cases b) (auto simp: less_eq_cell_def)
  show "a \<le> b \<or> b \<le> a"
    by (auto simp: less_eq_cell_def)
qed

end

section \<open>Means\<close>

text \<open>
  \<open>Series.mean()\<close> of a group: missing values are skipped, an empty group gives
  \<open>nan\<close>, infinities follow IEEE arithmetic, a string raises \<open>TypeError\<close>.
\<close>

fun num_val :: "cell \<Rightarrow> real" where
  "num_val (Num x) = x"
| "num_val _ = 0"

definition cell_mean :: "cell list \<Rightarrow> cell result" where
  "cell_mean cs =
     (if list_ex is_str cs then Inl TypeError
      else
        let xs = filter (\<lambda>c. \<not> is_na c) cs
        in if xs = [] then Inr NaN
           else if PosInf \<in> set xs \<and> NegInf \<in> set xs then Inr NaN
           else if PosInf \<in> set xs then Inr PosInf
           else if NegInf \<in> set xs then Inr NegInf
           else Inr (Num (sum_list (map num_val xs) / real (length xs))))"

section \<open>groupby and pivot_table\<close>

text \<open>The cells of the columns \<open>ks\<close> of a row.\<close>

definition key_of :: "string list \<Rightarrow> string list \<Rightarrow> cell list \<Rightarrow> cell list" where
  "key_of cols ks cs = map (\<lambda>c. cs ! find_pos c cols) ks"

text \<open>The cells of column \<open>v\<close> in the rows whose key is \<open>k\<close>.\<close>

definition group_vals :: "string list \<Rightarrow> string list \<Rightarrow> string \<Rightarrow> (nat \<times> cell list) list \<Rightarrow> cell list \<Rightarrow> cell list" where
  "group_vals cols ks v rs k = map (\<lambda>(i, cs). cs ! find_pos v cols) (filter (\<lambda>(i, cs). key_of cols ks cs = k) rs)"

text \<open>The rows whose key has no missing cell (\<open>groupby(..., dropna=True)\<close>), and their sorted distinct keys.\<close>

definition keyed_rows :: "string list \<Rightarrow> string list \<Rightarrow> (nat \<times> cell list) list \<Rightarrow> (nat \<times> cell list) list" where
  "keyed_rows cols ks rs = filter (\<lambda>(i, cs). \<not> list_ex is_na (key_of cols ks cs)) rs"

definition group_keys :: "string list \<Rightarrow> string list \<Rightarrow> (nat \<times> cell list) list \<Rightarrow> cell list list" where
  "group_keys cols ks rs = sort (remdups (map (\<lambda>(i, cs). key_of cols ks cs) (keyed_rows cols ks rs)))"

text \<open>
  \<open>df.groupby(ks).agg({v: "mean" for v in vs}).reset_index()\<close>: one row per
  distinct key in sorted order, under a fresh index.
\<close>

definition group_mean :: "string list \<Rightarrow> string list \<Rightarrow> frame \<Rightarrow> frame result" where
  "group_mean ks vs df =
     (if set (ks @ vs) \<subseteq> set (columns df)
      then
        res_bind (map_res (\<lambda>k. res_bind (map_res (\<lambda>v. cell_mean (group_vals (columns df) ks v
                                                         (keyed_rows (columns df) ks (rows df)) k)) vs)
                                  (\<lambda>ms. Inr (k @ ms)))
                   (group_keys (columns df) ks (rows df)))
          (\<lambda>cells. Inr \<lparr>columns = ks @ vs, rows = zip [0..<length cells] cells\<rparr>)
      else Inl KeyError)"

text \<open>
  The label of a pivoted column: the channel string. (The Channel column the panels
  pivot holds only strings and missing values, so other labels do not arise.)
\<close>

fun col_label :: "cell \<Rightarrow> string" where
  "col_label (Str s) = s"
| "col_label _ = []"

text \<open>
  \<open>df.pivot_table(index=ix, columns=col, values=val).reset_index()\<close>: the group
  means over \<open>ix @ [col]\<close>; groups whose mean is missing are dropped
  (\<open>agged.dropna(how="all")\<close>); the result has one row per index key, sorted, and one
  column per channel, sorted, holding the group mean or \<open>nan\<close>. \<open>reset_index\<close>
  raises \<open>ValueError\<close> when a channel label is also an index name.
\<close>

definition pivot_mean :: "string list \<Rightarrow> string \<Rightarrow> string \<Rightarrow> frame \<Rightarrow> frame result" where
  "pivot_mean ix col val df =
     res_bind (group_mean (ix @ [col]) [val] df) (\<lambda>g.
       (let n = length ix;
            gm = filter (\<lambda>(i, cs). \<not> is_na (cs ! Suc n)) (rows g);
            keys = sort (remdups (map (\<lambda>(i, cs). take n cs) gm));
            chans = sort (remdups (map (\<lambda>(i, cs). cs ! n) gm));
            cell = (\<lambda>k c. case find (\<lambda>(i, cs). take n cs = k \<and> cs ! n = c) gm of
                             Some (i, cs) \<Rightarrow> cs ! Suc n
                           | None \<Rightarrow> NaN);
            labels = map col_label chans
        in if set ix \<inter> set labels \<noteq> {} then Inl ValueError
           else Inr \<lparr>columns = ix @ labels,
                     rows = zip [0..<length keys] (map (\<lambda>k. k @ map (cell k) chans) keys)\<rparr>))"



section \<open>Groups and pivots\<close>

lemma map_res_Inr: "map_res f xs = Inr ys \<longleftrightarrow> list_all2 (\<lambda>x y. f x = Inr y) xs ys"
proof (induction xs arbitrary: ys)
  case Nil then show ?case by auto
next
  case (Cons x xs)
  then show ?case
    by (cases ys) (auto simp: res_bind_eq_Inr)
qed

lemma map_res_Inl: "map_res f xs = Inl e \<Longrightarrow> \<exists>x \<in> set xs. f x = Inl e"
  by (induction xs) (auto simp: res_bind_eq_Inl)

lemma map_res_total: "\<forall>x \<in> set xs. \<exists>y. f x = Inr y \<Longrightarrow> \<exists>ys. map_res f xs = Inr ys"
  by (induction xs) auto

lemma length_key_of [simp]: "length (key_of cols ks cs) = length ks"
  by (simp add: key_of_def)

lemma group_keys_no_na: "k \<in> set (group_keys cols ks rs) \<Longrightarrow> \<not> list_ex is_na k"
  by (auto simp: group_keys_def keyed_rows_def)

lemma group_keys_length: "k \<in> set (group_keys cols ks rs) \<Longrightarrow> length k = length ks"
  by (auto simp: group_keys_def keyed_rows_def)

lemma group_keys_sorted: "sorted (group_keys cols ks rs) \<and> distinct (group_keys cols ks rs)"
  by (simp add: group_keys_def)


lemma group_vals_keyed:
  "\<not> list_ex is_na k \<Longrightarrow> group_vals cols ks v (keyed_rows cols ks rs) k = group_vals cols ks v rs k"
  by (induction rs) (auto simp: group_vals_def keyed_rows_def)


lemma group_mean_Inr:
  assumes "group_mean ks vs df = Inr g"
  shows "columns g = ks @ vs"
    and "map (\<lambda>r. take (length ks) (snd r)) (rows g) = group_keys (columns df) ks (rows df)"
    and "r \<in> set (rows g) \<Longrightarrow> \<exists>ms. snd r = take (length ks) (snd r) @ ms
           \<and> list_all2 (\<lambda>v m. cell_mean (group_vals (columns df) ks v (rows df) (take (length ks) (snd r))) = Inr m) vs ms"
proof -
  let ?K = "group_keys (columns df) ks (rows df)"
  obtain cells where c: "list_all2 (\<lambda>k y. res_bind (map_res (\<lambda>v. cell_mean (group_vals (columns df) ks v
            (keyed_rows (columns df) ks (rows df)) k)) vs) (\<lambda>ms. Inr (k @ ms)) = Inr y) ?K cells"
    and g: "g = \<lparr>columns = ks @ vs, rows = zip [0..<length cells] cells\<rparr>"
    using assms by (auto simp: group_mean_def res_bind_eq_Inr map_res_Inr split: if_splits)
  have cell: "\<exists>ms. cells ! i = ?K ! i @ ms \<and> list_all2 (\<lambda>v m. cell_mean (group_vals (columns df) ks v
            (keyed_rows (columns df) ks (rows df)) (?K ! i)) = Inr m) vs ms" if "i < length ?K" for i
    using list_all2_nthD [OF c that] by (auto simp: res_bind_eq_Inr map_res_Inr eq_commute [of "_ @ _"])
  have len: "length cells = length ?K" using c by (rule list_all2_lengthD [symmetric])
  show "columns g = ks @ vs" by (simp add: g)
  show "map (\<lambda>r. take (length ks) (snd r)) (rows g) = ?K"
  proof (rule nth_equalityI)
    show "length (map (\<lambda>r. take (length ks) (snd r)) (rows g)) = length ?K" by (simp add: g len)
    fix i assume "i < length (map (\<lambda>r. take (length ks) (snd r)) (rows g))"
    then have i: "i < length ?K" by (simp add: g len)
    then have "length (?K ! i) = length ks" using group_keys_length nth_mem by blast
    then show "map (\<lambda>r. take (length ks) (snd r)) (rows g) ! i = ?K ! i"
      using cell [OF i] i len by (auto simp: g)
  qed
  assume "r \<in> set (rows g)"
  then obtain i where i: "i < length ?K" and r: "snd r = cells ! i"
    by (auto simp: g len in_set_zip)
  have k: "length (?K ! i) = length ks" "\<not> list_ex is_na (?K ! i)"
    using i group_keys_length group_keys_no_na nth_mem by blast+
  show "\<exists>ms. snd r = take (length ks) (snd r) @ ms
           \<and> list_all2 (\<lambda>v m. cell_mean (group_vals (columns df) ks v (rows df) (take (length ks) (snd r))) = Inr m) vs ms"
    using cell [OF i] k r by (auto simp: group_vals_keyed)
qed

text \<open>Exceptions and bounds of group means.\<close>

lemma cell_mean_Inl: "cell_mean xs = Inl e \<Longrightarrow> e = TypeError"
  by (simp add: cell_mean_def Let_def split: if_splits)

lemma group_mean_Inl: "group_mean ks vs df = Inl e \<Longrightarrow> e = KeyError \<or> e = TypeError"
  by (auto simp: group_mean_def res_bind_eq_Inl dest!: map_res_Inl cell_mean_Inl split: if_splits)

lemma cell_mean_bounds:
  assumes "cell_mean xs = Inr m" "xs \<noteq> []" "\<forall>x \<in> set xs. \<exists>y. x = Num y \<and> a < y \<and> y < b"
  shows "\<exists>y. m = Num y \<and> a < y \<and> y < b"
proof -
  have nn: "filter (\<lambda>c. \<not> is_na c) xs = xs" using assms(3) by (auto simp: is_na_def filter_id_conv)
  have ns: "\<not> list_ex is_str xs" and ni: "PosInf \<notin> set xs" "NegInf \<notin> set xs"
    using assms(3) by (auto simp: list_ex_iff)
  have "\<forall>x \<in> set xs. a < num_val x \<and> num_val x < b" using assms(3) by auto
  from sum_list_bounds [OF assms(2) this] have
    "a < sum_list (map num_val xs) / real (length xs) \<and> sum_list (map num_val xs) / real (length xs) < b"
    using assms(2) by (simp add: field_simps)
  moreover have "m = Num (sum_list (map num_val xs) / real (length xs))"
    using assms(1,2) nn ns ni by (simp add: cell_mean_def)
  ultimately show ?thesis by blast
qed


lemma group_vals_set:
  "x \<in> set (group_vals cols ks v rs k) \<Longrightarrow> \<exists>i cs. (i, cs) \<in> set rs \<and> x = cs ! find_pos v cols"
  by (auto simp: group_vals_def)

lemma group_vals_present:
  "k \<in> set (group_keys cols ks rs) \<Longrightarrow> group_vals cols ks v rs k \<noteq> []"
  by (auto simp: group_keys_def keyed_rows_def group_vals_def filter_empty_conv)

lemma group_mean_bounds:
  assumes g: "group_mean ks vs df = Inr g" and r: "r \<in> set (rows g)" and j: "j < length vs"
    and P: "\<forall>(i, cs) \<in> set (rows df). \<exists>y. cs ! find_pos (vs ! j) (columns df) = Num y \<and> a < y \<and> y < b"
  shows "\<exists>y. snd r ! (length ks + j) = Num y \<and> a < y \<and> y < b"
proof -
  let ?k = "take (length ks) (snd r)"
  obtain ms where ms: "snd r = ?k @ ms"
    and a2: "list_all2 (\<lambda>v m. cell_mean (group_vals (columns df) ks v (rows df) ?k) = Inr m) vs ms"
    using group_mean_Inr(3) [OF g r] by blast
  have k: "?k \<in> set (group_keys (columns df) ks (rows df))"
    using r unfolding group_mean_Inr(2) [OF g, symmetric] by simp
  have lk: "length ?k = length ks" using group_keys_length [OF k] .
  have m: "cell_mean (group_vals (columns df) ks (vs ! j) (rows df) ?k) = Inr (ms ! j)"
    using list_all2_nthD [OF a2 j] .
  have "\<forall>x \<in> set (group_vals (columns df) ks (vs ! j) (rows df) ?k). \<exists>y. x = Num y \<and> a < y \<and> y < b"
    using P by (fastforce dest: group_vals_set)
  from cell_mean_bounds [OF m group_vals_present [OF k] this]
  have "\<exists>y. ms ! j = Num y \<and> a < y \<and> y < b" .
  moreover have "snd r ! (length ks + j) = ms ! j"
    using lk by (subst ms) (simp add: nth_append)
  ultimately show ?thesis by simp
qed

text \<open>A pivot of a table without rows has the index columns only.\<close>

lemma pivot_mean_no_rows:
  assumes "set (ix @ [col, val]) \<subseteq> set (columns df)" "rows df = []"
  shows "pivot_mean ix col val df = Inr \<lparr>columns = ix, rows = []\<rparr>"
  using assms by (simp add: pivot_mean_def group_mean_def group_keys_def keyed_rows_def Let_def)



end
