(* ===== verification/Corr.thy ===== *)
theory Corr
  imports GroupBy
begin

text \<open>
  \<open>DataFrame.corr()\<close> (Pearson, \<open>min_periods=1\<close>) as pandas computes it in
  \<open>nancorr\<close>: every pair of columns is correlated over the rows where both cells are
  finite; no such row, or a column without spread among them, gives \<open>nan\<close>; the
  coefficient is clipped to \<open>[-1, 1]\<close>. A string cell makes the conversion of the
  table to floats raise \<open>ValueError\<close>.
\<close>

section \<open>Correlation of two columns\<close>

fun is_finite_cell :: "cell \<Rightarrow> bool" where
  "is_finite_cell (Num _) = True"
| "is_finite_cell _ = False"

definition complete_pairs :: "cell list \<Rightarrow> cell list \<Rightarrow> (real \<times> real) list" where
  "complete_pairs xs ys =
     map (\<lambda>(a, b). (num_val a, num_val b)) (filter (\<lambda>(a, b). is_finite_cell a \<and> is_finite_cell b) (zip xs ys))"

definition mean_r :: "real list \<Rightarrow> real" where
  "mean_r xs = sum_list xs / real (length xs)"

text \<open>Sum of squared deviations from the mean, and of products of deviations.\<close>

definition ssqdm :: "real list \<Rightarrow> real" where
  "ssqdm xs = sum_list (map (\<lambda>x. (x - mean_r xs)\<^sup>2) xs)"

definition codev :: "(real \<times> real) list \<Rightarrow> real" where
  "codev ps = sum_list (map (\<lambda>(x, y). (x - mean_r (map fst ps)) * (y - mean_r (map snd ps))) ps)"

definition nancorr_pair :: "(real \<times> real) list \<Rightarrow> cell" where
  "nancorr_pair ps =
     (if length ps < 1 then NaN
      else
        let divisor = sqrt (ssqdm (map fst ps) * ssqdm (map snd ps))
        in if divisor \<noteq> 0 then Num (max (-1) (min 1 (codev ps / divisor))) else NaN)"



section \<open>The correlation matrix\<close>

text \<open>
  \<open>df.corr()\<close>: the matrix of the coefficients of every pair of columns, in column
  order; a string cell raises \<open>ValueError\<close> (\<open>to_numpy(dtype=float)\<close>).
\<close>

definition df_corr :: "frame \<Rightarrow> cell list list result" where
  "df_corr df =
     (if list_ex (\<lambda>j. list_ex is_str (column_cells df j)) [0..<length (columns df)] then Inl ValueError
      else Inr (map (\<lambda>i. map (\<lambda>j. nancorr_pair (complete_pairs (column_cells df i) (column_cells df j)))
                              [0..<length (columns df)])
                  [0..<length (columns df)]))"

text \<open>
  \<open>sns.heatmap(matrix)\<close>: the colour range is the minimum and maximum of the matrix,
  which numpy cannot take of an empty one (\<open>ValueError\<close>). The figure is not modelled.
\<close>

definition sns_heatmap :: "cell list list \<Rightarrow> cell list list result" where
  "sns_heatmap M = (if M = [] then Inl ValueError else Inr M)"

section \<open>Lemmas\<close>





lemma ssqdm_nonneg: "0 \<le> ssqdm xs"
  unfolding ssqdm_def by (rule sum_list_nonneg) auto




lemma nancorr_pair_range: "nancorr_pair ps = NaN \<or> (\<exists>r. nancorr_pair ps = Num r \<and> -1 \<le> r \<and> r \<le> 1)"
  by (simp add: nancorr_pair_def Let_def)

lemma complete_pairs_swap: "complete_pairs ys xs = map prod.swap (complete_pairs xs ys)"
  by (simp add: complete_pairs_def zip_commute [of ys xs] filter_map comp_def split_def conj_commute)

lemma nancorr_pair_swap: "nancorr_pair (map prod.swap ps) = nancorr_pair ps"
proof -
  have "codev (map prod.swap ps) = codev ps"
    by (simp add: codev_def comp_def split_def mult.commute)
  then show ?thesis by (simp add: nancorr_pair_def Let_def comp_def mult.commute)
qed

lemma nancorr_pair_diag:
  "nancorr_pair (complete_pairs xs xs) = NaN \<or> nancorr_pair (complete_pairs xs xs) = Num 1"
proof -
  define zs where "zs = map num_val (filter is_finite_cell xs)"
  have z: "complete_pairs xs xs = map (\<lambda>x. (x, x)) zs"
    unfolding zs_def complete_pairs_def by (induction xs) auto
  have "codev (map (\<lambda>x. (x, x)) zs) = ssqdm zs"
    by (simp add: codev_def ssqdm_def comp_def power2_eq_square)
  moreover have "sqrt (ssqdm zs * ssqdm zs) = ssqdm zs"
    using ssqdm_nonneg [of zs] by (simp add: real_sqrt_mult_self)
  ultimately show ?thesis by (simp add: z nancorr_pair_def Let_def comp_def)
qed


lemma df_corr_Inr:
  assumes "df_corr df = Inr M"
  shows "length M = length (columns df)"
    and "i < length (columns df) \<Longrightarrow> j < length (columns df) \<Longrightarrow>
           length (M ! i) = length (columns df) \<and> M ! i ! j = M ! j ! i
           \<and> (M ! i ! j = NaN \<or> (\<exists>r. M ! i ! j = Num r \<and> -1 \<le> r \<and> r \<le> 1))"
    and "i < length (columns df) \<Longrightarrow> M ! i ! i = NaN \<or> M ! i ! i = Num 1"
proof -
  let ?n = "length (columns df)"
  let ?c = "\<lambda>i j. nancorr_pair (complete_pairs (column_cells df i) (column_cells df j))"
  have M: "M = map (\<lambda>i. map (\<lambda>j. ?c i j) [0..<?n]) [0..<?n]"
    using assms by (simp add: df_corr_def split: if_splits)
  show "length M = ?n" by (simp add: M)
  have diag: "M ! k ! k = NaN \<or> M ! k ! k = Num 1" if "k < ?n" for k
    using that nancorr_pair_diag by (simp add: M)
  then show "i < ?n \<Longrightarrow> M ! i ! i = NaN \<or> M ! i ! i = Num 1" by blast
  assume ij: "i < ?n" "j < ?n"
  have "?c i j = ?c j i"
    by (simp add: complete_pairs_swap [of "column_cells df j"] nancorr_pair_swap)
  then show "length (M ! i) = ?n \<and> M ! i ! j = M ! j ! i
           \<and> (M ! i ! j = NaN \<or> (\<exists>r. M ! i ! j = Num r \<and> -1 \<le> r \<and> r \<le> 1))"
    using ij nancorr_pair_range [of "complete_pairs (column_cells df i) (column_cells df j)"] by (simp add: M)
qed

lemma df_corr_no_str:
  "\<forall>r \<in> set (rows df). list_all (\<lambda>c. \<not> is_str c) (snd r) \<Longrightarrow> frame_wf df \<Longrightarrow> \<exists>M. df_corr df = Inr M"
  by (auto simp: df_corr_def column_cells_def list_ex_iff list_all_iff frame_wf_def)

end
