(* ===== verification/Dashboard.thy ===== *)
theory Dashboard
  imports Reads Pandas GroupBy Corr
begin

text \<open>
  The analysis panels of \<^verbatim>\<open>src/Analysis/streamlit_app.py\<close>: for each panel, the
  table it hands to its plotting call (or the exception it raises first), and the page
  as the sequence of panels Streamlit runs top to bottom, stopping at the first
  exception. The plotting calls are not modelled beyond the exceptions they raise on
  the table they are given.
\<close>

section \<open>Panels of the first column\<close>

text \<open>\<open>RGB_3D\<close> (lines 67--83), up to the split of \<open>Channel_Age\<close>.\<close>

definition rgb_value_vars :: "string list" where
  "rgb_value_vars = [''R_PRISTINE'', ''G_PRISTINE'', ''B_PRISTINE'', ''R_EXPOSED'', ''G_EXPOSED'', ''B_EXPOSED'']"

text \<open>
  \<open>str.extract(r"([RGB])_(PRISTINE|EXPOSED)")\<close> on one string: the leftmost match,
  its two groups, or two missing values.
\<close>

fun extract_channel_age :: "string \<Rightarrow> (string \<times> string) option" where
  "extract_channel_age [] = None"
| "extract_channel_age (c # cs) =
     (if c \<in> set ''RGB'' \<and> take 1 cs = ''_'' \<and> take 8 (drop 1 cs) = ''PRISTINE'' then Some ([c], ''PRISTINE'')
      else if c \<in> set ''RGB'' \<and> take 1 cs = ''_'' \<and> take 7 (drop 1 cs) = ''EXPOSED'' then Some ([c], ''EXPOSED'')
      else extract_channel_age cs)"

definition extract_cells :: "cell \<Rightarrow> cell \<times> cell" where
  "extract_cells v =
     (case v of
        Str s \<Rightarrow> (case extract_channel_age s of Some (a, b) \<Rightarrow> (Str a, Str b) | None \<Rightarrow> (NaN, NaN))
      | _ \<Rightarrow> (NaN, NaN))"

text \<open>\<open>master["Pattern"].apply(int).apply(str)\<close>.\<close>

definition pattern_to_str :: "cell list \<Rightarrow> cell list result" where
  "pattern_to_str ps = res_bind (map_res py_int_cell ps) (\<lambda>ns. Inr (map (\<lambda>n. Str (py_str_int n)) ns))"

definition RGB_3D_long :: "world \<Rightarrow> string \<Rightarrow> frame result" where
  "RGB_3D_long w option1 =
     res_bind (get_master w) (\<lambda>master.
     res_bind (dropna_subset ''Pattern'' master) (\<lambda>master.
     res_bind (filter_eq ''Solution'' (Str option1) master) (\<lambda>master.
     res_bind (get_col master ''Pattern'') (\<lambda>pat.
     res_bind (pattern_to_str pat) (\<lambda>pat_str.
     (let master = set_col ''Pattern'' pat_str master in
     res_bind (melt [''Pattern'', ''Board ID'', ''Sensor''] rgb_value_vars ''Channel_Age'' ''Value'' master)
       (\<lambda>long.
     res_bind (get_col long ''Channel_Age'') (\<lambda>ca.
     (let ext = map extract_cells ca;
          long = set_col ''Channel'' (map fst ext) long
      in Inr (set_col ''Age'' (map snd ext) long))))))))))"

text \<open>
  \<open>px.scatter_3d(master, x="R", y="G", z="B", color="Pattern", symbol="Age",
  hover_data=["Pattern", "Board ID", "Sensor"])\<close> (lines 90--92): plotly raises
  \<open>ValueError\<close> when an argument names no column of the frame. The figure is not
  modelled.
\<close>

definition scatter_3d_cols :: "string list" where
  "scatter_3d_cols = [''R'', ''G'', ''B'', ''Pattern'', ''Age'', ''Pattern'', ''Board ID'', ''Sensor'']"

definition px_scatter_3d :: "frame \<Rightarrow> frame result" where
  "px_scatter_3d df = (if set scatter_3d_cols \<subseteq> set (columns df) then Inr df else Inl ValueError)"

text \<open>\<open>RGB_3D\<close> (lines 67--94): the long table, its pivot (lines 86--88) and the plot.\<close>

definition RGB_3D :: "world \<Rightarrow> string \<Rightarrow> frame result" where
  "RGB_3D w option1 =
     res_bind (RGB_3D_long w option1) (\<lambda>long.
     res_bind (pivot_mean [''Pattern'', ''Board ID'', ''Sensor'', ''Age''] ''Channel'' ''Value'' long)
       px_scatter_3d)"

text \<open>\<open>RGB_boxplots\<close> (lines 106--120).\<close>

definition RGB_boxplots :: "world \<Rightarrow> string \<Rightarrow> frame result" where
  "RGB_boxplots w option1 =
     res_bind (get_master w) (\<lambda>master.
     res_bind (filter_eq ''Solution'' (Str option1) master) (\<lambda>master.
     res_bind (sub_cols master ''R_EXPOSED'' ''R_PRISTINE'') (\<lambda>red.
     (let master = set_col ''Red'' red master in
     res_bind (sub_cols master ''G_EXPOSED'' ''G_PRISTINE'') (\<lambda>green.
     (let master = set_col ''Green'' green master in
     res_bind (sub_cols master ''B_EXPOSED'' ''B_PRISTINE'') (\<lambda>blue.
     (let master = set_col ''Blue'' blue master in
     melt [''Board ID'', ''Sensor'', ''Pattern''] [''Red'', ''Green'', ''Blue'']
       ''Channel'' ''Channel Difference'' master))))))))"

text \<open>
  \<open>g.set_xticklabels([1, 4, 7, 10])\<close> (line 133): seaborn fixes the current ticks of each
  facet, one per box, that is one per distinct non-missing \<open>Pattern\<close> value of the
  long table, and matplotlib raises \<open>ValueError\<close> when the number of labels differs
  from the number of fixed ticks. The boxes themselves are not modelled.
\<close>

definition xtick_labels :: "int list" where
  "xtick_labels = [1, 4, 7, 10]"

definition facet_set_xticklabels :: "frame \<Rightarrow> frame result" where
  "facet_set_xticklabels long =
     res_bind (get_col long ''Pattern'') (\<lambda>pat.
       if length (remdups (filter (\<lambda>c. \<not> is_na c) pat)) = length xtick_labels then Inr long
       else Inl ValueError)"

text \<open>The RGB boxplot panel (lines 106--135): the long table and the plot's tick labels.\<close>

definition RGB_boxplots_panel :: "world \<Rightarrow> string \<Rightarrow> frame result" where
  "RGB_boxplots_panel w option1 = res_bind (RGB_boxplots w option1) facet_set_xticklabels"

text \<open>\<open>grayscale\<close> (lines 147--156).\<close>

definition pattern_categories :: "cell list" where
  "pattern_categories = [Num 1, Num 4, Num 7, Num 10]"

definition grayscale :: "world \<Rightarrow> string \<Rightarrow> frame result" where
  "grayscale w option1 =
     res_bind (get_master w) (\<lambda>master.
     res_bind (filter_eq ''Solution'' (Str option1) master) (\<lambda>master.
     res_bind (sub_cols master ''Brightness Exposed'' ''Brightness Pristine'') (\<lambda>diff.
     (let master = set_col ''Brightness Difference'' diff master in
     res_bind (get_col master ''Pattern'') (\<lambda>pat.
     Inr (set_col ''Pattern'' (categorical pattern_categories pat) master))))))"

text \<open>
  \<open>sns.FacetGrid(data=sub, row="Pattern", col="Solution", hue="Sensor",
  palette={"U1": ..., "U4": ...}, ...)\<close> (lines 445--452; the failure-time panel's grid
  of lines 185--188 has the same hue and palette and no column variable): seaborn reads
  the hue column and looks each of its non-missing values up in the palette, then reads
  the row and column variables \<open>vars\<close>; a missing column or a sensor without a colour
  raises \<open>KeyError\<close>. The grid is not modelled beyond these checks.
\<close>

definition palette_sensors :: "string list" where
  "palette_sensors = [''U1'', ''U2'', ''U3'', ''U4'']"

definition facet_grid :: "string list \<Rightarrow> frame \<Rightarrow> frame result" where
  "facet_grid vars sub =
     res_bind (get_col sub ''Sensor'') (\<lambda>hue.
       if \<not> list_all (\<lambda>c. is_na c \<or> list_ex (\<lambda>s. c = Str s) palette_sensors) hue then Inl KeyError
       else res_bind (map_res (get_col sub) vars) (\<lambda>_. Inr sub))"

text \<open>
  The sidebar (lines 42--44 and 48): the solutions offered for the image panels and the
  patterns offered for the failure-time panel. Streamlit selects the first entry until the
  user chooses another.
\<close>

definition sidebar_solutions :: "string list" where
  "sidebar_solutions = [''DI Water'', ''Adipic Acid - 1.24mM'', ''Adipic Acid - 0.712mM'', ''Succinic 0.388mM'',
                        ''Succinic 20mM'', ''Succinic 1.425mM'', ''Succinic 0.712 mM'', ''Succinic 3.6mM'',
                        ''Adipic Acid - 0.388mM'']"

text \<open>
  The point plots of a failure-time grid (lines 185--195): the grid has one row of facets
  per pattern of \<open>row_order\<close> and one hue per sensor present, and
  \<open>sns.pointplot(x="Solution", ..., order=...)\<close> places a row at an x position only when
  its solution is one of the eight of \<open>order\<close>. \<open>pointplot_rows\<close> are the rows the
  plots of one figure place; the plots' own checks of their columns are not modelled.
\<close>

definition facet_row_order :: "cell list" where
  "facet_row_order = [Num 1, Num 4, Num 7, Num 10]"

definition failure_order :: "string list" where
  "failure_order = [''DI Water'', ''Adipic Acid - 0.388mM'', ''Adipic Acid - 0.712mM'', ''Adipic Acid - 1.24mM'',
                    ''Succinic 0.388mM'', ''Succinic 0.712 mM'', ''Succinic 1.425mM'', ''Succinic 3.6mM'']"

definition failure_point :: "cell list \<Rightarrow> bool" where
  "failure_point v \<longleftrightarrow>
     list_ex (cell_eq (v ! 0)) facet_row_order \<and> \<not> is_na (v ! 1)
     \<and> list_ex (\<lambda>s. cell_eq (v ! 2) (Str s)) failure_order"

definition pointplot_rows :: "frame \<Rightarrow> (nat \<times> cell list) list" where
  "pointplot_rows sub =
     filter (\<lambda>r. failure_point (row_view (columns sub) [''Pattern'', ''Sensor'', ''Solution''] r)) (rows sub)"

text \<open>
  \<open>failure_time\<close> (lines 171--217): one figure per distinct voltage, in the order
  of first occurrence, titled with \<open>int(voltage)\<close>; Streamlit shows each figure as
  it is made, so an exception in a later title leaves the earlier figures on the page.
\<close>

definition failure_title :: "cell \<Rightarrow> string result" where
  "failure_title v =
     res_bind (py_int_cell v) (\<lambda>n.
       Inr (''Mean Failure Time Vs Solution, by Pattern, and Sensor ('' @ py_str_int n @ ''V)''))"

fun failure_figures :: "frame \<Rightarrow> cell list \<Rightarrow> (string \<times> frame) list \<times> py_exc option" where
  "failure_figures master [] = ([], None)"
| "failure_figures master (v # vs) =
     (case res_bind (filter_eq ''Voltage'' v master) (facet_grid [''Pattern'']) of
        Inl e \<Rightarrow> ([], Some e)
      | Inr sub \<Rightarrow>
          (case failure_title v of
             Inl e \<Rightarrow> ([], Some e)
           | Inr t \<Rightarrow> (let (figs, err) = failure_figures master vs in ((t, sub) # figs, err))))"

definition failure_time :: "world \<Rightarrow> (string \<times> frame) list \<times> py_exc option" where
  "failure_time w =
     (case res_bind (get_master w) (\<lambda>master.
           res_bind (dropna_subset ''Voltage'' master) (\<lambda>master.
           res_bind (div_col master ''Time to Failure (ms)'' 1000) (\<lambda>secs.
           (let master = set_col ''Failure Time (s)'' secs master in
           res_bind (get_col master ''Voltage'') (\<lambda>volts. Inr (master, unique_vals volts)))))) of
        Inl e \<Rightarrow> ([], Some e)
      | Inr (master, volts) \<Rightarrow> failure_figures master volts)"

section \<open>Panels of the second column\<close>

definition matrix_cols :: "string list" where
  "matrix_cols = [''Pattern'', ''Time to Failure (ms)'', ''Voltage'', ''pH'', ''Dendrite Score'',
                  ''Brightness Pristine'', ''Brightness Exposed'', ''Brightness Difference'']"

text \<open>\<open>scatter\<close> (lines 231--243) and \<open>heatmap\<close> (lines 269--281), up to the plot.\<close>

definition scatter :: "world \<Rightarrow> frame result" where
  "scatter w =
     res_bind (get_master w) (\<lambda>master.
     res_bind (select_cols matrix_cols master) (\<lambda>master.
     Inr (select_numeric (dropna_all_cols master))))"

definition heatmap :: "world \<Rightarrow> frame result" where
  "heatmap w =
     res_bind (get_master w) (\<lambda>master.
     res_bind (select_cols matrix_cols master) (\<lambda>master.
     Inr (select_numeric (dropna_all_cols master))))"

text \<open>The heatmap panel through its plot (lines 284--287): \<open>sns.heatmap(master.corr())\<close>.\<close>

definition heatmap_panel :: "world \<Rightarrow> cell list list result" where
  "heatmap_panel w = res_bind (heatmap w) (\<lambda>master. res_bind (df_corr master) sns_heatmap)"

text \<open>
  \<open>plot_ph\<close> (lines 299--308): the four solutions with a recorded pH;
  \<open>sns.scatterplot(x="pH", y="Time to Failure (ms)")\<close> raises \<open>ValueError\<close> when
  the table has no such column.
\<close>

definition ph_solutions :: "cell list" where
  "ph_solutions = [Str ''Adipic Acid - 1.24mM'', Str ''Adipic Acid - 0.712mM'',
                   Str ''Adipic Acid - 0.388mM'', Str ''Succinic 0.388mM'']"

definition plot_ph :: "world \<Rightarrow> frame result" where
  "plot_ph w =
     res_bind (get_master w) (\<lambda>df.
     res_bind (filter_in ''Solution'' ph_solutions df) (\<lambda>df.
     (if ''pH'' \<in> set (columns df) \<and> ''Time to Failure (ms)'' \<in> set (columns df)
      then Inr df else Inl ValueError)))"

section \<open>The CF/CV panel and the current-versus-time panel\<close>

text \<open>A panel's outcome: it returns normally or raises.\<close>

definition outcome :: "'a result \<Rightarrow> unit result" where
  "outcome r = (case r of Inl e \<Rightarrow> Inl e | Inr _ \<Rightarrow> Inr ())"

definition figures_outcome :: "('a list \<times> py_exc option) \<Rightarrow> unit result" where
  "figures_outcome r = (case snd r of Some e \<Rightarrow> Inl e | None \<Rightarrow> Inr ())"


text \<open>
  \<open>adds\<close> is reads.py: the names the module binds are its imports (lines 6--10), its
  two directory globals (15, 18) and its six functions. Looking up another name raises
  \<open>AttributeError\<close>.
\<close>

definition reads_attrs :: "string list" where
  "reads_attrs = [''pd'', ''np'', ''cv2'', ''typing'', ''os'', ''reads_directory'', ''IDC_directory'',
                  ''get_master'', ''get_master_cached'', ''get_current_time'', ''get_cf_or_cv'',
                  ''get_board_image'', ''get_sensor_image'']"

definition getattr_adds :: "string \<Rightarrow> unit result" where
  "getattr_adds name = (if name \<in> set reads_attrs then Inr () else Inl AttributeError)"

text \<open>Python's \<open>x > a\<close> and \<open>x < a\<close> for a number \<open>a\<close> and a non-string cell; \<open>nan\<close> compares false.\<close>

fun cell_gt :: "cell \<Rightarrow> real \<Rightarrow> bool" where
  "cell_gt (Num x) a = (a < x)"
| "cell_gt PosInf a = True"
| "cell_gt _ a = False"

fun cell_lt :: "cell \<Rightarrow> real \<Rightarrow> bool" where
  "cell_lt (Num x) a = (x < a)"
| "cell_lt NegInf a = True"
| "cell_lt _ a = False"

text \<open>
  \<open>CF[(CF["Capacitance (F)"]>0)&(CF["Capacitance (F)"]<100)]\<close> (lines 335--336):
  subscripting \<open>None\<close> raises \<open>TypeError\<close>, as does comparing a string capacitance
  with a number.
\<close>

definition cap_filter :: "frame option \<Rightarrow> frame result" where
  "cap_filter df =
     (case df of
        None \<Rightarrow> Inl TypeError
      | Some df \<Rightarrow>
          res_bind (get_col df ''Capacitance (F)'') (\<lambda>cap.
            if list_ex is_str cap then Inl TypeError
            else Inr (df\<lparr>rows := filter (\<lambda>(i, cs). cell_gt (cs ! find_pos ''Capacitance (F)'' (columns df)) 0
                                             \<and> cell_lt (cs ! find_pos ''Capacitance (F)'' (columns df)) 100)
                                      (rows df)\<rparr>)))"

definition sweep_means :: "string list" where
  "sweep_means = [''Capacitance (F)'', ''Impedance (O)'', ''Phase Angle (D)'']"

text \<open>
  Lines 343--352: \<open>if CF is not None and not CF.empty: CF_average = CF.groupby(["Sensor",
  x]).agg(...).reset_index()\<close>. The filtered table is never \<open>None\<close>; when it has no
  rows the name stays unbound (\<open>None\<close> here).
\<close>

definition sweep_average :: "string \<Rightarrow> frame \<Rightarrow> frame option result" where
  "sweep_average x df =
     (if rows df = [] then Inr None
      else res_bind (group_mean [''Sensor'', x] sweep_means df) (\<lambda>a. Inr (Some a)))"

definition cf_sensors :: "string list" where
  "cf_sensors = [''U1'', ''U2'', ''U3'', ''U4'']"

text \<open>
  The loops of lines 361--371 and 392--402: for each sensor, the rows of the average with
  that sensor and the columns its three lines plot. Reading an unbound average raises
  \<open>UnboundLocalError\<close>.
\<close>

definition sensor_lines :: "string \<Rightarrow> frame option \<Rightarrow> frame list result" where
  "sensor_lines x avg =
     (case avg of
        None \<Rightarrow> Inl UnboundLocalError
      | Some a \<Rightarrow> map_res (\<lambda>s. res_bind (filter_eq ''Sensor'' (Str s) a) (select_cols (x # sweep_means))) cf_sensors)"

text \<open>The body of \<open>CF_CV\<close> (lines 335--402) on the two loaded tables: the data of the six plots.\<close>

definition CF_CV_body :: "frame option \<Rightarrow> frame option \<Rightarrow> (frame list \<times> frame list) result" where
  "CF_CV_body CF CV =
     res_bind (cap_filter CF) (\<lambda>CF.
     res_bind (cap_filter CV) (\<lambda>CV.
     res_bind (sweep_average ''Frequency (Hz)'' CF) (\<lambda>CF_average.
     res_bind (sweep_average ''Voltage (V)'' CV) (\<lambda>CV_average.
     res_bind (sensor_lines ''Frequency (Hz)'' CF_average) (\<lambda>cf_lines.
     res_bind (sensor_lines ''Voltage (V)'' CV_average) (\<lambda>cv_lines.
     Inr (cf_lines, cv_lines)))))))"

text \<open>
  \<open>CF_CV\<close> (lines 328--423). \<open>get_master_cf_or_cv\<close> stands for the function the panel
  calls as \<open>adds.get_master_cf_or_cv\<close>; reads.py does not define it.
\<close>

definition CF_CV :: "(string \<Rightarrow> frame option result) \<Rightarrow> unit result" where
  "CF_CV get_master_cf_or_cv =
     res_bind (getattr_adds ''get_master_cf_or_cv'') (\<lambda>_.
     res_bind (get_master_cf_or_cv ''CF'') (\<lambda>CF.
     res_bind (getattr_adds ''get_master_cf_or_cv'') (\<lambda>_.
     res_bind (get_master_cf_or_cv ''CV'') (\<lambda>CV.
     outcome (CF_CV_body CF CV)))))"

text \<open>
  \<open>x + y\<close> on object cells where one operand is a string (line 440; the left operand is
  always a string or missing there): strings concatenate, a missing operand gives a
  missing result, a number raises \<open>TypeError\<close>.
\<close>

fun str_concat_cell :: "cell \<Rightarrow> cell \<Rightarrow> cell result" where
  "str_concat_cell (Str a) (Str b) = Inr (Str (a @ b))"
| "str_concat_cell NaN y = Inr NaN"
| "str_concat_cell x NaN = Inr NaN"
| "str_concat_cell x y = Inl TypeError"

text \<open>
  \<open>s + "_"\<close> on a column: a column without strings has a numeric dtype, which cannot be
  added to a string.
\<close>

definition add_suffix :: "cell list \<Rightarrow> string \<Rightarrow> cell list result" where
  "add_suffix xs sfx = (if list_ex is_str xs then map_res (\<lambda>c. str_concat_cell c (Str sfx)) xs else Inl TypeError)"

definition add_cols :: "cell list \<Rightarrow> cell list \<Rightarrow> cell list result" where
  "add_cols xs ys = map_res (\<lambda>(x, y). str_concat_cell x y) (zip xs ys)"


definition current_title :: "cell \<Rightarrow> string result" where
  "current_title v =
     res_bind (py_int_cell v) (\<lambda>n.
       Inr (''Current Vs Time, by Solution, Pattern, and Sensor ('' @ py_str_int n @ ''V)''))"

text \<open>The loop of lines 443--477: one titled grid per voltage, until the first exception.\<close>

fun current_figures :: "frame \<Rightarrow> cell list \<Rightarrow> (string \<times> frame) list \<times> py_exc option" where
  "current_figures m [] = ([], None)"
| "current_figures m (v # vs) =
     (case res_bind (filter_eq ''Voltage'' v m) (facet_grid [''Pattern'', ''Solution'']) of
        Inl e \<Rightarrow> ([], Some e)
      | Inr sub \<Rightarrow>
          (case current_title v of
             Inl e \<Rightarrow> ([], Some e)
           | Inr t \<Rightarrow> (let (figs, err) = current_figures m vs in ((t, sub) # figs, err))))"

text \<open>The body of \<open>current_vs_time\<close> (lines 440--477) on the loaded table.\<close>

definition current_vs_time_body :: "frame option \<Rightarrow> (string \<times> frame) list \<times> py_exc option" where
  "current_vs_time_body mct =
     (case (case mct of None \<Rightarrow> Inl TypeError | Some m \<Rightarrow>
             res_bind (get_col m ''Board ID'') (\<lambda>bid.
             res_bind (add_suffix bid ''_'') (\<lambda>bid_sep.
             res_bind (get_col m ''Sensor'') (\<lambda>sensor.
             res_bind (add_cols bid_sep sensor) (\<lambda>ids.
             (let m = set_col ''Sensor ID'' ids m in
             res_bind (get_col m ''Voltage'') (\<lambda>volts. Inr (m, unique_vals volts)))))))) of
        Inl e \<Rightarrow> ([], Some e)
      | Inr (m, volts) \<Rightarrow> current_figures m volts)"

text \<open>
  \<open>current_vs_time\<close> (lines 434--477); \<open>get_master_current_time\<close> stands for the
  result of \<open>adds.get_master_current_time()\<close>, which reads.py does not define.
\<close>

definition current_vs_time :: "frame option result \<Rightarrow> unit result" where
  "current_vs_time get_master_current_time =
     res_bind (getattr_adds ''get_master_current_time'') (\<lambda>_.
     res_bind get_master_current_time (\<lambda>mct.
     figures_outcome (current_vs_time_body mct)))"

section \<open>A concrete master list\<close>

text \<open>
  Fixture: a master list with the schema of spec section 6 (pH spelled \<open>pH\<close>, no
  \<open>Brightness Difference\<close> column), three boards in two solutions at two voltages.
\<close>

definition ex_full_master :: frame where
  "ex_full_master =
     \<lparr>columns = [''Board ID'', ''Sensor'', ''Pattern'', ''Voltage'', ''Solution'', ''pH'',
                 ''Time to Failure (ms)'', ''Dendrite Score'', ''Brightness Pristine'', ''Brightness Exposed'',
                 ''R_PRISTINE'', ''G_PRISTINE'', ''B_PRISTINE'', ''R_EXPOSED'', ''G_EXPOSED'', ''B_EXPOSED''],
      rows = [(0, [Str ''B1'', Str ''U1'', Num 1, Num 5, Str ''DI Water'', NaN, Num 12000, Num 2,
                   Num 100, Num 90, Num 200, Num 150, Num 100, Num 180, Num 140, Num 90]),
              (1, [Str ''B2'', Str ''U2'', Num 4, Num 10, Str ''Succinic 0.388mM'', Num (7/2), Num 3000, Num 3,
                   Num 110, Num 70, Num 210, Num 160, Num 110, Num 170, Num 120, Num 80]),
              (2, [Str ''B3'', Str ''U1'', Num 4, Num 5, Str ''DI Water'', NaN, Num 8000, NaN,
                   Num 105, Num 95, Num 205, Num 155, Num 105, Num 200, Num 150, Num 100])]\<rparr>"

definition ex_dash_world :: world where
  "ex_dash_world = ex_world\<lparr>csv_of := (\<lambda>p. if p = clean_abs (ex_root @ [''IDCSubmersionMasterlist_20250505.csv''])
                                              then Csv ex_full_master else NoFile)\<rparr>"

text \<open>
  The same repository with another master list: one that has the derived column
  \<open>Brightness Difference\<close>, and one that spells the pH column \<open>Ph\<close>.
\<close>

definition with_master :: "frame \<Rightarrow> world" where
  "with_master df = ex_world\<lparr>csv_of := (\<lambda>p. if p = clean_abs (ex_root @ [''IDCSubmersionMasterlist_20250505.csv''])
                                              then Csv df else NoFile)\<rparr>"

definition ex_succ20_master :: frame where
  "ex_succ20_master = set_col ''Solution'' [Str ''DI Water'', Str ''Succinic 20mM'', Str ''DI Water''] ex_full_master"

definition ex_matrix_world :: world where
  "ex_matrix_world = with_master (set_col ''Brightness Difference'' [Num (-10), Num (-40), Num (-10)] ex_full_master)"

definition ex_Ph_world :: world where
  "ex_Ph_world = with_master (rename_col ''pH'' ''Ph'' ex_full_master)"



text \<open>A sweep table of the CF family and one of the CV family, as \<open>get_cf_or_cv\<close> returns them.\<close>

definition ex_cf :: frame where
  "ex_cf = \<lparr>columns = [''Sensor'', ''Frequency (Hz)'', ''Capacitance (F)'', ''Impedance (O)'', ''Phase Angle (D)''],
     rows = [(0, [Str ''U1'', Num 100, Num 5, Num 1000, Num (-80)]),
             (1, [Str ''U1'', Num 100, Num 7, Num 3000, Num (-60)]),
             (2, [Str ''U2'', Num 100, Num 150, Num 2000, Num (-70)]),
             (3, [Str ''U2'', Num 100, NaN, Num 2000, Num (-70)])]\<rparr>"

definition ex_cv :: frame where
  "ex_cv = \<lparr>columns = [''Sensor'', ''Voltage (V)'', ''Capacitance (F)'', ''Impedance (O)'', ''Phase Angle (D)''],
     rows = [(0, [Str ''U1'', Num 1, Num 4, Num 900, Num (-85)])]\<rparr>"

section \<open>The page\<close>

datatype panel =
    P_RGB_3D | P_RGB_boxplots | P_grayscale | P_failure_time
  | P_scatter | P_heatmap | P_pH | P_CF_CV | P_current_vs_time | P_data

text \<open>
  Streamlit runs the script top to bottom; an uncaught exception stops it, so the
  panels after it are not rendered. The result is the list of panels rendered and the
  exception that stopped the page, if any.
\<close>

fun run_panels :: "(panel \<times> unit result) list \<Rightarrow> panel list \<times> py_exc option" where
  "run_panels [] = ([], None)"
| "run_panels ((p, Inl e) # ps) = ([], Some e)"
| "run_panels ((p, Inr ()) # ps) = (let (done, err) = run_panels ps in (p # done, err))"

text \<open>
  The data expander (line 485): \<open>pd.read_csv\<close> of a path relative to the current
  directory.
\<close>

definition data_panel :: "world \<Rightarrow> unit result" where
  "data_panel w = outcome (read_csv w ''../IDCSubmersionMasterlist_20250505.csv'')"

text \<open>
  The page (lines 58--487) for the solution chosen in the sidebar; \<open>cfcv\<close> and
  \<open>mct\<close> stand for the two functions the loader module lacks.
\<close>

definition dashboard_page :: "world \<Rightarrow> string \<Rightarrow> (string \<Rightarrow> frame option result) \<Rightarrow> frame option result
                              \<Rightarrow> panel list \<times> py_exc option" where
  "dashboard_page w option1 cfcv mct =
     run_panels
       [(P_RGB_3D, outcome (RGB_3D w option1)), (P_RGB_boxplots, outcome (RGB_boxplots_panel w option1)),
        (P_grayscale, outcome (grayscale w option1)), (P_failure_time, figures_outcome (failure_time w)),
        (P_scatter, outcome (scatter w)), (P_heatmap, outcome (heatmap_panel w)), (P_pH, outcome (plot_ph w)),
        (P_CF_CV, CF_CV cfcv), (P_current_vs_time, current_vs_time mct), (P_data, data_panel w)]"

section \<open>Lemmas\<close>

subsection \<open>The page\<close>

text \<open>The page renders the panels before the first exception, and ends normally only when none raises.\<close>

lemma run_panels_fst:
  "fst (run_panels ps) = map fst (takeWhile (\<lambda>x. snd x = Inr ()) ps)"
proof (induction ps rule: run_panels.induct)
  case (3 p ps)
  then show ?case by (simp add: split_beta)
qed simp_all

lemma run_panels_snd:
  "snd (run_panels ps) = None \<longleftrightarrow> list_all (\<lambda>x. snd x = Inr ()) ps"
proof (induction ps rule: run_panels.induct)
  case (3 p ps)
  then show ?case by (simp add: split_beta)
qed simp_all

subsection \<open>Panels\<close>

lemma scatter_Inl:
  "get_master w = Inr m \<Longrightarrow> scatter w = Inl e \<longleftrightarrow> e = KeyError \<and> \<not> set matrix_cols \<subseteq> set (columns m)"
  by (auto simp: scatter_def res_bind_eq_Inl select_cols_def)

lemma heatmap_eq_scatter: "heatmap w = scatter w"
  by (simp add: heatmap_def scatter_def)


lemma facet_grid_Inr: "facet_grid vars sub = Inr s \<Longrightarrow> s = sub"
  by (auto simp: facet_grid_def res_bind_eq_Inr split: if_splits)


lemma failure_figures_None:
  "failure_figures m vs = (figs, None) \<Longrightarrow>
   map (\<lambda>f. rows (snd f)) figs
     = map (\<lambda>v. filter (\<lambda>(i, cs). cell_eq (cs ! find_pos ''Voltage'' (columns m)) v) (rows m)) vs"
proof (induction vs arbitrary: figs)
  case (Cons v vs)
  then show ?case
    by (auto simp: filter_eq_def dest: facet_grid_Inr split: if_splits sum.splits prod.splits)
qed simp

lemma failure_figures_columns:
  "f \<in> set (fst (failure_figures m vs)) \<Longrightarrow> columns (snd f) = columns m"
proof (induction vs)
  case (Cons v vs)
  then show ?case
    by (auto simp: filter_eq_def split_beta dest: facet_grid_Inr split: if_splits sum.splits)
qed simp

lemma failure_figures_length: "length (fst (failure_figures m vs)) \<le> length vs"
proof (induction vs)
  case (Cons v vs)
  then show ?case
    by (auto simp: split_beta split: sum.splits)
qed simp





lemma grayscale_Inr:
  assumes "get_master w = Inr m" "frame_wf m" "grayscale w option1 = Inr df"
  shows "\<exists>f diff ps. filter_eq ''Solution'' (Str option1) m = Inr f
    \<and> sub_cols f ''Brightness Exposed'' ''Brightness Pristine'' = Inr diff
    \<and> get_col f ''Pattern'' = Inr ps \<and> frame_wf df \<and> map fst (rows df) = map fst (rows f)
    \<and> get_col df ''Brightness Difference'' = Inr diff
    \<and> get_col df ''Pattern'' = Inr (categorical pattern_categories ps)"
proof -
  obtain f diff ps where
    f: "filter_eq ''Solution'' (Str option1) m = Inr f" and
    diff: "sub_cols f ''Brightness Exposed'' ''Brightness Pristine'' = Inr diff" and
    ps: "get_col (set_col ''Brightness Difference'' diff f) ''Pattern'' = Inr ps" and
    df: "df = set_col ''Pattern'' (categorical pattern_categories ps) (set_col ''Brightness Difference'' diff f)"
    using assms(1,3) by (auto simp: grayscale_def res_bind_eq_Inr Let_def)
  define g where "g = set_col ''Brightness Difference'' diff f"
  have wff: "frame_wf f" using assms(2) f by (rule filter_eq_wf)
  have ld: "length diff = length (rows f)" using diff by (rule length_sub_cols)
  have wfg: "frame_wf g" unfolding g_def using wff ld by (rule set_col_wf)
  have lg: "length (rows g) = length (rows f)" unfolding g_def using ld by (rule length_rows_set_col)
  have psf: "get_col f ''Pattern'' = Inr ps"
    using ps get_col_set_col_other [OF wff ld, of "''Pattern''" "''Brightness Difference''"] by simp
  have lc: "length (categorical pattern_categories ps) = length (rows g)"
    using length_get_col [OF psf] lg by simp
  have "get_col df ''Pattern'' = Inr (categorical pattern_categories ps)"
    unfolding df g_def [symmetric] using wfg lc by (rule get_col_set_col_same)
  moreover have "get_col df ''Brightness Difference'' = Inr diff"
    using get_col_set_col_other [OF wfg lc, of "''Brightness Difference''" "''Pattern''"]
      get_col_set_col_same [OF wff ld, of "''Brightness Difference''"]
    by (simp add: df g_def)
  moreover have "frame_wf df" unfolding df g_def [symmetric] using wfg lc by (rule set_col_wf)
  moreover have "map fst (rows df) = map fst (rows f)"
    using rows_labels_set_col [OF lc] rows_labels_set_col [OF ld] by (simp add: df g_def)
  ultimately show ?thesis using f diff psf by blast
qed

text \<open>The 3D panel's long table when no row has the chosen solution.\<close>

lemma RGB_3D_long_no_rows:
  assumes m: "get_master w = Inr m"
    and cols: "set ([''Pattern'', ''Solution'', ''Board ID'', ''Sensor''] @ rgb_value_vars) \<subseteq> set (columns m)"
    and none: "\<not> list_ex (\<lambda>(i, cs). cell_eq (cs ! find_pos ''Solution'' (columns m)) (Str option1)) (rows m)"
  shows "RGB_3D_long w option1 = Inr \<lparr>columns = [''Pattern'', ''Board ID'', ''Sensor'', ''Channel_Age'', ''Value'', ''Channel'', ''Age''], rows = []\<rparr>"
proof -
  let ?m = "m\<lparr>rows := filter (\<lambda>(i, cs). cell_eq (cs ! find_pos ''Solution'' (columns m)) (Str option1))
                 (filter (\<lambda>(i, cs). \<not> is_na (cs ! find_pos ''Pattern'' (columns m))) (rows m))\<rparr>"
  have e: "rows ?m = []" using none by (auto simp: filter_empty_conv list_ex_iff)
  have d: "dropna_subset ''Pattern'' m = Inr (m\<lparr>rows := filter (\<lambda>(i, cs). \<not> is_na (cs ! find_pos ''Pattern'' (columns m))) (rows m)\<rparr>)"
    using cols by (simp add: dropna_subset_def)
  have f: "filter_eq ''Solution'' (Str option1) (m\<lparr>rows := filter (\<lambda>(i, cs). \<not> is_na (cs ! find_pos ''Pattern'' (columns m))) (rows m)\<rparr>) = Inr ?m"
    using cols by (simp add: filter_eq_def)
  show ?thesis
    using m cols e
    by (simp add: RGB_3D_long_def d f get_col_def pattern_to_str_def set_col_def melt_def rgb_value_vars_def)
qed


text \<open>The CF/CV panel: its filter, averages and per-sensor lines.\<close>

lemma sweep_average_None: "sweep_average x d = Inr None \<longleftrightarrow> rows d = []"
  by (auto simp: sweep_average_def res_bind_eq_Inr)

lemma sweep_average_Inl: "sweep_average x d = Inl e \<Longrightarrow> e = KeyError \<or> e = TypeError"
  by (auto simp: sweep_average_def res_bind_eq_Inl dest: group_mean_Inl split: if_splits)

lemma cap_filter_Inl: "cap_filter D = Inl e \<Longrightarrow> e = KeyError \<or> e = TypeError"
  by (auto simp: cap_filter_def get_col_def res_bind_eq_Inl split: option.splits if_splits)

lemma sensor_lines_Some:
  assumes "sweep_average x d = Inr (Some a)"
  shows "\<exists>ls. sensor_lines x (Some a) = Inr ls"
proof -
  have g: "group_mean [''Sensor'', x] sweep_means d = Inr a"
    using assms by (auto simp: sweep_average_def res_bind_eq_Inr split: if_splits)
  have "columns a = [''Sensor'', x] @ sweep_means" using group_mean_Inr(1) [OF g] .
  then have "\<exists>l. res_bind (filter_eq ''Sensor'' (Str s) a) (select_cols (x # sweep_means)) = Inr l" for s
    by (auto simp: filter_eq_def select_cols_def)
  then show ?thesis by (simp add: sensor_lines_def map_res_total)
qed

lemma cap_filter_cap:
  assumes "cap_filter D = Inr d"
  shows "\<forall>(i, cs) \<in> set (rows d). \<exists>y. cs ! find_pos ''Capacitance (F)'' (columns d) = Num y \<and> 0 < y \<and> y < 100"
proof -
  have ok: "cell_gt c 0 \<and> cell_lt c 100 \<Longrightarrow> \<exists>y. c = Num y \<and> 0 < y \<and> y < 100" for c
    by (cases c) auto
  show ?thesis
    using assms by (auto simp: cap_filter_def res_bind_eq_Inr split: option.splits if_splits intro: ok)
qed

lemma sensor_lines_cap:
  assumes d: "cap_filter D = Inr d" and avg: "sweep_average x d = Inr avg"
    and ls: "sensor_lines x avg = Inr ls" and l: "l \<in> set ls" and r: "r \<in> set (rows l)"
    and x: "x \<noteq> ''Capacitance (F)''" "x \<noteq> ''Sensor''"
  shows "columns l ! 1 = ''Capacitance (F)'' \<and> (\<exists>y. snd r ! 1 = Num y \<and> 0 < y \<and> y < 100)"
proof -
  obtain a where a: "avg = Some a" and g: "group_mean [''Sensor'', x] sweep_means d = Inr a"
    using avg ls by (auto simp: sweep_average_def sensor_lines_def res_bind_eq_Inr split: if_splits)
  have ca: "columns a = [''Sensor'', x] @ sweep_means" using group_mean_Inr(1) [OF g] .
  have "list_all2 (\<lambda>s l. res_bind (filter_eq ''Sensor'' (Str s) a) (select_cols (x # sweep_means)) = Inr l) cf_sensors ls"
    using ls a by (simp add: sensor_lines_def map_res_Inr)
  then have "\<exists>s. res_bind (filter_eq ''Sensor'' (Str s) a) (select_cols (x # sweep_means)) = Inr l"
    using l by (force simp: list_all2_conv_all_nth in_set_conv_nth)
  then obtain s where "res_bind (filter_eq ''Sensor'' (Str s) a) (select_cols (x # sweep_means)) = Inr l" ..
  then obtain a' where a': "filter_eq ''Sensor'' (Str s) a = Inr a'" and sl: "select_cols (x # sweep_means) a' = Inr l"
    by (auto simp: res_bind_eq_Inr)
  have ca': "columns a' = columns a" and ra': "set (rows a') \<subseteq> set (rows a)"
    using a' by (auto simp: filter_eq_def split: if_splits)
  obtain i cs where ics: "(i, cs) \<in> set (rows a')"
    and rr: "snd r = map (\<lambda>c. cs ! find_pos c (columns a')) (x # sweep_means)"
    using sl r by (auto simp: select_cols_def split: if_splits)
  have "\<exists>y. snd (i, cs) ! (length [''Sensor'', x] + 0) = Num y \<and> 0 < y \<and> y < 100"
    by (rule group_mean_bounds [OF g]) (use ics ra' cap_filter_cap [OF d] in \<open>auto simp: sweep_means_def\<close>)
  moreover have "snd r ! 1 = cs ! 2" using rr ca' ca x by (simp add: sweep_means_def numeral_2_eq_2)
  moreover have "columns l ! 1 = ''Capacitance (F)''"
    using sl by (auto simp: select_cols_def sweep_means_def split: if_splits)
  ultimately show ?thesis by (simp add: numeral_2_eq_2)
qed

text \<open>The figures of the failure-time panel split the master rows with a voltage.\<close>

lemma failure_time_rows:
  assumes "get_master w = Inr m" "frame_wf m" "failure_time w = (figs, None)"
  obtains m1 secs where "dropna_subset ''Voltage'' m = Inr m1" "length secs = length (rows m1)" "frame_wf m1"
    "\<forall>f \<in> set figs. columns (snd f) = columns (set_col ''Failure Time (s)'' secs m1)"
    "mset (concat (map (\<lambda>f. rows (snd f)) figs)) = mset (rows (set_col ''Failure Time (s)'' secs m1))"
proof -
  obtain m1 secs volts where
    m1: "dropna_subset ''Voltage'' m = Inr m1" and
    secs: "div_col m1 ''Time to Failure (ms)'' 1000 = Inr secs" and
    volts: "get_col (set_col ''Failure Time (s)'' secs m1) ''Voltage'' = Inr volts" and
    figs: "failure_figures (set_col ''Failure Time (s)'' secs m1) (unique_vals volts) = (figs, None)"
    using assms(1,3)
    by (auto simp: failure_time_def res_bind_eq_Inr Let_def split: sum.splits)
  define m2 where "m2 = set_col ''Failure Time (s)'' secs m1"
  define key1 where "key1 = (\<lambda>r :: nat \<times> cell list. snd r ! find_pos ''Voltage'' (columns m1))"
  define key2 where "key2 = (\<lambda>r :: nat \<times> cell list. snd r ! find_pos ''Voltage'' (columns m2))"
  have V: "''Voltage'' \<in> set (columns m)" and cm1: "columns m1 = columns m"
    and rm1: "rows m1 = filter (\<lambda>(i, cs). \<not> is_na (cs ! find_pos ''Voltage'' (columns m))) (rows m)"
    using m1 by (auto simp: dropna_subset_def split: if_splits)
  have wf1: "frame_wf m1" using assms(2) m1 by (rule dropna_subset_wf)
  have len: "length secs = length (rows m1)" using secs by (rule length_div_col)
  have V2: "''Voltage'' \<in> set (columns m2)"
    using V cm1 by (simp add: m2_def columns_set_col)
  have "get_col m2 ''Voltage'' = get_col m1 ''Voltage''"
    unfolding m2_def using wf1 len by (rule get_col_set_col_other) simp
  then have keys: "map key2 (rows m2) = map key1 (rows m1)" and vk: "volts = map key2 (rows m2)"
    using volts V V2 cm1 by (auto simp: get_col_def m2_def key1_def key2_def split_def)
  have notna: "\<forall>r \<in> set (rows m2). \<not> is_na (key2 r)"
  proof
    fix r assume "r \<in> set (rows m2)"
    then have "key2 r \<in> set (map key1 (rows m1))" using keys by (metis image_eqI list.set_map)
    then show "\<not> is_na (key2 r)" using rm1 cm1 by (auto simp: key1_def)
  qed
  have "map (\<lambda>f. rows (snd f)) figs
      = map (\<lambda>v. filter (\<lambda>(i, cs). cell_eq (cs ! find_pos ''Voltage'' (columns m2)) v) (rows m2)) (unique_vals volts)"
    using figs unfolding m2_def by (rule failure_figures_None)
  also have "\<dots> = map (\<lambda>v. filter (\<lambda>r. key2 r = v) (rows m2)) (unique_vals volts)"
    using notna by (auto simp: key2_def split_def cell_eq_iff intro!: filter_cong)
  finally have fr: "map (\<lambda>f. rows (snd f)) figs = map (\<lambda>v. filter (\<lambda>r. key2 r = v) (rows m2)) (unique_vals volts)" .
  have "mset (concat (map (\<lambda>f. rows (snd f)) figs))
      = mset (concat (map (\<lambda>v. filter (\<lambda>r. key2 r = v) (rows m2)) (unique_vals volts)))"
    using fr by simp
  also have "\<dots> = mset (rows m2)"
    using unique_vals_distinct vk by (subst mset_concat_partition) auto
  finally have "mset (concat (map (\<lambda>f. rows (snd f)) figs)) = mset (rows m2)" .
  moreover have "\<forall>f \<in> set figs. columns (snd f) = columns m2"
    using figs failure_figures_columns [of _ m2 "unique_vals volts"] unfolding m2_def by auto
  ultimately show ?thesis using that m1 len wf1 unfolding m2_def by blast
qed



text \<open>The rows a point plot places, without \<open>==\<close> on cells.\<close>

lemma failure_point_iff:
  "failure_point v \<longleftrightarrow> v ! 0 \<in> {Num 1, Num 4, Num 7, Num 10} \<and> \<not> is_na (v ! 1) \<and> v ! 2 \<in> Str ` set failure_order"
proof -
  have "cell_eq c (Num a) \<longleftrightarrow> c = Num a" "cell_eq c (Str t) \<longleftrightarrow> c = Str t" for c a t
    by (cases c; simp)+
  then show ?thesis by (auto simp: failure_point_def facet_row_order_def list_ex_iff image_iff)
qed

text \<open>The point plots of figures that share their columns.\<close>

lemma concat_filter_same_columns:
  "\<forall>f \<in> set figs. columns (snd f) = cols \<Longrightarrow>
   concat (map (\<lambda>f. map fst (filter (\<lambda>r. P (row_view (columns (snd f)) ds r)) (rows (snd f)))) figs)
   = map fst (filter (\<lambda>r. P (row_view cols ds r)) (concat (map (\<lambda>f. rows (snd f)) figs)))"
  by (induction figs) auto

section \<open>Properties of the page and its panels\<close>

text \<open>
  Claim C18. Whatever the world and the sidebar choice, the page never gets past the
  CF/CV panel: the panels it renders are a prefix of the first seven, and it always
  ends with an exception, so the current-versus-time panel and the data expander of
  lines 434--487 are never shown.
\<close>

theorem dashboard_page_stops:
  "\<exists>k \<le> 7. fst (dashboard_page w option1 cfcv mct)
              = take k [P_RGB_3D, P_RGB_boxplots, P_grayscale, P_failure_time, P_scatter, P_heatmap, P_pH]
           \<and> snd (dashboard_page w option1 cfcv mct) \<noteq> None"
proof -
  let ?first = "[(P_RGB_3D, outcome (RGB_3D w option1)), (P_RGB_boxplots, outcome (RGB_boxplots_panel w option1)),
        (P_grayscale, outcome (grayscale w option1)), (P_failure_time, figures_outcome (failure_time w)),
        (P_scatter, outcome (scatter w)), (P_heatmap, outcome (heatmap_panel w)), (P_pH, outcome (plot_ph w))]"
  have page: "dashboard_page w option1 cfcv mct
      = run_panels (?first @ (P_CF_CV, CF_CV cfcv) # [(P_current_vs_time, current_vs_time mct), (P_data, data_panel w)])"
    by (simp add: dashboard_page_def)
  obtain k where k: "k \<le> length ?first" "takeWhile (\<lambda>x. snd x = Inr ()) ?first = take k ?first"
    using takeWhile_take by blast
  have tw: "takeWhile (\<lambda>x. snd x = Inr ())
        (?first @ (P_CF_CV, CF_CV cfcv) # [(P_current_vs_time, current_vs_time mct), (P_data, data_panel w)])
      = takeWhile (\<lambda>x. snd x = Inr ()) ?first"
    by (rule takeWhile_stop) (simp add: CF_CV_def getattr_adds_def reads_attrs_def)
  have "fst (dashboard_page w option1 cfcv mct) = map fst (take k ?first)"
    by (simp only: page run_panels_fst tw k(2))
  moreover have "snd (dashboard_page w option1 cfcv mct) \<noteq> None"
    unfolding page run_panels_snd by (simp add: CF_CV_def getattr_adds_def reads_attrs_def)
  moreover have "k \<le> 7" using k(1) by simp
  ultimately show ?thesis
    by (intro exI [of _ k]) (simp add: take_map [symmetric])
qed

text \<open>
  Claim C19. When no row of the master list has the solution chosen in the sidebar
  (the sidebar offers nine solutions, whatever the data holds), the pivot of the 3D
  panel has no R, G or B column, \<open>px.scatter_3d\<close> raises \<open>ValueError\<close>, and the
  page stops at its first panel: nothing is rendered.
\<close>

theorem RGB_3D_no_rows:
  assumes m: "get_master w = Inr m"
    and cols: "set ([''Pattern'', ''Solution'', ''Board ID'', ''Sensor''] @ rgb_value_vars) \<subseteq> set (columns m)"
    and none: "\<not> list_ex (\<lambda>(i, cs). cell_eq (cs ! find_pos ''Solution'' (columns m)) (Str option1)) (rows m)"
  shows "RGB_3D w option1 = Inl ValueError \<and> dashboard_page w option1 cfcv mct = ([], Some ValueError)"
proof -
  have r: "RGB_3D w option1 = Inl ValueError"
    by (simp add: RGB_3D_def RGB_3D_long_no_rows [OF m cols none] pivot_mean_no_rows
                  px_scatter_3d_def scatter_3d_cols_def)
  then show ?thesis by (simp add: dashboard_page_def outcome_def)
qed

theorem RGB_3D_no_rows_witness:
  "RGB_3D ex_dash_world ''Succinic 20mM'' = Inl ValueError
   \<and> dashboard_page ex_dash_world ''Succinic 20mM'' (\<lambda>_. Inr None) (Inr None) = ([], Some ValueError)"
proof -
  define m where "m = projr (get_master ex_dash_world)"
  have m: "get_master ex_dash_world = Inr m" unfolding m_def by code_simp
  have c: "set ([''Pattern'', ''Solution'', ''Board ID'', ''Sensor''] @ rgb_value_vars) \<subseteq> set (columns m)"
    unfolding m_def by code_simp
  have n: "\<not> list_ex (\<lambda>(i, cs). cell_eq (cs ! find_pos ''Solution'' (columns m)) (Str ''Succinic 20mM'')) (rows m)"
    unfolding m_def by code_simp
  show ?thesis by (rule RGB_3D_no_rows [OF m c n])
qed

text \<open>
  Once the master list is loaded, the scatterplot matrix raises
  \<open>KeyError\<close> exactly when one of the eight columns it selects is missing, and the
  correlation heatmap behaves as the scatterplot matrix.
\<close>

theorem scatter_heatmap_KeyError:
  assumes "get_master w = Inr m"
  shows "(scatter w = Inl KeyError \<longleftrightarrow> \<not> set matrix_cols \<subseteq> set (columns m)) \<and> heatmap w = scatter w"
  using scatter_Inl [OF assms] heatmap_eq_scatter by simp

theorem scatter_heatmap_KeyError_witness:
  "get_master ex_dash_world = Inr (projr (get_master ex_dash_world))
   \<and> scatter ex_dash_world = Inl KeyError \<and> heatmap ex_dash_world = scatter ex_dash_world"
proof -
  have h: "get_master ex_dash_world = Inr (projr (get_master ex_dash_world))" by code_simp
  have c: "\<not> set matrix_cols \<subseteq> set (columns (projr (get_master ex_dash_world)))" by code_simp
  show ?thesis using scatter_heatmap_KeyError [OF h] h c by simp
qed

text \<open>
  Claim C20. \<open>Brightness Difference\<close> is a column that only the grayscale panel
  computes, on its own copy of the table: a master file without it (the schema of spec
  section 6) makes both the scatterplot matrix and the heatmap raise \<open>KeyError\<close>.
\<close>

theorem master_without_difference_column:
  assumes "read_csv w (posix_join (IDC_directory w) master_csv_name) = Inr raw"
    and "''Brightness Difference'' \<notin> set (columns raw)"
  shows "scatter w = Inl KeyError \<and> heatmap w = Inl KeyError"
proof (cases "get_master w")
  case (Inl e)
  then have "e = KeyError"
    using assms(1) by (simp add: get_master_def apply_cols_KeyError)
  with Inl show ?thesis by (simp add: scatter_def heatmap_def)
next
  case (Inr m)
  then have "\<not> set matrix_cols \<subseteq> set (columns m)"
    using get_master_columns [OF assms(1)] assms(2) by (simp add: matrix_cols_def)
  then show ?thesis
    using scatter_Inl [OF Inr] heatmap_eq_scatter by simp
qed

theorem master_without_difference_column_witness:
  "read_csv ex_dash_world (posix_join (IDC_directory ex_dash_world) master_csv_name) = Inr ex_full_master
   \<and> ''Brightness Difference'' \<notin> set (columns ex_full_master)
   \<and> scatter ex_dash_world = Inl KeyError \<and> heatmap ex_dash_world = Inl KeyError"
proof -
  have h1: "read_csv ex_dash_world (posix_join (IDC_directory ex_dash_world) master_csv_name) = Inr ex_full_master"
    by code_simp
  have h2: "''Brightness Difference'' \<notin> set (columns ex_full_master)" by code_simp
  show ?thesis using master_without_difference_column [OF h1 h2] h1 h2 by simp
qed

text \<open>
  Claim C21. When the scatterplot matrix gets its table, the table is well-formed, its
  columns are among the eight selected ones, it holds no string cell, and it has a row
  for every row of the master list, with its label.
\<close>

theorem scatter_numeric:
  assumes "get_master w = Inr m" "scatter w = Inr df"
  shows "frame_wf df \<and> set (columns df) \<subseteq> set matrix_cols
    \<and> (\<forall>r \<in> set (rows df). list_all (\<lambda>c. \<not> is_str c) (snd r))
    \<and> map fst (rows df) = map fst (rows m)"
proof -
  have "res_bind (select_cols matrix_cols m) (\<lambda>s. Inr (select_numeric (dropna_all_cols s))) = Inr df"
    using assms by (simp add: scatter_def)
  then obtain s where s: "select_cols matrix_cols m = Inr s"
    and df: "df = select_numeric (dropna_all_cols s)"
    unfolding res_bind_eq_Inr by blast
  note sel = select_cols_Inr [OF s]
  have "frame_wf s"
    using sel by (simp add: frame_wf_def matrix_cols_def)
  then have wf: "frame_wf df"
    unfolding df select_numeric_def dropna_all_cols_def by (intro keep_cols_wf)
  have "set (columns df) \<subseteq> set (columns (dropna_all_cols s))"
    unfolding df select_numeric_def by (rule keep_cols_columns)
  also have "\<dots> \<subseteq> set (columns s)"
    unfolding dropna_all_cols_def by (rule keep_cols_columns)
  finally have cols: "set (columns df) \<subseteq> set matrix_cols"
    using sel by simp
  have labels: "map fst (rows df) = map fst (rows m)"
    using sel unfolding df select_numeric_def dropna_all_cols_def by simp
  show ?thesis
    using wf cols labels select_numeric_no_str [of _ "dropna_all_cols s"] df by blast
qed

theorem scatter_numeric_witness:
  "get_master ex_matrix_world = Inr (projr (get_master ex_matrix_world))
   \<and> scatter ex_matrix_world = Inr (projr (scatter ex_matrix_world))
   \<and> frame_wf (projr (scatter ex_matrix_world))
   \<and> map fst (rows (projr (scatter ex_matrix_world))) = [0, 1, 2]"
proof -
  have h1: "get_master ex_matrix_world = Inr (projr (get_master ex_matrix_world))" by code_simp
  have h2: "scatter ex_matrix_world = Inr (projr (scatter ex_matrix_world))" by code_simp
  have l: "map fst (rows (projr (get_master ex_matrix_world))) = [0, 1, 2]" by code_simp
  show ?thesis using scatter_numeric [OF h1 h2] h1 h2 l by simp
qed

text \<open>
  Claim C22. The failure-time panel draws one figure per distinct voltage: when it
  completes, the rows of its figures are, counted with multiplicity, exactly the rows
  of the master list that have a voltage; none is lost and none is drawn twice.
\<close>

theorem failure_time_partition:
  assumes "get_master w = Inr m" "frame_wf m" "failure_time w = (figs, None)"
  shows "mset (concat (map (\<lambda>f. map fst (rows (snd f))) figs))
       = mset (map fst (filter (\<lambda>(i, cs). \<not> is_na (cs ! find_pos ''Voltage'' (columns m))) (rows m)))"
proof -
  obtain m1 secs where m1: "dropna_subset ''Voltage'' m = Inr m1" and len: "length secs = length (rows m1)"
    and rs: "mset (concat (map (\<lambda>f. rows (snd f)) figs)) = mset (rows (set_col ''Failure Time (s)'' secs m1))"
    using failure_time_rows [OF assms] by blast
  have rm1: "rows m1 = filter (\<lambda>(i, cs). \<not> is_na (cs ! find_pos ''Voltage'' (columns m))) (rows m)"
    using m1 by (auto simp: dropna_subset_def split: if_splits)
  have "mset (concat (map (\<lambda>f. map fst (rows (snd f))) figs)) = image_mset fst (mset (concat (map (\<lambda>f. rows (snd f)) figs)))"
    by (simp only: mset_map [symmetric] map_concat map_map comp_def)
  also have "\<dots> = mset (map fst (rows (set_col ''Failure Time (s)'' secs m1)))" by (simp add: rs)
  also have "\<dots> = mset (map fst (rows m1))" by (simp only: rows_labels_set_col [OF len])
  finally show ?thesis using rm1 by simp
qed

theorem failure_time_partition_witness:
  "get_master ex_dash_world = Inr (projr (get_master ex_dash_world))
   \<and> frame_wf (projr (get_master ex_dash_world))
   \<and> failure_time ex_dash_world = (fst (failure_time ex_dash_world), None)
   \<and> mset (concat (map (\<lambda>f. map fst (rows (snd f))) (fst (failure_time ex_dash_world)))) = {#0, 1, 2#}"
proof -
  have h1: "get_master ex_dash_world = Inr (projr (get_master ex_dash_world))" by code_simp
  have h2: "frame_wf (projr (get_master ex_dash_world))" by code_simp
  have h3: "failure_time ex_dash_world = (fst (failure_time ex_dash_world), None)" by code_simp
  have r: "mset (map fst (filter (\<lambda>(i, cs). \<not> is_na (cs ! find_pos ''Voltage''
              (columns (projr (get_master ex_dash_world))))) (rows (projr (get_master ex_dash_world)))))
         = {#0, 1, 2#}"
    by code_simp
  show ?thesis using failure_time_partition [OF h1 h2 h3] h1 h2 h3 r by simp
qed

text \<open>
  Claim C23. The grayscale panel plots, for each row of the chosen solution and with
  its label, the difference exposed minus pristine brightness of that row.
\<close>

theorem grayscale_difference:
  assumes "get_master w = Inr m" "frame_wf m" "grayscale w option1 = Inr df"
  shows "\<exists>f. filter_eq ''Solution'' (Str option1) m = Inr f \<and> map fst (rows df) = map fst (rows f)
    \<and> get_col df ''Brightness Difference'' = sub_cols f ''Brightness Exposed'' ''Brightness Pristine''"
  using grayscale_Inr [OF assms] by auto

theorem grayscale_difference_witness:
  "get_master ex_dash_world = Inr (projr (get_master ex_dash_world))
   \<and> frame_wf (projr (get_master ex_dash_world))
   \<and> grayscale ex_dash_world ''DI Water'' = Inr (projr (grayscale ex_dash_world ''DI Water''))
   \<and> get_col (projr (grayscale ex_dash_world ''DI Water'')) ''Brightness Difference'' = Inr [Num (-10), Num (-10)]"
proof -
  have h1: "get_master ex_dash_world = Inr (projr (get_master ex_dash_world))" by code_simp
  have h2: "frame_wf (projr (get_master ex_dash_world))" by code_simp
  have h3: "grayscale ex_dash_world ''DI Water'' = Inr (projr (grayscale ex_dash_world ''DI Water''))"
    by code_simp
  obtain f where "filter_eq ''Solution'' (Str ''DI Water'') (projr (get_master ex_dash_world)) = Inr f"
    and d: "get_col (projr (grayscale ex_dash_world ''DI Water'')) ''Brightness Difference''
            = sub_cols f ''Brightness Exposed'' ''Brightness Pristine''"
    using grayscale_difference [OF h1 h2 h3] by blast
  moreover have "filter_eq ''Solution'' (Str ''DI Water'') (projr (get_master ex_dash_world))
      = Inr (projr (filter_eq ''Solution'' (Str ''DI Water'') (projr (get_master ex_dash_world))))"
    by code_simp
  moreover have "sub_cols (projr (filter_eq ''Solution'' (Str ''DI Water'') (projr (get_master ex_dash_world))))
      ''Brightness Exposed'' ''Brightness Pristine'' = Inr [Num (-10), Num (-10)]"
    by code_simp
  ultimately show ?thesis using h1 h2 h3 by simp
qed



text \<open>
  Claim C25. The pH panel plots the column \<open>pH\<close> as it is spelled in the file: once the
  master list is loaded, a master list whose pH column is named otherwise (\<open>Ph\<close>,
  spec section 9) makes the panel raise \<open>ValueError\<close>.
\<close>

theorem plot_ph_requires_pH:
  assumes "get_master w = Inr m" "''Solution'' \<in> set (columns m)" "''pH'' \<notin> set (columns m)"
  shows "plot_ph w = Inl ValueError"
  using assms by (simp add: plot_ph_def filter_in_def)

theorem plot_ph_requires_pH_witness:
  "get_master ex_Ph_world = Inr (projr (get_master ex_Ph_world))
   \<and> ''Solution'' \<in> set (columns (projr (get_master ex_Ph_world)))
   \<and> ''pH'' \<notin> set (columns (projr (get_master ex_Ph_world)))
   \<and> plot_ph ex_Ph_world = Inl ValueError"
proof -
  have h1: "get_master ex_Ph_world = Inr (projr (get_master ex_Ph_world))" by code_simp
  have h2: "''Solution'' \<in> set (columns (projr (get_master ex_Ph_world)))" by code_simp
  have h3: "''pH'' \<notin> set (columns (projr (get_master ex_Ph_world)))" by code_simp
  show ?thesis using plot_ph_requires_pH [OF h1 h2 h3] h1 h2 h3 by simp
qed

text \<open>
  The failure-time panel draws at most one figure per row of the master list.
\<close>

theorem failure_time_figure_count:
  assumes "get_master w = Inr m"
  shows "length (fst (failure_time w)) \<le> length (rows m)"
proof (cases "dropna_subset ''Voltage'' m")
  case (Inr m1)
  have r1: "length (rows m1) \<le> length (rows m)"
    using Inr by (auto simp: dropna_subset_def split: if_splits)
  show ?thesis
  proof (cases "div_col m1 ''Time to Failure (ms)'' 1000")
    case (Inr secs)
    have l2: "length (rows (set_col ''Failure Time (s)'' secs m1)) = length (rows m1)"
      using length_div_col [OF Inr] by (rule length_rows_set_col)
    show ?thesis
    proof (cases "get_col (set_col ''Failure Time (s)'' secs m1) ''Voltage''")
      case vi: (Inr volts)
      have "length (fst (failure_time w)) \<le> length (unique_vals volts)"
        using assms \<open>dropna_subset ''Voltage'' m = Inr m1\<close> Inr vi failure_figures_length
        by (simp add: failure_time_def Let_def)
      also have "\<dots> \<le> length volts" by (rule length_unique_vals)
      finally show ?thesis
        using length_get_col [OF vi] l2 r1 by simp
    qed (use assms \<open>dropna_subset ''Voltage'' m = Inr m1\<close> Inr in \<open>simp add: failure_time_def Let_def\<close>)
  qed (use assms Inr in \<open>simp add: failure_time_def\<close>)
qed (use assms in \<open>simp add: failure_time_def\<close>)

theorem failure_time_figure_count_witness:
  "length (fst (failure_time ex_dash_world)) \<le> 3"
proof -
  have h: "get_master ex_dash_world = Inr (projr (get_master ex_dash_world))" by code_simp
  have "length (rows (projr (get_master ex_dash_world))) = 3" by code_simp
  then show ?thesis using failure_time_figure_count [OF h] by simp
qed

text \<open>
  Claim C38. When the failure-time panel completes on a well-formed master list with
  Pattern, Sensor and Solution columns, the point plots of its figures place, as a
  multiset, exactly the master rows that have a voltage, a pattern of row_order
  (1, 4, 7, 10), a sensor and one of the eight solutions of the plots' order; a board
  in Succinic 20mM, which the sidebar offers, is in no plot.
\<close>

theorem failure_time_drawn_rows:
  assumes "get_master w = Inr m" "frame_wf m" "failure_time w = (figs, None)"
    and "set [''Pattern'', ''Sensor'', ''Solution''] \<subseteq> set (columns m)"
  shows "mset (concat (map (\<lambda>f. map fst (pointplot_rows (snd f))) figs))
       = mset (map fst (filter (\<lambda>r. let v = row_view (columns m) [''Pattern'', ''Sensor'', ''Solution''] r in
                 \<not> is_na (snd r ! find_pos ''Voltage'' (columns m)) \<and> v ! 0 \<in> {Num 1, Num 4, Num 7, Num 10}
                 \<and> \<not> is_na (v ! 1) \<and> v ! 2 \<in> Str ` set failure_order) (rows m)))
     \<and> ''Succinic 20mM'' \<in> set sidebar_solutions \<and> ''Succinic 20mM'' \<notin> set failure_order"
proof -
  let ?ds = "[''Pattern'', ''Sensor'', ''Solution'']"
  obtain m1 secs where m1: "dropna_subset ''Voltage'' m = Inr m1" and len: "length secs = length (rows m1)"
    and wf1: "frame_wf m1"
    and cols: "\<forall>f \<in> set figs. columns (snd f) = columns (set_col ''Failure Time (s)'' secs m1)"
    and rs: "mset (concat (map (\<lambda>f. rows (snd f)) figs)) = mset (rows (set_col ''Failure Time (s)'' secs m1))"
    using failure_time_rows [OF assms(1-3)] by blast
  define m2 where "m2 = set_col ''Failure Time (s)'' secs m1"
  have cm1: "columns m1 = columns m" and rm1: "rows m1 = filter (\<lambda>(i, cs). \<not> is_na (cs ! find_pos ''Voltage'' (columns m))) (rows m)"
    using m1 by (auto simp: dropna_subset_def split: if_splits)
  have "mset (concat (map (\<lambda>f. map fst (pointplot_rows (snd f))) figs))
      = mset (map fst (filter (\<lambda>r. failure_point (row_view (columns m2) ?ds r)) (concat (map (\<lambda>f. rows (snd f)) figs))))"
    using cols unfolding pointplot_rows_def m2_def by (simp only: concat_filter_same_columns)
  also have "\<dots> = image_mset fst (filter_mset (\<lambda>r. failure_point (row_view (columns m2) ?ds r)) (mset (rows m2)))"
    by (simp only: mset_map mset_filter rs m2_def)
  also have "\<dots> = mset (map fst (filter (\<lambda>r. failure_point (row_view (columns m2) ?ds r)) (rows m2)))"
    by (simp only: mset_map mset_filter)
  also have "map fst (filter (\<lambda>r. failure_point (row_view (columns m2) ?ds r)) (rows m2))
      = map fst (filter (\<lambda>r. failure_point (row_view (columns m1) ?ds r)) (rows m1))"
    unfolding m2_def
    by (rule map_fst_filter_view, rule row_view_set_col [OF wf1 len]) (use assms(4) cm1 in auto)
  finally have "mset (concat (map (\<lambda>f. map fst (pointplot_rows (snd f))) figs))
      = mset (map fst (filter (\<lambda>r. \<not> is_na (snd r ! find_pos ''Voltage'' (columns m))
                 \<and> failure_point (row_view (columns m) ?ds r)) (rows m)))"
    using cm1 rm1 by (simp add: filter_filter split_def conj_commute)
  moreover have "''Succinic 20mM'' \<in> set sidebar_solutions \<and> ''Succinic 20mM'' \<notin> set failure_order"
    by (simp add: sidebar_solutions_def failure_order_def)
  ultimately show ?thesis by (simp add: failure_point_iff Let_def)
qed

theorem failure_time_drawn_rows_witness:
  "get_master (with_master ex_succ20_master) = Inr ex_succ20_master
   \<and> frame_wf ex_succ20_master
   \<and> failure_time (with_master ex_succ20_master) = (fst (failure_time (with_master ex_succ20_master)), None)
   \<and> set [''Pattern'', ''Sensor'', ''Solution''] \<subseteq> set (columns ex_succ20_master)
   \<and> mset (concat (map (\<lambda>f. map fst (pointplot_rows (snd f))) (fst (failure_time (with_master ex_succ20_master)))))
     = {#0, 2#}
   \<and> ''Succinic 20mM'' \<in> set sidebar_solutions \<and> ''Succinic 20mM'' \<notin> set failure_order"
proof -
  have h1: "get_master (with_master ex_succ20_master) = Inr ex_succ20_master" by code_simp
  have h2: "frame_wf ex_succ20_master" by code_simp
  have h3: "failure_time (with_master ex_succ20_master) = (fst (failure_time (with_master ex_succ20_master)), None)"
    by code_simp
  have h4: "set [''Pattern'', ''Sensor'', ''Solution''] \<subseteq> set (columns ex_succ20_master)" by code_simp
  have r: "mset (map fst (filter (\<lambda>r. let v = row_view (columns ex_succ20_master) [''Pattern'', ''Sensor'', ''Solution''] r in
                 \<not> is_na (snd r ! find_pos ''Voltage'' (columns ex_succ20_master)) \<and> v ! 0 \<in> {Num 1, Num 4, Num 7, Num 10}
                 \<and> \<not> is_na (v ! 1) \<and> v ! 2 \<in> Str ` set failure_order) (rows ex_succ20_master))) = {#0, 2#}"
    by code_simp
  show ?thesis using failure_time_drawn_rows [OF h1 h2 h3 h4] h1 h2 h3 h4 r by simp
qed




section \<open>Properties of the CF/CV panel\<close>

text \<open>
  Claim C9. The body of the CF/CV panel raises \<open>UnboundLocalError\<close> exactly when
  both tables pass the capacitance filter and are averaged without error and one of
  the filtered tables has no rows: \<open>CF_average\<close> or \<open>CV_average\<close> is assigned only
  under \<open>not CF.empty\<close> (lines 343, 349) but read unconditionally (lines 362, 393).
\<close>

theorem CF_CV_body_unbound:
  "CF_CV_body CF CV = Inl UnboundLocalError \<longleftrightarrow>
     (\<exists>cf cv a b. cap_filter CF = Inr cf \<and> cap_filter CV = Inr cv
        \<and> sweep_average ''Frequency (Hz)'' cf = Inr a \<and> sweep_average ''Voltage (V)'' cv = Inr b
        \<and> (rows cf = [] \<or> rows cv = []))"
proof
  assume u: "CF_CV_body CF CV = Inl UnboundLocalError"
  then obtain cf cv a b where cf: "cap_filter CF = Inr cf" and cv: "cap_filter CV = Inr cv"
    and a: "sweep_average ''Frequency (Hz)'' cf = Inr a" and b: "sweep_average ''Voltage (V)'' cv = Inr b"
    and l: "res_bind (sensor_lines ''Frequency (Hz)'' a) (\<lambda>cf_lines.
              res_bind (sensor_lines ''Voltage (V)'' b) (\<lambda>cv_lines. Inr (cf_lines, cv_lines))) = Inl UnboundLocalError"
    by (auto simp: CF_CV_body_def res_bind_eq_Inl dest: cap_filter_Inl sweep_average_Inl)
  have "a = None \<or> b = None"
  proof (rule ccontr)
    assume "\<not> (a = None \<or> b = None)"
    then obtain a' b' where ab: "a = Some a'" "b = Some b'" by auto
    obtain la where "sensor_lines ''Frequency (Hz)'' (Some a') = Inr la" using sensor_lines_Some a ab by blast
    moreover obtain lb where "sensor_lines ''Voltage (V)'' (Some b') = Inr lb" using sensor_lines_Some b ab by blast
    ultimately show False using l ab by simp
  qed
  then show "\<exists>cf cv a b. cap_filter CF = Inr cf \<and> cap_filter CV = Inr cv
        \<and> sweep_average ''Frequency (Hz)'' cf = Inr a \<and> sweep_average ''Voltage (V)'' cv = Inr b
        \<and> (rows cf = [] \<or> rows cv = [])"
    using cf cv a b sweep_average_None by blast
next
  assume "\<exists>cf cv a b. cap_filter CF = Inr cf \<and> cap_filter CV = Inr cv
        \<and> sweep_average ''Frequency (Hz)'' cf = Inr a \<and> sweep_average ''Voltage (V)'' cv = Inr b
        \<and> (rows cf = [] \<or> rows cv = [])"
  then obtain cf cv a b where cf: "cap_filter CF = Inr cf" and cv: "cap_filter CV = Inr cv"
    and a: "sweep_average ''Frequency (Hz)'' cf = Inr a" and b: "sweep_average ''Voltage (V)'' cv = Inr b"
    and e: "rows cf = [] \<or> rows cv = []" by blast
  show "CF_CV_body CF CV = Inl UnboundLocalError"
  proof (cases "rows cf = []")
    case True
    then have "a = None" using a by (simp add: sweep_average_def)
    then show ?thesis using cf cv a b by (simp add: CF_CV_body_def sensor_lines_def)
  next
    case False
    then obtain a' where a': "a = Some a'" using a by (auto simp: sweep_average_def res_bind_eq_Inr)
    obtain ls where "sensor_lines ''Frequency (Hz)'' (Some a') = Inr ls"
      using sensor_lines_Some a a' by blast
    moreover have "b = None" using False e b by (simp add: sweep_average_def)
    ultimately show ?thesis using cf cv a b a' by (simp add: CF_CV_body_def sensor_lines_def)
  qed
qed


text \<open>A CF table whose capacitances are all out of range or missing.\<close>

theorem CF_CV_body_unbound_witness:
  "CF_CV_body (Some (ex_cf\<lparr>rows := drop 2 (rows ex_cf)\<rparr>)) (Some ex_cv) = Inl UnboundLocalError"
proof -
  let ?cf = "ex_cf\<lparr>rows := drop 2 (rows ex_cf)\<rparr>"
  have "cap_filter (Some ?cf) = Inr (?cf\<lparr>rows := []\<rparr>)" by code_simp
  moreover have "cap_filter (Some ex_cv) = Inr ex_cv" by code_simp
  moreover have "sweep_average ''Frequency (Hz)'' (?cf\<lparr>rows := []\<rparr>) = Inr None" by code_simp
  moreover have "sweep_average ''Voltage (V)'' ex_cv = Inr (projr (sweep_average ''Voltage (V)'' ex_cv))" by code_simp
  ultimately show ?thesis using CF_CV_body_unbound by fastforce
qed

text \<open>
  Claim C14. Every line the CF/CV panel plots is a sensor's mean over the rows that pass
  the filter of lines 335--336, so its capacitance (the second column of every line
  table) is a number strictly between 0 and 100: out-of-range and missing
  capacitances never reach the plot, and a group never averages to \<open>nan\<close>.
\<close>

theorem CF_CV_capacitance_bounds:
  assumes "CF_CV_body CF CV = Inr (cf_lines, cv_lines)" "l \<in> set (cf_lines @ cv_lines)" "r \<in> set (rows l)"
  shows "columns l ! 1 = ''Capacitance (F)'' \<and> (\<exists>y. snd r ! 1 = Num y \<and> 0 < y \<and> y < 100)"
proof -
  obtain cf cv a b where cf: "cap_filter CF = Inr cf" and cv: "cap_filter CV = Inr cv"
    and a: "sweep_average ''Frequency (Hz)'' cf = Inr a" and b: "sweep_average ''Voltage (V)'' cv = Inr b"
    and la: "sensor_lines ''Frequency (Hz)'' a = Inr cf_lines" and lb: "sensor_lines ''Voltage (V)'' b = Inr cv_lines"
    using assms(1) by (auto simp: CF_CV_body_def res_bind_eq_Inr)
  show ?thesis
    using assms(2) sensor_lines_cap [OF cf a la _ assms(3)] sensor_lines_cap [OF cv b lb _ assms(3)] by auto
qed


text \<open>The first CF line of the sweep fixture: U1's mean capacitance is 6.\<close>

theorem CF_CV_capacitance_bounds_witness:
  "columns (hd (fst (projr (CF_CV_body (Some ex_cf) (Some ex_cv))))) ! 1 = ''Capacitance (F)''
   \<and> snd (hd (rows (hd (fst (projr (CF_CV_body (Some ex_cf) (Some ex_cv))))))) ! 1 = Num 6
   \<and> (\<exists>y. Num 6 = Num y \<and> 0 < y \<and> y < 100)"
proof -
  define X where "X = projr (CF_CV_body (Some ex_cf) (Some ex_cv))"
  have b: "CF_CV_body (Some ex_cf) (Some ex_cv) = Inr (fst X, snd X)" unfolding X_def by code_simp
  have l: "hd (fst X) \<in> set (fst X @ snd X)" unfolding X_def by code_simp
  have r: "hd (rows (hd (fst X))) \<in> set (rows (hd (fst X)))" unfolding X_def by code_simp
  have v: "snd (hd (rows (hd (fst X)))) ! 1 = Num 6" unfolding X_def by code_simp
  show ?thesis using CF_CV_capacitance_bounds [OF b l r] v by (simp add: X_def)
qed

section \<open>Properties of the RGB boxplot panel\<close>

text \<open>
  Claim C13. The RGB boxplot panel labels its ticks with the four patterns 1, 4, 7 and
  10 whatever the data: once its long table is computed, it raises \<open>ValueError\<close>
  unless the rows of the chosen solution hold exactly four distinct non-missing
  patterns, and otherwise plots that table.
\<close>

theorem RGB_boxplots_ticks:
  assumes m: "get_master w = Inr m" and wf: "frame_wf m" and long: "RGB_boxplots w option1 = Inr long"
  shows "RGB_boxplots_panel w option1 =
    (if length (remdups (filter (\<lambda>c. \<not> is_na c)
           (map (\<lambda>(i, cs). cs ! find_pos ''Pattern'' (columns m))
              (filter (\<lambda>(i, cs). cell_eq (cs ! find_pos ''Solution'' (columns m)) (Str option1)) (rows m))))) = 4
     then Inr long else Inl ValueError)"
proof -
  let ?pats = "map (\<lambda>(i, cs). cs ! find_pos ''Pattern'' (columns m))
              (filter (\<lambda>(i, cs). cell_eq (cs ! find_pos ''Solution'' (columns m)) (Str option1)) (rows m))"
  obtain f red green blue where
    f: "filter_eq ''Solution'' (Str option1) m = Inr f" and
    r: "sub_cols f ''R_EXPOSED'' ''R_PRISTINE'' = Inr red" and
    g: "sub_cols (set_col ''Red'' red f) ''G_EXPOSED'' ''G_PRISTINE'' = Inr green" and
    b: "sub_cols (set_col ''Green'' green (set_col ''Red'' red f)) ''B_EXPOSED'' ''B_PRISTINE'' = Inr blue" and
    mlt: "melt [''Board ID'', ''Sensor'', ''Pattern''] [''Red'', ''Green'', ''Blue''] ''Channel'' ''Channel Difference''
            (set_col ''Blue'' blue (set_col ''Green'' green (set_col ''Red'' red f))) = Inr long"
    using m long by (auto simp: RGB_boxplots_def res_bind_eq_Inr Let_def)
  let ?m1 = "set_col ''Red'' red f" let ?m2 = "set_col ''Green'' green ?m1" let ?m3 = "set_col ''Blue'' blue ?m2"
  have fdef: "''Solution'' \<in> set (columns m)"
    "f = m\<lparr>rows := filter (\<lambda>(i, cs). cell_eq (cs ! find_pos ''Solution'' (columns m)) (Str option1)) (rows m)\<rparr>"
    using f by (simp_all add: filter_eq_Inr)
  have wf0: "frame_wf f" using filter_eq_wf [OF wf f] .
  have l1: "length red = length (rows f)" using length_sub_cols [OF r] .
  have wf1: "frame_wf ?m1" using set_col_wf [OF wf0 l1] .
  have l2: "length green = length (rows ?m1)" using length_sub_cols [OF g] .
  have wf2: "frame_wf ?m2" using set_col_wf [OF wf1 l2] .
  have l3: "length blue = length (rows ?m2)" using length_sub_cols [OF b] .
  have "get_col ?m3 ''Pattern'' = get_col f ''Pattern''"
    using get_col_set_col_other [OF wf2 l3] get_col_set_col_other [OF wf1 l2] get_col_set_col_other [OF wf0 l1]
    by simp
  moreover have pm3: "''Pattern'' \<in> set (columns ?m3)"
    using mlt by (simp add: melt_def split: if_splits)
  ultimately have "get_col f ''Pattern'' = Inr (map (\<lambda>(i, cs). cs ! find_pos ''Pattern'' (columns ?m3)) (rows ?m3))"
    by (simp add: get_col_Inr)
  moreover have "''Pattern'' \<in> set (columns f)"
    using pm3 by (simp add: columns_set_col split: if_splits)
  ultimately have p3: "map (\<lambda>(i, cs). cs ! find_pos ''Pattern'' (columns ?m3)) (rows ?m3) = ?pats"
    using fdef by (simp add: get_col_def)
  have "get_col long ''Pattern'' = Inr (?pats @ ?pats @ ?pats)"
    using melt_id_column [OF mlt] p3 by simp
  moreover have "length (remdups (filter (\<lambda>c. \<not> is_na c) (?pats @ ?pats @ ?pats)))
      = length (remdups (filter (\<lambda>c. \<not> is_na c) ?pats))"
    by (simp add: length_remdups_card_conv)
  ultimately show ?thesis
    using long by (simp add: RGB_boxplots_panel_def facet_set_xticklabels_def xtick_labels_def)
qed


text \<open>
  The DI Water boards of the fixture have patterns 1 and 4 only: the RGB boxplots raise,
  and the page stops after the 3D panel.
\<close>

theorem RGB_boxplots_ticks_witness:
  "RGB_boxplots_panel ex_dash_world ''DI Water'' = Inl ValueError
   \<and> dashboard_page ex_dash_world ''DI Water'' (\<lambda>_. Inr None) (Inr None) = ([P_RGB_3D], Some ValueError)"
proof -
  define m where "m = projr (get_master ex_dash_world)"
  have h1: "get_master ex_dash_world = Inr m" unfolding m_def by code_simp
  have h2: "frame_wf m" unfolding m_def by code_simp
  have h3: "RGB_boxplots ex_dash_world ''DI Water'' = Inr (projr (RGB_boxplots ex_dash_world ''DI Water''))"
    by code_simp
  have c: "length (remdups (filter (\<lambda>c. \<not> is_na c)
           (map (\<lambda>(i, cs). cs ! find_pos ''Pattern'' (columns m))
              (filter (\<lambda>(i, cs). cell_eq (cs ! find_pos ''Solution'' (columns m)) (Str ''DI Water'')) (rows m))))) = 2"
    unfolding m_def by code_simp
  have p: "RGB_boxplots_panel ex_dash_world ''DI Water'' = Inl ValueError"
    using RGB_boxplots_ticks [OF h1 h2 h3] c by simp
  have r3: "RGB_3D ex_dash_world ''DI Water'' = Inr (projr (RGB_3D ex_dash_world ''DI Water''))" by code_simp
  then obtain t where t: "RGB_3D ex_dash_world ''DI Water'' = Inr t" by blast
  show ?thesis using p t by (simp add: dashboard_page_def outcome_def)
qed

end
