(* ===== verification/Launcher.thy ===== *)
theory Launcher
  imports Dashboard
begin

text \<open>
  The two entry points of the repository. \<^verbatim>\<open>src/app.py\<close> is the plotting hub: a
  Streamlit page with one button per standalone script, each starting the script in a
  child process from the repository directory. \<^verbatim>\<open>src/Analysis/streamlit_app.py\<close> is
  the dashboard of theory Dashboard. Both begin with the same guard: a process started
  without the argument \<open>--as-streamlit\<close> starts \<open>streamlit run\<close> on its own script
  with that argument, from its own directory, and does nothing else. A process is the
  part of the Python runtime the two files read: \<open>sys.executable\<close>, the current
  directory, \<open>__file__\<close> and \<open>sys.argv\<close>. The relaunch is an \<open>inductive\<close> step
  relation between processes.
\<close>

section \<open>Processes and the relaunch guard\<close>

record proc =
  p_exe :: path
  p_cwd :: path
  p_file :: path
  p_argv :: "string list"

definition as_streamlit :: string where
  "as_streamlit = ''--as-streamlit''"

text \<open>What the guard decides: start a Streamlit child (command line and directory), or go on to the page.\<close>

datatype action = Relaunch "string list" path | Serve

text \<open>\<open>os.path.abspath(__file__)\<close> and its directory (app.py lines 7--8, streamlit_app.py lines 16--17).\<close>

definition script_path :: "proc \<Rightarrow> path" where
  "script_path p = posix_abspath (p_cwd p) (p_file p)"

definition repo_dir :: "proc \<Rightarrow> path" where
  "repo_dir p = posix_dirname (script_path p)"

text \<open>app.py lines 12--20.\<close>

definition app_guard :: "proc \<Rightarrow> action" where
  "app_guard p =
     (if as_streamlit \<notin> set (p_argv p)
      then Relaunch [p_exe p, ''-m'', ''streamlit'', ''run'', script_path p, ''--'', as_streamlit] (repo_dir p)
      else Serve)"

text \<open>streamlit_app.py lines 22--29, the same code.\<close>

definition dashboard_guard :: "proc \<Rightarrow> action" where
  "dashboard_guard p =
     (if as_streamlit \<notin> set (p_argv p)
      then Relaunch [p_exe p, ''-m'', ''streamlit'', ''run'', script_path p, ''--'', as_streamlit] (repo_dir p)
      else Serve)"

text \<open>
  \<open>subprocess.run([exe, "-m", "streamlit", "run", script, "--", args...], cwd=d)\<close>:
  Streamlit runs \<open>script\<close> in a process whose \<open>sys.argv\<close> is the script followed by
  the arguments after \<open>--\<close>.
\<close>

fun streamlit_args :: "string list \<Rightarrow> string list" where
  "streamlit_args (a # args) = (if a = ''--'' then args else a # args)"
| "streamlit_args [] = []"

fun streamlit_run :: "string list \<Rightarrow> path \<Rightarrow> proc option" where
  "streamlit_run (exe # m # st # r # script # rest) d =
     (if m = ''-m'' \<and> st = ''streamlit'' \<and> r = ''run''
      then Some \<lparr>p_exe = exe, p_cwd = d, p_file = script, p_argv = script # streamlit_args rest\<rparr>
      else None)"
| "streamlit_run _ d = None"

text \<open>\<open>subprocess.Popen([exe, script], cwd=d)\<close>: a Python process running \<open>script\<close>.\<close>

definition python_run :: "path \<Rightarrow> path \<Rightarrow> path \<Rightarrow> proc" where
  "python_run exe script d = \<lparr>p_exe = exe, p_cwd = d, p_file = script, p_argv = [script]\<rparr>"

text \<open>One relaunch: the guard of the running script starts the Streamlit child \<open>q\<close>.\<close>

inductive relaunch :: "(proc \<Rightarrow> action) \<Rightarrow> proc \<Rightarrow> proc \<Rightarrow> bool" for guard where
  step: "guard p = Relaunch cmd d \<Longrightarrow> streamlit_run cmd d = Some q \<Longrightarrow> relaunch guard p q"

inductive_cases relaunchE: "relaunch guard p q"

section \<open>The plotting hub (app.py lines 24--70)\<close>

datatype app_button =
    B_RGB_3D | B_RGB_boxplots | B_grayscale | B_scatter_matrix | B_corr_heatmap
  | B_current_vs_time | B_failure_time | B_failure_pH | B_update_cache


fun button_script :: "app_button \<Rightarrow> path" where
  "button_script B_RGB_3D = ''Analysis/rgb_3d.py''"
| "button_script B_RGB_boxplots = ''Analysis/rgb_boxplots.py''"
| "button_script B_grayscale = ''Analysis/grayscale_boxplots.py''"
| "button_script B_scatter_matrix = ''Analysis/scatterplot_matrix.py''"
| "button_script B_corr_heatmap = ''Analysis/corr_heatmap.py''"
| "button_script B_current_vs_time = ''Analysis/current_time.py''"
| "button_script B_failure_time = ''Analysis/fail_time.py''"
| "button_script B_failure_pH = ''Analysis/Ph_Plots.py''"
| "button_script B_update_cache = ''Analysis/update_cache.py''"

definition app_click :: "proc \<Rightarrow> app_button \<Rightarrow> proc" where
  "app_click p b = python_run (p_exe p) (button_script b) (repo_dir p)"



section \<open>The repository\<close>


definition ex_app_proc :: proc where
  "ex_app_proc = \<lparr>p_exe = ''/usr/bin/python3'', p_cwd = ''/tmp'',
                  p_file = clean_abs (ex_root @ [''app.py'']), p_argv = [clean_abs (ex_root @ [''app.py''])]\<rparr>"

definition ex_dash_proc :: proc where
  "ex_dash_proc = \<lparr>p_exe = ''/usr/bin/python3'', p_cwd = clean_abs ex_root,
                   p_file = ''Analysis/streamlit_app.py'', p_argv = [''Analysis/streamlit_app.py'']\<rparr>"

section \<open>Lemmas\<close>

lemma relaunch_app_guard:
  "relaunch app_guard p q \<longleftrightarrow> as_streamlit \<notin> set (p_argv p)
     \<and> q = \<lparr>p_exe = p_exe p, p_cwd = repo_dir p, p_file = script_path p, p_argv = [script_path p, as_streamlit]\<rparr>"
  by (auto simp: app_guard_def elim!: relaunchE intro!: relaunch.step split: if_splits)

lemma relaunch_dashboard_guard:
  "relaunch dashboard_guard p q \<longleftrightarrow> as_streamlit \<notin> set (p_argv p)
     \<and> q = \<lparr>p_exe = p_exe p, p_cwd = repo_dir p, p_file = script_path p, p_argv = [script_path p, as_streamlit]\<rparr>"
  by (auto simp: dashboard_guard_def elim!: relaunchE intro!: relaunch.step split: if_splits)

lemma relaunch_Serve: "guard p = Serve \<Longrightarrow> \<not> relaunch guard p q"
  by (auto elim: relaunchE)

text \<open>A guard whose children serve lets a chain of relaunches run at most one step.\<close>

lemma relaunch_chain:
  assumes "\<And>p q. relaunch guard p q \<Longrightarrow> guard q = Serve"
    and "(relaunch guard)\<^sup>*\<^sup>* p q"
  shows "q = p \<or> (relaunch guard p q \<and> guard q = Serve)"
  using assms(2)
proof (induction rule: rtranclp_induct)
  case (step q r)
  then show ?case using assms(1) relaunch_Serve by blast
qed simp

lemma app_child_serves: "relaunch app_guard p q \<Longrightarrow> app_guard q = Serve"
  by (simp add: relaunch_app_guard app_guard_def)

lemma dashboard_child_serves: "relaunch dashboard_guard p q \<Longrightarrow> dashboard_guard q = Serve"
  by (simp add: relaunch_dashboard_guard dashboard_guard_def)

lemma resolve_parent:
  assumes "list_all plain_comp cs" "plain_comp a" "plain_comp x"
  shows "posix_abspath (clean_abs (cs @ [a])) (''..'' @ slash # x) = clean_abs (cs @ [x])"
proof -
  have "py_join slash (cs @ [a]) \<noteq> []"
    using assms(2) by (simp add: py_join_Nil_iff plain_comp_def)
  then have "last (clean_abs (cs @ [a])) \<noteq> slash"
    using plain_last_not_slash [of "cs @ [a]"] assms(1,2) by (simp add: clean_abs_def)
  then have "posix_join (clean_abs (cs @ [a])) (''..'' @ slash # x)
      = slash # py_join slash (cs @ [a, ''..'', x])"
    using py_join_append [of "cs @ [a]" "[''..'', x]" slash]
    by (simp add: posix_join_def clean_abs_def)
  then show ?thesis
    using normpath_parent [OF assms] by (simp add: posix_abspath_def posix_isabs_def)
qed

lemma resolve_clean:
  "list_all plain_comp cs \<Longrightarrow> posix_abspath d (clean_abs cs) = clean_abs cs"
  by (simp add: posix_abspath_def posix_isabs_def clean_abs_def normpath_clean_abs [unfolded clean_abs_def])

lemma repo_dir_clean:
  "list_all plain_comp cs \<Longrightarrow> plain_comp f \<Longrightarrow> script_path p = clean_abs (cs @ [f]) \<Longrightarrow> repo_dir p = clean_abs cs"
  by (simp add: repo_dir_def dirname_clean_abs)

lemma button_script_plain:
  "list_all plain_comp (py_split slash (button_script b)) \<and> py_split slash (button_script b) \<noteq> []"
  by (cases b; hypsubst; code_simp)


section \<open>Properties of the entry points\<close>

text \<open>
  Claim C26. The relaunch of app.py happens at most once: every process reachable
  from a run of app.py by relaunches is the run itself or its Streamlit child, and the
  child goes on to the page.
\<close>

theorem app_relaunch_bounded:
  assumes "(relaunch app_guard)\<^sup>*\<^sup>* p q"
  shows "q = p \<or> (relaunch app_guard p q \<and> app_guard q = Serve)"
  using app_child_serves assms by (rule relaunch_chain)

theorem app_relaunch_bounded_witness:
  "(relaunch app_guard)\<^sup>*\<^sup>* ex_app_proc (ex_app_proc\<lparr>p_cwd := repo_dir ex_app_proc,
      p_file := script_path ex_app_proc, p_argv := [script_path ex_app_proc, as_streamlit]\<rparr>)
   \<and> app_guard (ex_app_proc\<lparr>p_cwd := repo_dir ex_app_proc,
      p_file := script_path ex_app_proc, p_argv := [script_path ex_app_proc, as_streamlit]\<rparr>) = Serve"
proof -
  let ?q = "ex_app_proc\<lparr>p_cwd := repo_dir ex_app_proc,
      p_file := script_path ex_app_proc, p_argv := [script_path ex_app_proc, as_streamlit]\<rparr>"
  have n: "as_streamlit \<notin> set (p_argv ex_app_proc)" by code_simp
  have "relaunch app_guard ex_app_proc ?q"
    using n by (simp add: relaunch_app_guard ex_app_proc_def)
  then have h: "(relaunch app_guard)\<^sup>*\<^sup>* ex_app_proc ?q" by (rule r_into_rtranclp)
  have "?q \<noteq> ex_app_proc" by code_simp
  then show ?thesis using app_relaunch_bounded [OF h] h by simp
qed

text \<open>
  Claim C27. Every run of app.py reaches the page: either it serves it itself or its
  Streamlit child does.
\<close>

theorem app_reaches_page:
  "\<exists>q. (relaunch app_guard)\<^sup>*\<^sup>* p q \<and> app_guard q = Serve"
proof (cases "app_guard p")
  case (Relaunch cmd d)
  then obtain q where "relaunch app_guard p q"
    by (auto simp: relaunch_app_guard app_guard_def split: if_splits)
  then show ?thesis using app_child_serves by blast
next
  case Serve
  then show ?thesis by blast
qed

text \<open>
  The dashboard's Streamlit child serves the page, runs the absolute
  script path of its parent, and runs in the parent's script directory.
\<close>

theorem dashboard_relaunch_from_repo_dir:
  assumes "relaunch dashboard_guard p q"
  shows "dashboard_guard q = Serve \<and> p_cwd q = repo_dir p \<and> p_file q = script_path p"
  using assms dashboard_child_serves by (simp add: relaunch_dashboard_guard)

theorem dashboard_relaunch_from_repo_dir_witness:
  "relaunch dashboard_guard ex_dash_proc (ex_dash_proc\<lparr>p_cwd := repo_dir ex_dash_proc,
      p_file := script_path ex_dash_proc, p_argv := [script_path ex_dash_proc, as_streamlit]\<rparr>)
   \<and> repo_dir ex_dash_proc = clean_abs (ex_root @ [''Analysis''])"
proof -
  let ?q = "ex_dash_proc\<lparr>p_cwd := repo_dir ex_dash_proc,
      p_file := script_path ex_dash_proc, p_argv := [script_path ex_dash_proc, as_streamlit]\<rparr>"
  have n: "as_streamlit \<notin> set (p_argv ex_dash_proc)" by code_simp
  have h: "relaunch dashboard_guard ex_dash_proc ?q"
    using n by (simp add: relaunch_dashboard_guard ex_dash_proc_def)
  have "repo_dir ex_dash_proc = clean_abs (ex_root @ [''Analysis''])" by code_simp
  moreover have "p_cwd ?q = repo_dir ex_dash_proc"
    using dashboard_relaunch_from_repo_dir [OF h] by blast
  ultimately show ?thesis using h by simp
qed

text \<open>
  Claim C29. In the relaunched dashboard, whose current directory is
  \<open>Analysis\<close>, the relative path of the data expander (line 485) names the file
  that \<open>get_master\<close> reads through the File Locator, so the expander shows the master list.
\<close>

theorem relaunched_dashboard_reads_master:
  assumes "list_all plain_comp base"
    and "script_path p = clean_abs (base @ [''Analysis'', ''streamlit_app.py''])"
    and "relaunch dashboard_guard p q" and "cwd w = p_cwd q"
    and "reads_file w = clean_abs (base @ [''Analysis'', ''reads.py''])"
  shows "resolve w ''../IDCSubmersionMasterlist_20250505.csv''
           = resolve w (posix_join (IDC_directory w) master_csv_name)
    \<and> data_panel w = outcome (read_csv w (posix_join (IDC_directory w) master_csv_name))"
proof -
  have pa: "plain_comp ''Analysis''" "plain_comp ''streamlit_app.py''" "plain_comp master_csv_name"
    by (simp_all add: plain_comp_def master_csv_name_def)
  have "cwd w = clean_abs (base @ [''Analysis''])"
    using assms(3,4) repo_dir_clean [of "base @ [''Analysis'']" "''streamlit_app.py''" p] assms(1,2) pa
    by (simp add: relaunch_dashboard_guard)
  then have l: "resolve w ''../IDCSubmersionMasterlist_20250505.csv'' = clean_abs (base @ [master_csv_name])"
    using resolve_parent [OF assms(1) pa(1) pa(3)] by (simp add: resolve_def master_csv_name_def)
  have "posix_join (IDC_directory w) master_csv_name = clean_abs (base @ [master_csv_name])"
    using IDC_directory_clean_root [OF assms(1,5)] join_clean_abs [OF assms(1) pa(3)] by simp
  moreover have "list_all plain_comp (base @ [master_csv_name])" using assms(1) pa(3) by simp
  ultimately have r: "resolve w (posix_join (IDC_directory w) master_csv_name) = clean_abs (base @ [master_csv_name])"
    by (simp add: resolve_def resolve_clean)
  show ?thesis
    using l r by (simp add: data_panel_def read_csv_def)
qed

theorem relaunched_dashboard_reads_master_witness:
  "data_panel (ex_dash_world\<lparr>cwd := clean_abs (ex_root @ [''Analysis''])\<rparr>) = Inr ()"
proof -
  let ?q = "ex_dash_proc\<lparr>p_cwd := repo_dir ex_dash_proc,
      p_file := script_path ex_dash_proc, p_argv := [script_path ex_dash_proc, as_streamlit]\<rparr>"
  let ?w = "ex_dash_world\<lparr>cwd := p_cwd ?q\<rparr>"
  have h1: "list_all plain_comp ex_root" by code_simp
  have h2: "script_path ex_dash_proc = clean_abs (ex_root @ [''Analysis'', ''streamlit_app.py''])" by code_simp
  have n: "as_streamlit \<notin> set (p_argv ex_dash_proc)" by code_simp
  have h3: "relaunch dashboard_guard ex_dash_proc ?q"
    using n by (simp add: relaunch_dashboard_guard ex_dash_proc_def)
  have h4: "cwd ?w = p_cwd ?q" by simp
  have h5: "reads_file ?w = clean_abs (ex_root @ [''Analysis'', ''reads.py''])"
    by (simp add: ex_dash_world_def ex_world_def)
  have "data_panel ?w = outcome (read_csv ?w (posix_join (IDC_directory ?w) master_csv_name))"
    using relaunched_dashboard_reads_master [OF h1 h2 h3 h4 h5] by blast
  moreover have "outcome (read_csv ?w (posix_join (IDC_directory ?w) master_csv_name)) = Inr ()"
    by code_simp
  moreover have "p_cwd ?q = clean_abs (ex_root @ [''Analysis''])" by code_simp
  ultimately show ?thesis by simp
qed

text \<open>
  Claim C30. A button of the plotting hub starts its script at the path under the
  repository root that the button names, whatever the current directory app.py was
  started from.
\<close>

theorem app_click_script:
  assumes "list_all plain_comp base" "script_path p = clean_abs (base @ [''app.py''])"
  shows "script_path (app_click p b) = clean_abs (base @ py_split slash (button_script b))"
proof -
  have "repo_dir p = clean_abs base"
    using assms by (intro repo_dir_clean) (simp_all add: plain_comp_def)
  moreover have "\<not> posix_isabs (button_script b)"
    by (cases b) (simp_all add: posix_isabs_def)
  moreover have "posix_join (clean_abs base) (button_script b) = clean_abs (base @ py_split slash (button_script b))"
    using join_clean_abs_rel [OF assms(1), of "py_split slash (button_script b)"] button_script_plain
    by simp
  moreover have "list_all plain_comp (base @ py_split slash (button_script b))"
    using assms(1) button_script_plain by simp
  ultimately show ?thesis
    by (simp add: app_click_def python_run_def script_path_def posix_abspath_def normpath_clean_abs)
qed

theorem app_click_script_witness:
  "script_path (app_click ex_app_proc B_RGB_3D) = clean_abs (ex_root @ [''Analysis'', ''rgb_3d.py''])"
proof -
  have h1: "list_all plain_comp ex_root" by code_simp
  have h2: "script_path ex_app_proc = clean_abs (ex_root @ [''app.py''])" by code_simp
  have "py_split slash (button_script B_RGB_3D) = [''Analysis'', ''rgb_3d.py'']" by code_simp
  then show ?thesis using app_click_script [OF h1 h2, of B_RGB_3D] by simp
qed



end
