(* ===== verification/Scripts.thy ===== *)
theory Scripts
  imports Dashboard
begin

text \<open>
  The standalone plot scripts that app.py starts (\<^verbatim>\<open>src/Analysis/*.py\<close>) and the two
  scripts of \<^verbatim>\<open>src/Individual Plots\<close>, each up to its plotting call: the table it
  hands to seaborn, plotly or pandas' \<open>scatter_matrix\<close>, or the exception it raises
  first. Each script is the same pandas pipeline as a panel of the dashboard, without
  the dashboard's filter on the solution, and two of them rename the column \<open>Ph\<close>
  to \<open>pH\<close>. The lemmas relate each script to its panel.
\<close>

section \<open>The scripts\<close>

text \<open>grayscale_boxplots.py lines 10--16.\<close>

definition grayscale_boxplots :: "world \<Rightarrow> frame result" where
  "grayscale_boxplots w =
     res_bind (get_master w) (\<lambda>master.
     res_bind (sub_cols master ''Brightness Exposed'' ''Brightness Pristine'') (\<lambda>diff.
     (let master = set_col ''Brightness Difference'' diff master in
     res_bind (get_col master ''Pattern'') (\<lambda>pat.
     Inr (set_col ''Pattern'' (categorical pattern_categories pat) master)))))"

text \<open>rgb_boxplots.py lines 10--24.\<close>

definition rgb_boxplots :: "world \<Rightarrow> frame result" where
  "rgb_boxplots w =
     res_bind (get_master w) (\<lambda>master.
     res_bind (sub_cols master ''R_EXPOSED'' ''R_PRISTINE'') (\<lambda>red.
     (let master = set_col ''Red'' red master in
     res_bind (sub_cols master ''G_EXPOSED'' ''G_PRISTINE'') (\<lambda>green.
     (let master = set_col ''Green'' green master in
     res_bind (sub_cols master ''B_EXPOSED'' ''B_PRISTINE'') (\<lambda>blue.
     (let master = set_col ''Blue'' blue master in
     melt [''Board ID'', ''Sensor'', ''Pattern''] [''Red'', ''Green'', ''Blue'']
       ''Channel'' ''Channel Difference'' master)))))))"

text \<open>rgb_boxplots.py lines 27--45: the facet grid and its tick labels, as in the panel.\<close>

definition rgb_boxplots_plot :: "world \<Rightarrow> frame result" where
  "rgb_boxplots_plot w = res_bind (rgb_boxplots w) facet_set_xticklabels"

text \<open>corr_heatmap.py lines 10--14; \<open>master.corr()\<close> is not modelled.\<close>

definition corr_heatmap :: "world \<Rightarrow> frame result" where
  "corr_heatmap w =
     res_bind (get_master w) (\<lambda>master.
     (let master = dropna_all_cols master in
     Inr (select_numeric master)))"

text \<open>corr_heatmap.py line 17: \<open>sns.heatmap(master.corr(), ...)\<close>.\<close>

definition corr_heatmap_plot :: "world \<Rightarrow> cell list list result" where
  "corr_heatmap_plot w = res_bind (corr_heatmap w) (\<lambda>master. res_bind (df_corr master) sns_heatmap)"

text \<open>rgb_3d.py lines 4--18, up to the split of \<open>Channel_Age\<close>.\<close>

definition rgb_3d_long :: "world \<Rightarrow> frame result" where
  "rgb_3d_long w =
     res_bind (get_master w) (\<lambda>master.
     res_bind (dropna_subset ''Pattern'' master) (\<lambda>master.
     res_bind (get_col master ''Pattern'') (\<lambda>pat.
     res_bind (pattern_to_str pat) (\<lambda>pat_str.
     (let master = set_col ''Pattern'' pat_str master in
     res_bind (melt [''Pattern'', ''Board ID'', ''Sensor''] rgb_value_vars ''Channel_Age'' ''Value'' master)
       (\<lambda>long.
     res_bind (get_col long ''Channel_Age'') (\<lambda>ca.
     (let ext = map extract_cells ca;
          long = set_col ''Channel'' (map fst ext) long
      in Inr (set_col ''Age'' (map snd ext) long)))))))))"

text \<open>rgb_3d.py lines 4--39: the long table, its pivot (lines 21--25) and \<open>px.scatter_3d\<close> (27--37).\<close>

definition rgb_3d :: "world \<Rightarrow> frame result" where
  "rgb_3d w =
     res_bind (rgb_3d_long w) (\<lambda>long.
     res_bind (pivot_mean [''Pattern'', ''Board ID'', ''Sensor'', ''Age''] ''Channel'' ''Value'' long)
       px_scatter_3d)"

text \<open>Individual Plots/scatterplot_matrix.py lines 11--20.\<close>

definition scatterplot_matrix :: "world \<Rightarrow> frame result" where
  "scatterplot_matrix w =
     res_bind (get_master w) (\<lambda>master.
     (let master = rename_col ''Ph'' ''pH'' master;
          master = dropna_all_cols master
      in Inr (select_numeric master)))"

text \<open>
  Individual Plots/Ph_Plots.py lines 12--20: the same filter as the dashboard's pH
  panel, then the renaming of \<open>Ph\<close>, then the scatter plot, which raises
  \<open>ValueError\<close> for a missing column.
\<close>

definition Ph_Plots :: "world \<Rightarrow> frame result" where
  "Ph_Plots w =
     res_bind (get_master w) (\<lambda>df.
     res_bind (filter_in ''Solution'' ph_solutions df) (\<lambda>df.
     (let df = rename_col ''Ph'' ''pH'' df in
     (if ''pH'' \<in> set (columns df) \<and> ''Time to Failure (ms)'' \<in> set (columns df)
      then Inr df else Inl ValueError))))"

section \<open>A master list of one solution\<close>

definition ex_di_world :: world where
  "ex_di_world = with_master (ex_full_master\<lparr>rows := filter (\<lambda>(i, cs). cs ! 4 = Str ''DI Water'') (rows ex_full_master)\<rparr>)"

section \<open>Properties of the scripts\<close>

text \<open>
  Claim C32. On a master list of one solution, the dashboard's grayscale, RGB
  boxplot and 3D panels hand their plotting calls the same table as the scripts
  grayscale_boxplots.py, rgb_boxplots.py and rgb_3d.py: the panels are the scripts with
  a filter on the solution, up to and including the pivot and the 3D scatter.
\<close>

theorem panels_are_scripts_for_one_solution:
  assumes "get_master w = Inr m" "''Solution'' \<in> set (columns m)"
    and "\<forall>r \<in> set (rows m). cell_eq (snd r ! find_pos ''Solution'' (columns m)) (Str option1)"
  shows "grayscale w option1 = grayscale_boxplots w \<and> RGB_boxplots w option1 = rgb_boxplots w
    \<and> RGB_3D w option1 = rgb_3d w"
proof -
  have f: "filter_eq ''Solution'' (Str option1) m = Inr m"
    using assms(2,3) by (rule filter_eq_all)
  have g: "filter_eq ''Solution'' (Str option1) m' = Inr m'" if "dropna_subset ''Pattern'' m = Inr m'" for m'
    using dropna_subset_Inr [OF that] assms(2,3) by (intro filter_eq_all) auto
  have "RGB_3D_long w option1 = rgb_3d_long w"
    using assms(1) g by (auto simp: RGB_3D_long_def rgb_3d_long_def res_bind_def split: sum.splits)
  then have "RGB_3D w option1 = rgb_3d w" by (simp add: RGB_3D_def rgb_3d_def)
  then show ?thesis
    using assms(1) f by (simp add: grayscale_def grayscale_boxplots_def RGB_boxplots_def rgb_boxplots_def)
qed

theorem panels_are_scripts_for_one_solution_witness:
  "grayscale ex_di_world ''DI Water'' = grayscale_boxplots ex_di_world
   \<and> RGB_boxplots ex_di_world ''DI Water'' = rgb_boxplots ex_di_world
   \<and> RGB_3D ex_di_world ''DI Water'' = rgb_3d ex_di_world"
proof -
  have h1: "get_master ex_di_world = Inr (projr (get_master ex_di_world))" by code_simp
  have h2: "''Solution'' \<in> set (columns (projr (get_master ex_di_world)))" by code_simp
  have h3: "\<forall>r \<in> set (rows (projr (get_master ex_di_world))).
      cell_eq (snd r ! find_pos ''Solution'' (columns (projr (get_master ex_di_world)))) (Str ''DI Water'')"
    by code_simp
  show ?thesis by (rule panels_are_scripts_for_one_solution [OF h1 h2 h3])
qed

text \<open>
  The scatterplot matrix script (Individual Plots) plots the table of
  corr_heatmap.py with the column \<open>Ph\<close> renamed to \<open>pH\<close>: renaming commutes with
  dropping the empty and the non-numeric columns.
\<close>

theorem scatterplot_matrix_is_renamed_heatmap:
  "scatterplot_matrix w = map_sum id (rename_col ''Ph'' ''pH'') (corr_heatmap w)"
  by (cases "get_master w")
     (simp_all add: scatterplot_matrix_def corr_heatmap_def dropna_all_cols_rename select_numeric_rename)

text \<open>
  On a master list without a column \<open>Ph\<close>, the script Ph_Plots.py and
  the dashboard's pH panel behave alike: same table, same exception.
\<close>

theorem Ph_Plots_agrees_with_panel:
  assumes "get_master w = Inr m" "''Ph'' \<notin> set (columns m)"
  shows "Ph_Plots w = plot_ph w"
  using assms columns_filter_in rename_col_absent
  by (auto simp: Ph_Plots_def plot_ph_def res_bind_def split: sum.splits)

theorem Ph_Plots_agrees_with_panel_witness:
  "Ph_Plots ex_dash_world = plot_ph ex_dash_world"
proof -
  have h1: "get_master ex_dash_world = Inr (projr (get_master ex_dash_world))" by code_simp
  have h2: "''Ph'' \<notin> set (columns (projr (get_master ex_dash_world)))" by code_simp
  show ?thesis by (rule Ph_Plots_agrees_with_panel [OF h1 h2])
qed

text \<open>
  Claim C35. On a master list that spells the column \<open>Ph\<close> (spec section 9), the
  script Ph_Plots.py renames it and plots, while the dashboard's pH panel, which does not
  rename it, raises \<open>ValueError\<close>.
\<close>

theorem Ph_Plots_renames:
  assumes "get_master w = Inr m" "''Ph'' \<in> set (columns m)" "''pH'' \<notin> set (columns m)"
    and "''Solution'' \<in> set (columns m)" "''Time to Failure (ms)'' \<in> set (columns m)"
  shows "plot_ph w = Inl ValueError \<and> (\<exists>df. Ph_Plots w = Inr df \<and> ''pH'' \<in> set (columns df))"
  using assms by (auto simp: Ph_Plots_def plot_ph_def filter_in_def rename_col_def)

theorem Ph_Plots_renames_witness:
  "plot_ph ex_Ph_world = Inl ValueError \<and> (\<exists>df. Ph_Plots ex_Ph_world = Inr df \<and> ''pH'' \<in> set (columns df))"
proof -
  let ?m = "projr (get_master ex_Ph_world)"
  have h1: "get_master ex_Ph_world = Inr ?m" by code_simp
  have h2: "''Ph'' \<in> set (columns ?m)" by code_simp
  have h3: "''pH'' \<notin> set (columns ?m)" by code_simp
  have h4: "''Solution'' \<in> set (columns ?m)" by code_simp
  have h5: "''Time to Failure (ms)'' \<in> set (columns ?m)" by code_simp
  show ?thesis by (rule Ph_Plots_renames [OF h1 h2 h3 h4 h5])
qed

text \<open>
  Once the master list is loaded, corr_heatmap.py selects no column by name, and the table it correlates is well-formed, holds no
  string, and keeps every row.
\<close>

theorem corr_heatmap_numeric:
  assumes "get_master w = Inr m" "frame_wf m"
  shows "\<exists>df. corr_heatmap w = Inr df \<and> frame_wf df \<and> set (columns df) \<subseteq> set (columns m)
    \<and> (\<forall>r \<in> set (rows df). list_all (\<lambda>c. \<not> is_str c) (snd r)) \<and> map fst (rows df) = map fst (rows m)"
proof -
  let ?df = "select_numeric (dropna_all_cols m)"
  have "corr_heatmap w = Inr ?df" using assms(1) by (simp add: corr_heatmap_def)
  moreover have "frame_wf ?df"
    using assms(2) unfolding select_numeric_def dropna_all_cols_def by (intro keep_cols_wf)
  moreover have "set (columns ?df) \<subseteq> set (columns (dropna_all_cols m))"
    unfolding select_numeric_def by (rule keep_cols_columns)
  moreover have "set (columns (dropna_all_cols m)) \<subseteq> set (columns m)"
    unfolding dropna_all_cols_def by (rule keep_cols_columns)
  moreover have "map fst (rows ?df) = map fst (rows m)"
    by (simp add: select_numeric_def dropna_all_cols_def)
  ultimately show ?thesis
    using select_numeric_no_str [of _ "dropna_all_cols m"] by blast
qed

theorem corr_heatmap_numeric_witness:
  "\<exists>df. corr_heatmap ex_dash_world = Inr df \<and> frame_wf df"
proof -
  have h1: "get_master ex_dash_world = Inr (projr (get_master ex_dash_world))" by code_simp
  have h2: "frame_wf (projr (get_master ex_dash_world))" by code_simp
  show ?thesis using corr_heatmap_numeric [OF h1 h2] by blast
qed

text \<open>
  Claim C36. Once a well-formed master list is loaded, corr_heatmap.py computes the
  correlation matrix of the numeric columns without raising: it is square, symmetric,
  every coefficient is \<open>nan\<close> or lies in \<open>[-1, 1]\<close>, every diagonal entry is \<open>nan\<close>
  or 1, and the heatmap raises \<open>ValueError\<close> only when no numeric column is left.
\<close>

theorem corr_heatmap_matrix:
  assumes "get_master w = Inr m" "frame_wf m"
  shows "\<exists>df M. corr_heatmap w = Inr df \<and> df_corr df = Inr M
    \<and> corr_heatmap_plot w = (if columns df = [] then Inl ValueError else Inr M)
    \<and> length M = length (columns df)
    \<and> (\<forall>i < length (columns df). \<forall>j < length (columns df).
          length (M ! i) = length (columns df) \<and> M ! i ! j = M ! j ! i
          \<and> (M ! i ! j = NaN \<or> (\<exists>r. M ! i ! j = Num r \<and> -1 \<le> r \<and> r \<le> 1)))
    \<and> (\<forall>i < length (columns df). M ! i ! i = NaN \<or> M ! i ! i = Num 1)"
proof -
  obtain df where df: "corr_heatmap w = Inr df" and wf: "frame_wf df"
    and ns: "\<forall>r \<in> set (rows df). list_all (\<lambda>c. \<not> is_str c) (snd r)"
    using corr_heatmap_numeric [OF assms] by blast
  obtain M where M: "df_corr df = Inr M" using df_corr_no_str [OF ns wf] by blast
  have "corr_heatmap_plot w = (if columns df = [] then Inl ValueError else Inr M)"
    using df M df_corr_Inr(1) [OF M] by (auto simp: corr_heatmap_plot_def sns_heatmap_def)
  then show ?thesis
    using df M df_corr_Inr [OF M] by blast
qed

theorem corr_heatmap_matrix_witness:
  "\<exists>df M. corr_heatmap ex_dash_world = Inr df \<and> df_corr df = Inr M \<and> length M = length (columns df)
     \<and> corr_heatmap_plot ex_dash_world = Inr M"
proof -
  have h1: "get_master ex_dash_world = Inr (projr (get_master ex_dash_world))" by code_simp
  have h2: "frame_wf (projr (get_master ex_dash_world))" by code_simp
  have c: "columns (projr (corr_heatmap ex_dash_world)) \<noteq> []" by code_simp
  obtain df M where "corr_heatmap ex_dash_world = Inr df" "df_corr df = Inr M"
    "corr_heatmap_plot ex_dash_world = (if columns df = [] then Inl ValueError else Inr M)"
    "length M = length (columns df)"
    using corr_heatmap_matrix [OF h1 h2] by blast
  then show ?thesis using c by auto
qed



end
