(* ===== verification/Spec2Isabelle.thy ===== *)
theory Spec2Isabelle
  imports Launcher Scripts GroupBy
begin

text \<open>
  \<^bold>\<open>A verification development of IDC_EM_analysis.\<close>

  The repository analyses corrosion tests of circuit boards. Its parts:
  \<^item> the loader module \<^verbatim>\<open>src/Analysis/reads.py\<close> (imported as \<open>adds\<close>): a File
    Locator that finds the repository directory from \<open>__file__\<close>, and six loaders of
    the master list, the cached snapshot, the current time series, the CF/CV sweeps and
    the board and sensor images;
  \<^item> the Streamlit dashboard \<^verbatim>\<open>src/Analysis/streamlit_app.py\<close>: nine panels that load
    the master list through the loaders, reshape it with pandas (filters, \<open>melt\<close>,
    \<open>groupby\<close>, \<open>pivot_table\<close>) and plot it, and a data expander;
  \<^item> the standalone plot scripts \<^verbatim>\<open>src/Analysis/{grayscale_boxplots,rgb_boxplots,
    corr_heatmap,rgb_3d}.py\<close> and \<^verbatim>\<open>src/Individual Plots/{scatterplot_matrix,Ph_Plots}.py\<close>;
  \<^item> the plotting hub \<^verbatim>\<open>src/app.py\<close>, whose buttons start the scripts in child
    processes; it and the dashboard start with the same guard that relaunches the file
    under \<open>streamlit run\<close>.

  \<^bold>\<open>Theories.\<close>
  \<^item> \<open>Prelude\<close>: the Python exceptions (\<open>py_exc\<close>), the values a caller passes as
    a file name (\<open>pyval\<close>), the result type \<open>'a result = py_exc + 'a\<close> with
    \<open>res_bind\<close> (an exception propagates, \<open>Inl\<close>), and generic lemmas on lists,
    multisets and sums of reals.
  \<^item> \<open>PyStr\<close>: Python's \<open>str.split\<close> on one character, \<open>str.join\<close>, \<open>int()\<close> of a
    string (white space, sign, digits and single underscores) and \<open>str()\<close> of an
    integer, with the round trips \<open>join (split s) = s\<close> and \<open>int (str n) = n\<close>.
  \<^item> \<open>PosixPath\<close>: \<open>isabs\<close>, \<open>join\<close>, \<open>dirname\<close>, \<open>normpath\<close> and \<open>abspath\<close>
    translated from CPython's \<open>posixpath\<close>; lemmas on clean absolute paths (\<open>clean_abs\<close>),
    joins of relative paths and \<open>..\<close>.
  \<^item> \<open>Frame\<close>: a pandas table as a record of column names and labelled rows of cells;
    \<open>pd.to_numeric(errors="coerce")\<close> through pandas' float grammar, \<open>apply\<close>,
    \<open>dropna\<close>; the invariant \<open>frame_wf\<close> (distinct columns, every row as long as the
    header) and its preservation (collection \<open>frame_wf_intros\<close>).
  \<^item> \<open>Pandas\<close>: the pandas operations of the panels and scripts: column access and
    assignment, filters, \<open>dropna\<close> variants, \<open>select_dtypes\<close>, \<open>melt\<close>,
    \<open>unique\<close>, \<open>Categorical\<close>, \<open>rename\<close>, arithmetic on cells.
  \<^item> \<open>GroupBy\<close>: \<open>groupby(...).agg("mean").reset_index()\<close> (\<open>group_mean\<close>) and
    \<open>pivot_table(...).reset_index()\<close> (\<open>pivot_mean\<close>). Groups are sorted in the order
    of pandas' \<open>safe_sort\<close>, an instance \<open>linorder\<close> of \<open>cell\<close> (numbers before
    strings, strings by code point), keys with a missing cell are dropped, and
    \<open>cell_mean\<close> is \<open>Series.mean\<close> (skips \<open>nan\<close>, IEEE infinities, \<open>TypeError\<close> on
    strings). The pivot is characterised by its groups (C28).
  \<^item> \<open>Corr\<close>: \<open>DataFrame.corr()\<close> as pandas' \<open>nancorr\<close> computes it: for each
    pair of columns the rows where both cells are finite (\<open>complete_pairs\<close>), the
    mean, the sums of squared deviations (\<open>ssqdm\<close>) and the co-deviation (\<open>codev\<close>),
    \<open>nan\<close> when there is no row or the divisor is 0, and the quotient clipped to
    [-1, 1] (\<open>nancorr_pair\<close>); \<open>TypeError\<close>/\<open>ValueError\<close> on a string column
    (\<open>df_corr\<close>); \<open>sns.heatmap\<close> raising \<open>ValueError\<close> on an empty matrix.
    A Cauchy--Schwarz inequality on lists shows the clip never changes the quotient.
  \<^item> \<open>Reads\<close>: reads.py. A \<open>world\<close> record is the current directory, the
    \<open>__file__\<close> of reads.py and the file system as \<open>read_csv\<close> and \<open>imread\<close> see it;
    each loader is a function of the world (\<open>get_master\<close>, \<open>get_master_cached\<close>,
    \<open>get_current_time\<close>, \<open>get_cf_or_cv\<close>, \<open>get_board_image\<close>,
    \<open>get_sensor_image\<close>), with the spec's sweep loader as an abstract specification
    (\<open>sweep_load_spec\<close>) that \<open>get_cf_or_cv\<close> refines (C1).
  \<^item> \<open>Dashboard\<close>: each panel of streamlit_app.py up to its plotting call (the table it
    plots or its exception): \<open>RGB_3D\<close> through its pivot and the column check of
    \<open>px.scatter_3d\<close>; \<open>CF_CV\<close> and \<open>current_vs_time\<close> as the attribute lookup in
    \<open>adds\<close> that fails (\<open>getattr_adds\<close>) followed by their bodies
    (\<open>CF_CV_body\<close>: capacitance filter, per-sensor averages, the lines of the six plots;
    \<open>current_vs_time_body\<close>: the sensor identifier, one facet grid and title per
    voltage), on whatever the missing loaders would return; the heatmap panel through
    \<open>df_corr\<close> and \<open>sns_heatmap\<close>; the failure-time and current-time grids through
    \<open>facet_grid\<close> (palette keys of the hue column, the row and column variables) and
    the rows the failure-time point plots place (\<open>pointplot_rows\<close>: a pattern of
    \<open>row_order\<close>, a sensor, a solution of the plot's \<open>order\<close>); the sidebar's
    solutions (\<open>sidebar_solutions\<close>); and the page
    (\<open>dashboard_page\<close>) as the sequence of panels Streamlit runs until the first
    exception.
  \<^item> \<open>Scripts\<close>: the six standalone scripts up to their plotting calls.
  \<^item> \<open>Launcher\<close>: processes (\<open>proc\<close>: \<open>sys.executable\<close>, current directory,
    \<open>__file__\<close>, \<open>sys.argv\<close>), the relaunch guard of app.py and streamlit_app.py as an
    inductive step relation \<open>relaunch\<close>, and the buttons of app.py.

  \<^bold>\<open>What the lemmas show.\<close>
  C1--C17 (Reads): \<open>get_cf_or_cv\<close> refines the spec's sweep loader except where it raises
  \<open>ValueError\<close> on a non-integer iteration or lets a read failure escape (C1, C4, C17);
  names of seven components locate the file the spec names (C2, C16); other names give
  \<open>None\<close> (C3); sweep and time-series tables hold only numbers (C5, C6); missing files
  (C7); \<open>get_master\<close> coerces exactly \<open>Voltage\<close> and \<open>Pattern\<close> and keeps every row
  (C8); the File Locator finds the root from any current directory (C10, C11) while the
  sweep and time-series paths depend on it (C12); the image loaders (C15).
  C9, C14 (CF/CV panel body): it raises \<open>UnboundLocalError\<close> exactly when a filtered
  sweep table is empty (C9), and every plotted capacitance is a mean strictly between 0
  and 100 (C14).
  C13, C18--C25 and C38--C40 (Dashboard): the RGB boxplot panel's fixed tick labels
  make it raise \<open>ValueError\<close> unless the solution has exactly four patterns (C13);
  the page never gets past the CF/CV panel, whatever
  the missing loaders would return (C18); a solution of the sidebar without rows makes
  the 3D panel raise \<open>ValueError\<close> and the page render nothing (C19); the scatterplot
  matrix and heatmap need a column \<open>Brightness Difference\<close> that the master list does
  not have (C20) and plot only numeric columns (C21); the failure-time panel
  partitions the rows with a voltage among its figures (C22); the grayscale panel's
  difference and categories (C23, C24); the pH panel needs a column spelled \<open>pH\<close>
  (C25); the failure-time point plots place exactly the rows with a voltage, a
  pattern of \<open>row_order\<close>, a sensor and a solution of the plot order, so a board in
  Succinic 20mM, which the sidebar offers, is never drawn (C38); the panel raises only
  \<open>KeyError\<close>, \<open>TypeError\<close> or \<open>OverflowError\<close> (C39), and titles distinct
  voltages alike when they truncate to the same integer (C40).
  C28 (GroupBy): the pivot has one sorted row per index key and, in each channel
  column, the mean of that key and channel.
  C26, C27, C29--C31, C34 (Launcher): the relaunch happens at most once and always
  reaches the page (C26, C27, by rule induction on the reflexive transitive closure of
  \<open>relaunch\<close>); the relaunched dashboard's data expander reads the master list
  (C29); the hub's buttons resolve against the repository directory (C30), five of the
  nine name scripts that are not in the repository (C31), and every button is
  eventually live: some run reached by relaunching starts its script when it is
  pressed (C34).
  C33 (Corr): the coefficient \<open>nancorr\<close> computes, with its clip, equals the
  Pearson coefficient of the pairwise-complete rows (\<open>pearson_ref\<close>).
  C32, C35--C37 (Scripts): the dashboard's grayscale, RGB and 3D panels are the
  scripts with a filter on the solution (C32); Ph_Plots.py renames \<open>Ph\<close> (C35);
  on a well-formed master list corr_heatmap.py's matrix exists, is square, symmetric,
  in [-1, 1] with 1 or \<open>nan\<close> on its diagonal, and \<open>sns.heatmap\<close> raises only when
  no column is numeric (C36); \<open>melt\<close> lays out rgb_boxplots.py's long table (C37).

  \<^bold>\<open>Choices of the model.\<close> Files are read through an abstract outcome of
  \<open>read_csv\<close> (no file, unreadable, or a table), so CSV parsing is not modelled. Numbers
  are reals: IEEE rounding is not modelled, infinities and \<open>nan\<close> are cells of their
  own. A column's dtype is derived from its cells (numeric iff no string), which is
  what \<open>read_csv\<close> and \<open>to_numeric\<close> give; so a column without strings cannot be
  concatenated with a string. White space is the Latin-1 set that \<open>int()\<close> strips.
  The functions \<open>adds.get_master_cf_or_cv\<close> and \<open>adds.get_master_current_time\<close>,
  which reads.py does not define, are parameters of the page; the panel bodies after
  them are modelled on every table they could return. No loop of the program can run
  forever, so every definition is total and no fuel is needed; the relaunch of a
  Streamlit script is a relation whose chains are proved to have at most one step.

  \<^bold>\<open>Not modelled.\<close> The figures themselves (seaborn, matplotlib, plotly): the
  model stops at the table or matrix a plotting call receives, the rows the failure-time
  point plots place, and the exceptions the calls raise on missing columns, palette
  keys, tick labels and an empty matrix; the checks \<open>sns.pointplot\<close> makes of its
  own x and y columns, the means it draws, axes, fonts and titles' placement are
  drawing, not values. The Pattern selectbox of the sidebar (\<open>option2\<close>) is read by
  no code, so the model has no parameter for it. Streamlit's widgets and layout (sidebar, containers, button state); the
  child processes as running programs (only the process a button starts is modelled,
  not the script's run in it). The cache update script, which is not in the
  repository.
\<close>

end
